theory Spec2Isabelle
  imports Main "HOL-Library.AList"
begin

section \<open>Python values used by the services\<close>

text \<open>
  Every \<^verbatim>\<open>raise\<close> of the services is a value: \<open>HTTPException status_code detail\<close> is
  FastAPI's exception, \<open>TypeError\<close> and \<open>AttributeError\<close> are the interpreter's,
  \<open>IntegrityError\<close> and \<open>StaleDataError\<close> are what SQLAlchemy raises at
  \<^verbatim>\<open>commit\<close> when a NOT NULL, UNIQUE or PRIMARY KEY constraint declared in
  \<^verbatim>\<open>models/\<close> is violated, or when an UPDATE matches no row; \<open>DataError\<close> is the failure
  of a write whose integer does not fit an \<^verbatim>\<open>Integer\<close> column (SQLAlchemy's
  \<^verbatim>\<open>DataError\<close>, or the \<^verbatim>\<open>OverflowError\<close> of the SQLite driver). A call that fails
  before or at its \<^verbatim>\<open>commit\<close> leaves the database as it was.
\<close>

datatype error =
    HTTPException (status_code: nat) (detail: string)
  | TypeError
  | AttributeError
  | IntegrityError
  | StaleDataError
  | DataError

text \<open>
  A Python \<^verbatim>\<open>float\<close> is an IEEE 754 binary64 value: \<open>Finite s m e\<close> is
  \<^verbatim>\<open>(-1)^s * m * 2^e\<close> (with \<open>m = 0\<close> for the two zeros), \<open>Infinity s\<close> the infinity of
  sign \<open>s\<close>, \<open>NaN\<close> not-a-number. \<open>scaled e s m e'\<close> is the value of \<open>Finite s m e'\<close> in
  units of \<^verbatim>\<open>2^e\<close>, for \<open>e\<close> at most \<open>e'\<close>.
\<close>

datatype pyfloat = Finite bool nat int | Infinity bool | NaN

definition scaled :: "int \<Rightarrow> bool \<Rightarrow> nat \<Rightarrow> int \<Rightarrow> int" where
  "scaled e s m e' = (if s then - int m else int m) * 2 ^ nat (e' - e)"

text \<open>\<^verbatim>\<open>x > y\<close>: false when either side is NaN; the two zeros are equal.\<close>

fun fgt :: "pyfloat \<Rightarrow> pyfloat \<Rightarrow> bool" where
  "fgt NaN y = False"
| "fgt x NaN = False"
| "fgt (Infinity s) (Infinity s') = (\<not> s \<and> s')"
| "fgt (Infinity s) (Finite s' m' e') = (\<not> s)"
| "fgt (Finite s m e) (Infinity s') = s'"
| "fgt (Finite s m e) (Finite s' m' e') =
     (scaled (min e e') s m e > scaled (min e e') s' m' e')"

fun fneg :: "pyfloat \<Rightarrow> pyfloat" where
  "fneg (Finite s m e) = Finite (\<not> s) m e"
| "fneg (Infinity s) = Infinity (\<not> s)"
| "fneg NaN = NaN"

text \<open>
  \<^verbatim>\<open>x + y\<close>: the exact sum, rounded. The rounding of a non-zero magnitude \<^verbatim>\<open>k * 2^e\<close> to a
  binary64 magnitude (to nearest, ties to even, \<open>None\<close> on overflow) is the parameter
  \<open>fl\<close>; the sign of the result is the sign of the exact sum. An exact sum of zero is
  \<open>+0.0\<close> unless both operands are \<open>-0.0\<close>.
\<close>

fun fadd :: "(nat \<Rightarrow> int \<Rightarrow> (nat \<times> int) option) \<Rightarrow> pyfloat \<Rightarrow> pyfloat \<Rightarrow> pyfloat" where
  "fadd fl NaN y = NaN"
| "fadd fl x NaN = NaN"
| "fadd fl (Infinity s) (Infinity s') = (if s = s' then Infinity s else NaN)"
| "fadd fl (Infinity s) (Finite s' m' e') = Infinity s"
| "fadd fl (Finite s m e) (Infinity s') = Infinity s'"
| "fadd fl (Finite s m e) (Finite s' m' e') =
     (let k = scaled (min e e') s m e + scaled (min e e') s' m' e'
      in if k = 0 then Finite (s \<and> s') 0 0
         else case fl (nat \<bar>k\<bar>) (min e e') of
                None \<Rightarrow> Infinity (k < 0)
              | Some (m'', e'') \<Rightarrow> Finite (k < 0) m'' e'')"

text \<open>The builtin \<^verbatim>\<open>max(a, b)\<close>: \<open>b\<close> replaces \<open>a\<close> only when \<^verbatim>\<open>b > a\<close>.\<close>

definition py_max :: "pyfloat \<Rightarrow> pyfloat \<Rightarrow> pyfloat" where
  "py_max a b = (if fgt b a then b else a)"

text \<open>
  JSON columns (\<^verbatim>\<open>visible_to\<close>, \<^verbatim>\<open>dimensions\<close>, \<^verbatim>\<open>position\<close>, \<^verbatim>\<open>content\<close>) hold
  Python values decoded from JSON. A dictionary is an association list in insertion order;
  its keys are distinct (\<open>is_dict\<close>).
\<close>

datatype json =
    JNull
  | JBool bool
  | JInt int
  | JFloat pyfloat
  | JStr string
  | JList "json list"
  | JDict "(string \<times> json) list"

type_synonym py_dict = "(string \<times> json) list"

type_synonym datetime = int

definition is_dict :: "('k \<times> 'v) list \<Rightarrow> bool" where
  "is_dict d = distinct (map fst d)"

text \<open>\<^verbatim>\<open>bool(v)\<close> for a JSON value.\<close>

fun truthy :: "json \<Rightarrow> bool" where
  "truthy JNull = False"
| "truthy (JBool b) = b"
| "truthy (JInt i) = (i \<noteq> 0)"
| "truthy (JFloat f) = (case f of Finite s m e \<Rightarrow> m \<noteq> 0 | _ \<Rightarrow> True)"
| "truthy (JStr s) = (s \<noteq> [])"
| "truthy (JList xs) = (xs \<noteq> [])"
| "truthy (JDict d) = (d \<noteq> [])"

text \<open>
  \<^verbatim>\<open>v == n\<close> for an integer \<open>n\<close>: \<^verbatim>\<open>True == 1\<close> and \<^verbatim>\<open>False == 0\<close> hold in Python,
  and a float is compared with an integer by its exact value.
\<close>

fun eq_int :: "json \<Rightarrow> int \<Rightarrow> bool" where
  "eq_int (JInt i) n = (i = n)"
| "eq_int (JBool b) n = ((if b then 1 else 0) = n)"
| "eq_int (JFloat f) n =
     (case f of
        Finite s m e \<Rightarrow>
          if 0 \<le> e then scaled 0 s m e = n else scaled e s m e = n * 2 ^ nat (- e)
      | _ \<Rightarrow> False)"
| "eq_int _ n = False"

text \<open>
  \<^verbatim>\<open>n in v\<close> for an integer \<open>n\<close>: a list is searched with \<^verbatim>\<open>==\<close>, a dictionary
  is searched among its keys (strings, never equal to an integer), anything else raises
  \<^verbatim>\<open>TypeError\<close>.
\<close>

fun int_in :: "int \<Rightarrow> json \<Rightarrow> error + bool" where
  "int_in n (JList xs) = Inr (\<exists>x \<in> set xs. eq_int x n)"
| "int_in n (JDict d) = Inr False"
| "int_in n _ = Inl TypeError"

text \<open>\<^verbatim>\<open>d.get(k)\<close>, \<^verbatim>\<open>k in d\<close> and \<^verbatim>\<open>{**cur, **patch}\<close>.\<close>

definition dict_get :: "('k \<times> 'v) list \<Rightarrow> 'k \<Rightarrow> 'v option" where
  "dict_get d k = map_of d k"

definition dict_contains :: "('k \<times> 'v) list \<Rightarrow> 'k \<Rightarrow> bool" where
  "dict_contains d k = (map_of d k \<noteq> None)"

definition dict_merge :: "('k \<times> 'v) list \<Rightarrow> ('k \<times> 'v) list \<Rightarrow> ('k \<times> 'v) list" where
  "dict_merge cur patch = fold (\<lambda>(k, v). AList.update k v) patch cur"

text \<open>\<^verbatim>\<open>str(n)\<close> for the f-string of \<^verbatim>\<open>_check_image_exists\<close>.\<close>

fun str_nat :: "nat \<Rightarrow> string" where
  "str_nat n =
     (if n < 10 then [''0123456789'' ! n]
      else str_nat (n div 10) @ [''0123456789'' ! (n mod 10)])"

definition str_int :: "int \<Rightarrow> string" where
  "str_int i = (if i < 0 then CHR ''-'' # str_nat (nat (- i)) else str_nat (nat i))"

text \<open>
  An autoincremented primary key: one more than the largest key of the table.
  \<open>update_row\<close> is \<^verbatim>\<open>UPDATE ... WHERE id = ?\<close>, what the unit of work emits for a
  mutated object.
\<close>

definition fresh_id :: "int list \<Rightarrow> int" where
  "fresh_id ids = fold max ids 0 + 1"

definition update_row :: "('a \<Rightarrow> int) \<Rightarrow> 'a \<Rightarrow> 'a list \<Rightarrow> 'a list" where
  "update_row pk row rows = map (\<lambda>r. if pk r = pk row then row else r) rows"

text \<open>
  An \<^verbatim>\<open>Integer\<close> column holds the signed integers of \<open>w\<close> bits, where \<open>w\<close> is the width
  of the engine's INTEGER type (32 for PostgreSQL and MySQL, 64 for SQLite; the engine is
  chosen by \<^verbatim>\<open>DATABASE_URL\<close>).
\<close>

definition fits_integer :: "nat \<Rightarrow> int \<Rightarrow> bool" where
  "fits_integer w i \<longleftrightarrow> - (2 ^ (w - 1)) \<le> i \<and> i < 2 ^ (w - 1)"

section \<open>models/organization.py, models/user.py\<close>

datatype OrganizationVisibility = "public" | "private"

datatype OrganizationJoinMode = "open" | approval | invite_only | closed

datatype OrganizationRoleType = owner | admin | mj | member | guest

datatype MembershipStatus = active | pending | invited | suspended | banned

datatype GlobalUserRole = admin | user

record Organization =
  id :: int
  name :: string
  slug :: string
  description :: "string option"
  visibility :: OrganizationVisibility
  join_mode :: OrganizationJoinMode
  is_active :: bool

record OrganizationMembership =
  id :: int
  user_id :: int
  organization_id :: int
  role :: OrganizationRoleType
  status :: MembershipStatus
  approved_by_id :: "int option"
  approved_at :: "datetime option"

record User =
  id :: int
  email :: string
  hashed_password :: string
  global_role :: GlobalUserRole
  is_active :: bool

record RefreshToken =
  id :: int
  token :: string
  user_id :: int
  expires_at :: datetime
  revoked :: bool
  created_at :: datetime
  revoked_at :: "datetime option"

section \<open>models/image.py, models/jdr.py\<close>

record ImageAsset =
  id :: int
  url :: string

datatype JDRStatus = draft | "open" | in_progress | paused | completed | cancelled

datatype MembershipJDRStatus = pending | active | rejected | kicked | left

datatype BoardElementType =
  character | monster | item | map_element | "note" | image_element

record JDR =
  id :: int
  organization_id :: int
  mj_id :: "int option"
  name :: string
  status :: JDRStatus
  max_players :: int

record JDRMembership =
  id :: int
  jdr_id :: int
  user_id :: int
  status :: MembershipJDRStatus
  join_message :: "string option"
  approved_by_id :: "int option"
  approved_at :: "datetime option"

record Character =
  id :: int
  jdr_id :: int
  owner_id :: int
  name :: string
  avatar_image_id :: "int option"
  gold :: pyfloat

record ItemTemplate =
  id :: int
  name :: string
  image_id :: "int option"

record GameItem =
  id :: int
  jdr_id :: int
  template_id :: "int option"
  custom_name :: "string option"
  custom_image_id :: "int option"
  quantity :: int

record CharacterInventory =
  id :: int
  character_id :: int
  game_item_id :: int
  quantity :: int
  is_equipped :: bool
  equipment_slot :: "string option"
  mj_notes :: "string option"

record Board =
  id :: int
  jdr_id :: int
  name :: string
  background_image_id :: "int option"
  dimensions :: "py_dict option"
  updated_at :: datetime

record BoardElement =
  id :: int
  board_id :: int
  element_type :: BoardElementType
  character_id :: "int option"
  game_item_id :: "int option"
  image_id :: "int option"
  content :: "py_dict option"
  position :: "py_dict option"
  is_visible :: bool
  visible_to :: "py_dict option"
  updated_at :: datetime

text \<open>
  The database: one list of rows per table, in the order the queries return them
  (\<^verbatim>\<open>.first()\<close> is the first row of the list that passes the filter).
\<close>

record Database =
  users :: "User list"
  refresh_tokens :: "RefreshToken list"
  organizations :: "Organization list"
  organization_memberships :: "OrganizationMembership list"
  jdrs :: "JDR list"
  jdr_memberships :: "JDRMembership list"
  characters :: "Character list"
  item_templates :: "ItemTemplate list"
  game_items :: "GameItem list"
  character_inventory :: "CharacterInventory list"
  boards :: "Board list"
  board_elements :: "BoardElement list"
  image_assets :: "ImageAsset list"

section \<open>models/user.py: the role check\<close>

text \<open>The relationship \<^verbatim>\<open>User.organization_memberships\<close>: the rows of this user.\<close>

definition User_organization_memberships :: "Database \<Rightarrow> User \<Rightarrow> OrganizationMembership list" where
  "User_organization_memberships db self =
     filter (\<lambda>m. OrganizationMembership.user_id m = User.id self) (organization_memberships db)"

definition get_organization_role :: "Database \<Rightarrow> User \<Rightarrow> int \<Rightarrow> OrganizationRoleType option" where
  "get_organization_role db self org_id =
     (case find (\<lambda>m. OrganizationMembership.organization_id m = org_id
                     \<and> OrganizationMembership.status m = MembershipStatus.active)
                (User_organization_memberships db self) of
        None \<Rightarrow> None
      | Some membership \<Rightarrow> Some (role membership))"

definition is_member_of :: "Database \<Rightarrow> User \<Rightarrow> int \<Rightarrow> bool" where
  "is_member_of db self org_id =
     (\<exists>m \<in> set (User_organization_memberships db self).
        OrganizationMembership.organization_id m = org_id
        \<and> OrganizationMembership.status m = MembershipStatus.active)"

definition role_hierarchy :: "(OrganizationRoleType \<times> int) list" where
  "role_hierarchy =
     [(guest, 0), (member, 1), (mj, 2), (OrganizationRoleType.admin, 3), (owner, 4)]"

text \<open>
  \<open>role_rank r\<close> is \<^verbatim>\<open>role_hierarchy.get(r, 0)\<close> and \<open>has_at_least\<close> is the comparison
  \<^verbatim>\<open>has_permission_in_org\<close> returns once the user's role is known.
\<close>

definition role_rank :: "OrganizationRoleType \<Rightarrow> int" where
  "role_rank r = (case dict_get role_hierarchy r of None \<Rightarrow> 0 | Some n \<Rightarrow> n)"

definition has_at_least :: "OrganizationRoleType \<Rightarrow> OrganizationRoleType \<Rightarrow> bool" where
  "has_at_least user_role min_role = (role_rank user_role \<ge> role_rank min_role)"

definition has_permission_in_org :: "Database \<Rightarrow> User \<Rightarrow> int \<Rightarrow> OrganizationRoleType \<Rightarrow> bool" where
  "has_permission_in_org db self org_id min_role =
     (case get_organization_role db self org_id of
        None \<Rightarrow> False
      | Some user_role \<Rightarrow> has_at_least user_role min_role)"

text \<open>The ranking as the specification words it, to compare with \<open>role_rank\<close>.\<close>

fun rank_spec :: "OrganizationRoleType \<Rightarrow> int" where
  "rank_spec guest = 0"
| "rank_spec member = 1"
| "rank_spec mj = 2"
| "rank_spec OrganizationRoleType.admin = 3"
| "rank_spec owner = 4"

section \<open>services/organization_service.py\<close>

text \<open>
  The module defines \<^verbatim>\<open>update_member_role\<close> twice. Python binds the name to the
  second definition (lines 362-403), the one the router imports; the first
  (lines 142-191) is dead code. Both are modelled: \<open>update_member_role_first\<close> is the
  first, \<open>update_member_role\<close> the one that runs.
\<close>

definition target_membership :: "Database \<Rightarrow> int \<Rightarrow> int \<Rightarrow> OrganizationMembership option" where
  "target_membership db org_id target_user_id =
     find (\<lambda>m. OrganizationMembership.user_id m = target_user_id
               \<and> OrganizationMembership.organization_id m = org_id)
          (organization_memberships db)"

definition update_member_role_first ::
  "Database \<Rightarrow> User \<Rightarrow> int \<Rightarrow> int \<Rightarrow> OrganizationRoleType
     \<Rightarrow> error + (Database \<times> OrganizationMembership)" where
  "update_member_role_first db requester org_id target_user_id new_role =
     (if \<not> has_permission_in_org db requester org_id OrganizationRoleType.admin
      then Inl (HTTPException 403 ''Insufficient permissions - Admin role required'')
      else case target_membership db org_id target_user_id of
        None \<Rightarrow> Inl (HTTPException 404 ''Membership not found'')
      | Some membership \<Rightarrow>
          if role membership = owner
          then Inl (HTTPException 400 ''Cannot change owner role'')
          else if new_role = owner \<and> \<not> has_permission_in_org db requester org_id owner
          then Inl (HTTPException 403 ''Only owners can promote to owner role'')
          else let membership' = membership\<lparr>role := new_role\<rparr>
               in Inr (db\<lparr>organization_memberships :=
                           update_row OrganizationMembership.id membership'
                             (organization_memberships db)\<rparr>,
                       membership'))"

definition update_member_role ::
  "Database \<Rightarrow> User \<Rightarrow> int \<Rightarrow> int \<Rightarrow> OrganizationRoleType
     \<Rightarrow> error + (Database \<times> OrganizationMembership)" where
  "update_member_role db requester org_id target_user_id new_role =
     (if \<not> has_permission_in_org db requester org_id OrganizationRoleType.admin
      then Inl (HTTPException 403 ''Insufficient permissions'')
      else case target_membership db org_id target_user_id of
        None \<Rightarrow> Inl (HTTPException 404 ''Membership not found'')
      | Some membership \<Rightarrow>
          if role membership = owner
          then Inl (HTTPException 400 ''Cannot change owner role'')
          else let membership' = membership\<lparr>role := new_role\<rparr>
               in Inr (db\<lparr>organization_memberships :=
                           update_row OrganizationMembership.id membership'
                             (organization_memberships db)\<rparr>,
                       membership'))"

text \<open>
  The other functions of the module that write the membership table. The module also
  defines \<^verbatim>\<open>join_organization\<close> and \<^verbatim>\<open>approve_membership\<close> twice; the second of each
  is the one bound, as above.
\<close>

definition create_organization ::
  "Database \<Rightarrow> User \<Rightarrow> string \<Rightarrow> string \<Rightarrow> string option \<Rightarrow> OrganizationVisibility
     \<Rightarrow> OrganizationJoinMode \<Rightarrow> error + (Database \<times> Organization)" where
  "create_organization db creator org_name org_slug descr vis mode =
     (case find (\<lambda>g. slug g = org_slug) (organizations db) of
        Some existing \<Rightarrow> Inl (HTTPException 400 ''Organization slug already exists'')
      | None \<Rightarrow>
          let org = \<lparr>Organization.id = fresh_id (map Organization.id (organizations db)),
                     name = org_name, slug = org_slug, description = descr,
                     visibility = vis, join_mode = mode, is_active = True\<rparr>;
              membership =
                \<lparr>OrganizationMembership.id =
                   fresh_id (map OrganizationMembership.id (organization_memberships db)),
                 user_id = User.id creator,
                 organization_id = Organization.id org,
                 role = owner,
                 status = MembershipStatus.active,
                 approved_by_id = None,
                 approved_at = None\<rparr>
          in Inr (db\<lparr>organizations := organizations db @ [org],
                     organization_memberships := organization_memberships db @ [membership]\<rparr>,
                  org))"

definition join_organization ::
  "Database \<Rightarrow> User \<Rightarrow> int \<Rightarrow> string option \<Rightarrow> error + (Database \<times> OrganizationMembership)" where
  "join_organization db joiner org_id message =
     (case find (\<lambda>g. Organization.id g = org_id) (organizations db) of
        None \<Rightarrow> Inl (HTTPException 404 ''Organization not found'')
      | Some org \<Rightarrow>
          if \<not> Organization.is_active org
          then Inl (HTTPException 400 ''Organization is not active'')
          else case find (\<lambda>m. OrganizationMembership.user_id m = User.id joiner
                             \<and> OrganizationMembership.organization_id m = org_id
                             \<and> OrganizationMembership.status m
                                 \<in> set [MembershipStatus.active, MembershipStatus.pending])
                         (organization_memberships db) of
            Some existing \<Rightarrow> Inl (HTTPException 400 ''Already a member or pending approval'')
          | None \<Rightarrow>
              if join_mode org = closed
              then Inl (HTTPException 403 ''This organization is closed'')
              else if join_mode org = invite_only
              then Inl (HTTPException 403 ''This organization is invite-only'')
              else
                let initial_status =
                      (if join_mode org = OrganizationJoinMode.open
                       then MembershipStatus.active else MembershipStatus.pending);
                    membership =
                      \<lparr>OrganizationMembership.id =
                         fresh_id (map OrganizationMembership.id (organization_memberships db)),
                       user_id = User.id joiner,
                       organization_id = org_id,
                       role = member,
                       status = initial_status,
                       approved_by_id = None,
                       approved_at = None\<rparr>
                in Inr (db\<lparr>organization_memberships :=
                             organization_memberships db @ [membership]\<rparr>,
                        membership))"

definition approve_membership ::
  "Database \<Rightarrow> User \<Rightarrow> int \<Rightarrow> int \<Rightarrow> datetime \<Rightarrow> error + (Database \<times> OrganizationMembership)" where
  "approve_membership db requester org_id membership_id now =
     (if \<not> has_permission_in_org db requester org_id OrganizationRoleType.admin
      then Inl (HTTPException 403 ''Insufficient permissions'')
      else case find (\<lambda>m. OrganizationMembership.id m = membership_id
                         \<and> OrganizationMembership.organization_id m = org_id
                         \<and> OrganizationMembership.status m = MembershipStatus.pending)
                     (organization_memberships db) of
        None \<Rightarrow> Inl (HTTPException 404 ''Pending membership not found'')
      | Some membership \<Rightarrow>
          let membership' = membership\<lparr>OrganizationMembership.status := MembershipStatus.active,
                                       OrganizationMembership.approved_by_id := Some (User.id requester),
                                       OrganizationMembership.approved_at := Some now\<rparr>
          in Inr (db\<lparr>organization_memberships :=
                       update_row OrganizationMembership.id membership'
                         (organization_memberships db)\<rparr>,
                  membership'))"

text \<open>
  A request to one of these four functions; a failed request leaves the database as it
  was, and \<open>run_org_ops\<close> serves a sequence of requests one after the other.
\<close>

datatype org_op =
    CreateOrganization User string string "string option" OrganizationVisibility
      OrganizationJoinMode
  | JoinOrganization User int "string option"
  | UpdateMemberRole User int int OrganizationRoleType
  | ApproveMembership User int int datetime

fun run_org_op :: "Database \<Rightarrow> org_op \<Rightarrow> error + Database" where
  "run_org_op db (CreateOrganization u n s d v j) =
     map_sum (\<lambda>e. e) fst (create_organization db u n s d v j)"
| "run_org_op db (JoinOrganization u g msg) = map_sum (\<lambda>e. e) fst (join_organization db u g msg)"
| "run_org_op db (UpdateMemberRole u g t r) = map_sum (\<lambda>e. e) fst (update_member_role db u g t r)"
| "run_org_op db (ApproveMembership u g i now) =
     map_sum (\<lambda>e. e) fst (approve_membership db u g i now)"

definition apply_org_op :: "org_op \<Rightarrow> Database \<Rightarrow> Database" where
  "apply_org_op op db = (case run_org_op db op of Inl e \<Rightarrow> db | Inr db' \<Rightarrow> db')"

definition run_org_ops :: "Database \<Rightarrow> org_op list \<Rightarrow> Database" where
  "run_org_ops db ops = fold apply_org_op ops db"

text \<open>
  A small organization for the examples: organization 1 with user 1 its owner, user 2 an
  admin, user 3 a member, all active.
\<close>

definition empty_db :: Database where
  "empty_db = \<lparr>users = [], refresh_tokens = [], organizations = [],
     organization_memberships = [], jdrs = [], jdr_memberships = [], characters = [],
     item_templates = [], game_items = [], character_inventory = [], boards = [],
     board_elements = [], image_assets = []\<rparr>"

definition demo_user :: "int \<Rightarrow> User" where
  "demo_user i = \<lparr>User.id = i, email = ''u@x.com'', hashed_password = ''h'',
     global_role = GlobalUserRole.user, is_active = True\<rparr>"

definition demo_membership :: "int \<Rightarrow> int \<Rightarrow> OrganizationRoleType \<Rightarrow> OrganizationMembership" where
  "demo_membership i u r = \<lparr>OrganizationMembership.id = i, user_id = u, organization_id = 1,
     role = r, status = MembershipStatus.active, approved_by_id = None, approved_at = None\<rparr>"

definition demo_org_db :: Database where
  "demo_org_db = empty_db\<lparr>
     organizations := [\<lparr>Organization.id = 1, name = ''Guild'', slug = ''guild'',
        description = None, visibility = OrganizationVisibility.public,
        join_mode = approval, is_active = True\<rparr>],
     organization_memberships :=
       [demo_membership 1 1 owner, demo_membership 2 2 OrganizationRoleType.admin,
        demo_membership 3 3 member]\<rparr>"

text \<open>
  The invariant behind the immutability of the owner role: the row with primary key \<open>i\<close>
  exists and every row with that key has role \<open>owner\<close>.
\<close>

definition owner_inv :: "int \<Rightarrow> Database \<Rightarrow> bool" where
  "owner_inv i db \<longleftrightarrow>
     i \<in> OrganizationMembership.id ` set (organization_memberships db)
     \<and> (\<forall>m \<in> set (organization_memberships db).
           OrganizationMembership.id m = i \<longrightarrow> role m = owner)"

section \<open>services/jdr_service.py: checks\<close>

text \<open>
  The helpers \<^verbatim>\<open>_check_org_membership\<close>, \<^verbatim>\<open>_check_is_mj\<close>, \<^verbatim>\<open>_check_is_player\<close> and
  \<^verbatim>\<open>_check_image_exists\<close> (their names without the leading underscore).
\<close>

definition check_org_membership :: "Database \<Rightarrow> int \<Rightarrow> int \<Rightarrow> error + OrganizationMembership" where
  "check_org_membership db uid org_id =
     (case find (\<lambda>m. OrganizationMembership.user_id m = uid
                     \<and> OrganizationMembership.organization_id m = org_id
                     \<and> OrganizationMembership.status m = MembershipStatus.active)
                (organization_memberships db) of
        None \<Rightarrow> Inl (HTTPException 403 ''You must be a member of this organization'')
      | Some membership \<Rightarrow> Inr membership)"

definition check_is_mj :: "Database \<Rightarrow> User \<Rightarrow> int \<Rightarrow> error + JDR" where
  "check_is_mj db u jid =
     (case find (\<lambda>j. JDR.id j = jid) (jdrs db) of
        None \<Rightarrow> Inl (HTTPException 404 ''JDR not found'')
      | Some jdr \<Rightarrow>
          if mj_id jdr \<noteq> Some (User.id u)
          then Inl (HTTPException 403 ''Only the MJ can perform this action'')
          else Inr jdr)"

definition check_is_player :: "Database \<Rightarrow> int \<Rightarrow> int \<Rightarrow> error + JDRMembership" where
  "check_is_player db uid jid =
     (case find (\<lambda>m. JDRMembership.user_id m = uid
                     \<and> JDRMembership.jdr_id m = jid
                     \<and> JDRMembership.status m = MembershipJDRStatus.active)
                (jdr_memberships db) of
        None \<Rightarrow> Inl (HTTPException 403 ''You must be an active player in this JDR'')
      | Some membership \<Rightarrow> Inr membership)"

definition check_image_exists :: "Database \<Rightarrow> int \<Rightarrow> error + ImageAsset" where
  "check_image_exists db iid =
     (case find (\<lambda>a. ImageAsset.id a = iid) (image_assets db) of
        None \<Rightarrow> Inl (HTTPException 404 (''Image with id '' @ str_int iid @ '' not found''))
      | Some img \<Rightarrow> Inr img)"

section \<open>services/jdr_service.py: joining a session\<close>

definition join_jdr ::
  "Database \<Rightarrow> User \<Rightarrow> int \<Rightarrow> string option \<Rightarrow> error + (Database \<times> JDRMembership)" where
  "join_jdr db u jid message =
     (case find (\<lambda>j. JDR.id j = jid) (jdrs db) of
        None \<Rightarrow> Inl (HTTPException 404 ''JDR not found'')
      | Some jdr \<Rightarrow>
          if JDR.status jdr \<notin> set [JDRStatus.open, in_progress]
          then Inl (HTTPException 400 ''This JDR is not accepting new players'')
          else case check_org_membership db (User.id u) (JDR.organization_id jdr) of
            Inl e \<Rightarrow> Inl e
          | Inr org_membership \<Rightarrow>
              case find (\<lambda>m. JDRMembership.user_id m = User.id u
                            \<and> JDRMembership.jdr_id m = jid
                            \<and> JDRMembership.status m
                                \<in> set [MembershipJDRStatus.active, MembershipJDRStatus.pending])
                        (jdr_memberships db) of
                Some existing \<Rightarrow> Inl (HTTPException 400 ''Already a member or pending approval'')
              | None \<Rightarrow>
                  let active_count =
                        int (length (filter (\<lambda>m. JDRMembership.jdr_id m = jid
                                                \<and> JDRMembership.status m = MembershipJDRStatus.active)
                                            (jdr_memberships db)))
                  in if active_count \<ge> max_players jdr
                     then Inl (HTTPException 400 ''JDR is full'')
                     else
                       let membership =
                             \<lparr>JDRMembership.id =
                                fresh_id (map JDRMembership.id (jdr_memberships db)),
                              jdr_id = jid,
                              user_id = User.id u,
                              status = MembershipJDRStatus.pending,
                              join_message = message,
                              approved_by_id = None,
                              approved_at = None\<rparr>
                       in Inr (db\<lparr>jdr_memberships := jdr_memberships db @ [membership]\<rparr>,
                               membership))"

section \<open>services/jdr_service.py: giving an item\<close>

record GiveItemRequest =
  game_item_id :: int
  character_id :: int
  quantity :: int
  mj_notes :: "string option"

text \<open>\<^verbatim>\<open>_get_inventory_with_images\<close>: the row is read back by primary key.\<close>

definition get_inventory_with_images :: "Database \<Rightarrow> int \<Rightarrow> CharacterInventory option" where
  "get_inventory_with_images db inventory_id =
     find (\<lambda>r. CharacterInventory.id r = inventory_id) (character_inventory db)"

text \<open>
  \<^verbatim>\<open>give_item_to_character\<close>. The request's quantity has no upper bound
  (\<^verbatim>\<open>Field(default=1, ge=1)\<close>), so the quantity written at \<^verbatim>\<open>commit\<close> may not fit the
  \<^verbatim>\<open>Integer\<close> column \<^verbatim>\<open>quantity\<close>; \<open>w\<close> is the width of that column.
\<close>

definition give_item_to_character ::
  "nat \<Rightarrow> Database \<Rightarrow> User \<Rightarrow> int \<Rightarrow> GiveItemRequest
     \<Rightarrow> error + (Database \<times> CharacterInventory option)" where
  "give_item_to_character w db u jid data =
     (case check_is_mj db u jid of
        Inl e \<Rightarrow> Inl e
      | Inr jdr \<Rightarrow>
        case find (\<lambda>c. Character.id c = GiveItemRequest.character_id data
                      \<and> Character.jdr_id c = jid) (characters db) of
          None \<Rightarrow> Inl (HTTPException 404 ''Character not found in this JDR'')
        | Some ch \<Rightarrow>
          case find (\<lambda>g. GameItem.id g = GiveItemRequest.game_item_id data
                        \<and> GameItem.jdr_id g = jid) (game_items db) of
            None \<Rightarrow> Inl (HTTPException 404 ''Item not found in this JDR'')
          | Some game_item \<Rightarrow>
            case find (\<lambda>r. CharacterInventory.character_id r = GiveItemRequest.character_id data
                          \<and> CharacterInventory.game_item_id r = GiveItemRequest.game_item_id data)
                      (character_inventory db) of
              Some existing \<Rightarrow>
                let stacked = existing\<lparr>CharacterInventory.quantity :=
                                CharacterInventory.quantity existing
                                  + GiveItemRequest.quantity data\<rparr>;
                    existing' =
                      (if GiveItemRequest.mj_notes data \<noteq> None
                          \<and> GiveItemRequest.mj_notes data \<noteq> Some []
                       then stacked\<lparr>CharacterInventory.mj_notes := GiveItemRequest.mj_notes data\<rparr>
                       else stacked);
                    db' = db\<lparr>character_inventory :=
                               update_row CharacterInventory.id existing' (character_inventory db)\<rparr>
                in if \<not> fits_integer w (CharacterInventory.quantity existing')
                   then Inl DataError
                   else Inr (db', get_inventory_with_images db' (CharacterInventory.id existing'))
            | None \<Rightarrow>
                let inventory =
                      \<lparr>CharacterInventory.id =
                         fresh_id (map CharacterInventory.id (character_inventory db)),
                       character_id = GiveItemRequest.character_id data,
                       game_item_id = GiveItemRequest.game_item_id data,
                       quantity = GiveItemRequest.quantity data,
                       is_equipped = False,
                       equipment_slot = None,
                       mj_notes = GiveItemRequest.mj_notes data\<rparr>;
                    db' = db\<lparr>character_inventory := character_inventory db @ [inventory]\<rparr>
                in if \<not> fits_integer w (CharacterInventory.quantity inventory)
                   then Inl DataError
                   else Inr (db', get_inventory_with_images db' (CharacterInventory.id inventory)))"

text \<open>
  Sessions for the examples, in organization 1 of \<open>demo_org_db\<close>, all run by user 1:
  session 1 is open with room for one player and user 2 is its active player; session 2
  is a draft; session 3 is open with room for five and user 2 has asked to join it.
\<close>

definition demo_jdr :: "int \<Rightarrow> JDRStatus \<Rightarrow> int \<Rightarrow> JDR" where
  "demo_jdr i st n = \<lparr>JDR.id = i, organization_id = 1, mj_id = Some 1, name = ''Campaign'',
     status = st, max_players = n\<rparr>"

definition demo_jdr_membership :: "int \<Rightarrow> int \<Rightarrow> int \<Rightarrow> MembershipJDRStatus \<Rightarrow> JDRMembership" where
  "demo_jdr_membership i j u st = \<lparr>JDRMembership.id = i, jdr_id = j, user_id = u, status = st,
     join_message = None, approved_by_id = None, approved_at = None\<rparr>"

definition demo_jdr_db :: Database where
  "demo_jdr_db = demo_org_db\<lparr>
     jdrs := [demo_jdr 1 JDRStatus.open 1, demo_jdr 2 draft 4, demo_jdr 3 JDRStatus.open 5],
     jdr_memberships :=
       [demo_jdr_membership 1 1 2 MembershipJDRStatus.active,
        demo_jdr_membership 2 3 2 MembershipJDRStatus.pending]\<rparr>"

text \<open>
  Session 1 with a character of user 2, two game items, and three units of item 1 in the
  character's inventory.
\<close>

definition demo_inventory_row :: "int \<Rightarrow> int \<Rightarrow> int \<Rightarrow> CharacterInventory" where
  "demo_inventory_row i g q = \<lparr>CharacterInventory.id = i, character_id = 1, game_item_id = g,
     quantity = q, is_equipped = False, equipment_slot = None, mj_notes = None\<rparr>"

definition demo_game_db :: Database where
  "demo_game_db = demo_jdr_db\<lparr>
     characters := [\<lparr>Character.id = 1, jdr_id = 1, owner_id = 2, name = ''Thorin'',
                     avatar_image_id = None, gold = Finite False 50 0\<rparr>],
     game_items :=
       [\<lparr>GameItem.id = 1, jdr_id = 1, template_id = None, custom_name = Some ''Potion'',
          custom_image_id = None, quantity = 1\<rparr>,
        \<lparr>GameItem.id = 2, jdr_id = 1, template_id = None, custom_name = Some ''Sword'',
          custom_image_id = None, quantity = 1\<rparr>],
     character_inventory := [demo_inventory_row 1 1 3]\<rparr>"

section \<open>models/jdr.py: relationships and computed image URLs\<close>

text \<open>
  A relationship attribute is the row its foreign key points to, \<open>None\<close> when the key
  is NULL or no row has it. An ORM object is always truthy, so \<^verbatim>\<open>if self.image\<close> asks
  whether there is one.
\<close>

definition image_by_id :: "Database \<Rightarrow> int option \<Rightarrow> ImageAsset option" where
  "image_by_id db fk =
     (case fk of None \<Rightarrow> None
      | Some i \<Rightarrow> find (\<lambda>a. ImageAsset.id a = i) (image_assets db))"

definition Character_avatar_image :: "Database \<Rightarrow> Character \<Rightarrow> ImageAsset option" where
  "Character_avatar_image db self = image_by_id db (avatar_image_id self)"

definition ItemTemplate_image :: "Database \<Rightarrow> ItemTemplate \<Rightarrow> ImageAsset option" where
  "ItemTemplate_image db self = image_by_id db (ItemTemplate.image_id self)"

definition GameItem_custom_image :: "Database \<Rightarrow> GameItem \<Rightarrow> ImageAsset option" where
  "GameItem_custom_image db self = image_by_id db (custom_image_id self)"

definition GameItem_template :: "Database \<Rightarrow> GameItem \<Rightarrow> ItemTemplate option" where
  "GameItem_template db self =
     (case template_id self of None \<Rightarrow> None
      | Some i \<Rightarrow> find (\<lambda>t. ItemTemplate.id t = i) (item_templates db))"

definition BoardElement_image :: "Database \<Rightarrow> BoardElement \<Rightarrow> ImageAsset option" where
  "BoardElement_image db self = image_by_id db (BoardElement.image_id self)"

definition BoardElement_character :: "Database \<Rightarrow> BoardElement \<Rightarrow> Character option" where
  "BoardElement_character db self =
     (case BoardElement.character_id self of None \<Rightarrow> None
      | Some i \<Rightarrow> find (\<lambda>c. Character.id c = i) (characters db))"

definition BoardElement_game_item :: "Database \<Rightarrow> BoardElement \<Rightarrow> GameItem option" where
  "BoardElement_game_item db self =
     (case BoardElement.game_item_id self of None \<Rightarrow> None
      | Some i \<Rightarrow> find (\<lambda>g. GameItem.id g = i) (game_items db))"

definition Board_elements :: "Database \<Rightarrow> Board \<Rightarrow> BoardElement list" where
  "Board_elements db self =
     filter (\<lambda>e. BoardElement.board_id e = Board.id self) (board_elements db)"

text \<open>The property \<^verbatim>\<open>GameItem.image_url\<close>.\<close>

definition GameItem_image_url :: "Database \<Rightarrow> GameItem \<Rightarrow> string option" where
  "GameItem_image_url db self =
     (case GameItem_custom_image db self of
        Some custom_image \<Rightarrow> Some (url custom_image)
      | None \<Rightarrow>
          (case GameItem_template db self of
             None \<Rightarrow> None
           | Some template \<Rightarrow>
               (case ItemTemplate_image db template of
                  None \<Rightarrow> None
                | Some img \<Rightarrow> Some (url img))))"

text \<open>
  The property \<^verbatim>\<open>BoardElement.image_url\<close>. Its third test,
  \<^verbatim>\<open>self.game_item and self.game_item.image_url\<close>, is on the truth value of the URL: an
  empty string counts as none.
\<close>

definition BoardElement_image_url :: "Database \<Rightarrow> BoardElement \<Rightarrow> string option" where
  "BoardElement_image_url db self =
     (case BoardElement_image db self of
        Some img \<Rightarrow> Some (url img)
      | None \<Rightarrow>
          let from_item =
                (case BoardElement_game_item db self of
                   None \<Rightarrow> None
                 | Some game_item \<Rightarrow>
                     if GameItem_image_url db game_item \<noteq> None
                        \<and> GameItem_image_url db game_item \<noteq> Some []
                     then GameItem_image_url db game_item
                     else None)
          in (case BoardElement_character db self of
                None \<Rightarrow> from_item
              | Some ch \<Rightarrow>
                  (case Character_avatar_image db ch of
                     None \<Rightarrow> from_item
                   | Some avatar \<Rightarrow> Some (url avatar))))"

text \<open>
  The priority chains as the specification words them, to compare with the two
  properties: the first image present in a list of candidates.
\<close>

fun first_present :: "'a option list \<Rightarrow> 'a option" where
  "first_present [] = None"
| "first_present (None # xs) = first_present xs"
| "first_present (Some x # xs) = Some x"

definition item_image_spec :: "Database \<Rightarrow> GameItem \<Rightarrow> ImageAsset option" where
  "item_image_spec db g =
     first_present
       [GameItem_custom_image db g,
        Option.bind (GameItem_template db g) (ItemTemplate_image db)]"

definition element_image_spec :: "Database \<Rightarrow> BoardElement \<Rightarrow> ImageAsset option" where
  "element_image_spec db el =
     first_present
       [BoardElement_image db el,
        Option.bind (BoardElement_character db el) (Character_avatar_image db),
        Option.bind (BoardElement_game_item db el) (item_image_spec db)]"

section \<open>services/jdr_service.py: reading the board\<close>

text \<open>\<^verbatim>\<open>_is_visible_to_user\<close>.\<close>

definition is_visible_to_user :: "Database \<Rightarrow> BoardElement \<Rightarrow> int \<Rightarrow> error + bool" where
  "is_visible_to_user db element uid =
     (case visible_to element of
        None \<Rightarrow> Inr True
      | Some vt \<Rightarrow>
          if vt = [] then Inr True
          else if (case dict_get vt ''all'' of None \<Rightarrow> False | Some v \<Rightarrow> truthy v)
          then Inr True
          else case dict_get vt ''player_ids'' of
            Some ids \<Rightarrow> int_in uid ids
          | None \<Rightarrow>
              if dict_contains vt ''character_ids''
              then (case BoardElement_character db element of
                      None \<Rightarrow> Inr False
                    | Some ch \<Rightarrow>
                        if BoardElement.character_id element \<noteq> Some 0
                        then Inr (owner_id ch = uid)
                        else Inr False)
              else Inr False)"

text \<open>
  The comprehension \<^verbatim>\<open>[el for el in board.elements if el.is_visible and
  _is_visible_to_user(el, user.id)]\<close>: elements are tested in order, the test of an
  invisible element is skipped, and the first exception ends the comprehension.
\<close>

fun visible_elements :: "Database \<Rightarrow> int \<Rightarrow> BoardElement list \<Rightarrow> error + BoardElement list" where
  "visible_elements db uid [] = Inr []"
| "visible_elements db uid (el # els) =
     (if is_visible el
      then (case is_visible_to_user db el uid of
              Inl e \<Rightarrow> Inl e
            | Inr keep \<Rightarrow>
                (case visible_elements db uid els of
                   Inl e \<Rightarrow> Inl e
                 | Inr rest \<Rightarrow> Inr (if keep then el # rest else rest)))
      else visible_elements db uid els)"

definition get_board :: "Database \<Rightarrow> User \<Rightarrow> int \<Rightarrow> error + (Board \<times> BoardElement list)" where
  "get_board db u jid =
     (case find (\<lambda>j. JDR.id j = jid) (jdrs db) of
        None \<Rightarrow> Inl (HTTPException 404 ''JDR not found'')
      | Some jdr \<Rightarrow>
          let is_mj = (mj_id jdr = Some (User.id u))
          in case (if \<not> is_mj
                   then map_sum (\<lambda>e. e) (\<lambda>m. ()) (check_is_player db (User.id u) jid)
                   else Inr ()) of
               Inl e \<Rightarrow> Inl e
             | Inr _ \<Rightarrow>
                 (case find (\<lambda>b. Board.jdr_id b = jid) (boards db) of
                    None \<Rightarrow> Inl (HTTPException 404 ''Board not found'')
                  | Some board \<Rightarrow>
                      if \<not> is_mj
                      then (case visible_elements db (User.id u) (Board_elements db board) of
                              Inl e \<Rightarrow> Inl e
                            | Inr els \<Rightarrow> Inr (board, els))
                      else Inr (board, Board_elements db board)))"

text \<open>
  A board for the examples: session 3 (run by user 1) with users 5 and 6 its active
  players, a character of user 5 with avatar image 3, a template with image 7, game item
  3 from the template, game item 4 from the template with its own image 9, and six
  elements on the board.
\<close>

definition demo_element ::
  "int \<Rightarrow> int option \<Rightarrow> int option \<Rightarrow> int option \<Rightarrow> bool \<Rightarrow> py_dict option \<Rightarrow> BoardElement" where
  "demo_element i img ch gi vis vt = \<lparr>BoardElement.id = i, board_id = 1,
     element_type = monster, character_id = ch, game_item_id = gi, image_id = img,
     content = Some [], position = Some [(''x'', JInt 0), (''y'', JInt 0)],
     is_visible = vis, visible_to = vt, updated_at = 0\<rparr>"

definition demo_el1 :: BoardElement where
  "demo_el1 = demo_element 1 (Some 5) (Some 2) (Some 4) True
                (Some [(''player_ids'', JList [JInt 5])])"

definition demo_el2 :: BoardElement where
  "demo_el2 = demo_element 2 None (Some 2) (Some 4) False (Some [(''all'', JBool True)])"

definition demo_el3 :: BoardElement where
  "demo_el3 = demo_element 3 None (Some 2) None True
                (Some [(''character_ids'', JList [JInt 2])])"

definition demo_el4 :: BoardElement where
  "demo_el4 = demo_element 4 None None (Some 3) True None"

definition demo_el5 :: BoardElement where
  "demo_el5 = demo_element 5 None None None True (Some [])"

definition demo_el6 :: BoardElement where
  "demo_el6 = demo_element 6 None None (Some 4) True
                (Some [(''character_ids'', JList [JInt 2])])"

definition demo_elements :: "BoardElement list" where
  "demo_elements = [demo_el1, demo_el2, demo_el3, demo_el4, demo_el5, demo_el6]"

definition demo_board :: Board where
  "demo_board = \<lparr>Board.id = 1, jdr_id = 3, name = ''Board principal'',
     background_image_id = None,
     dimensions = Some [(''width'', JInt 1920), (''height'', JInt 1080), (''grid_size'', JInt 50)],
     updated_at = 0\<rparr>"

definition demo_board_db :: Database where
  "demo_board_db = demo_jdr_db\<lparr>
     jdr_memberships :=
       [demo_jdr_membership 1 1 2 MembershipJDRStatus.active,
        demo_jdr_membership 2 3 2 MembershipJDRStatus.pending,
        demo_jdr_membership 3 3 5 MembershipJDRStatus.active,
        demo_jdr_membership 4 3 6 MembershipJDRStatus.active],
     image_assets :=
       [\<lparr>ImageAsset.id = 3, url = ''/uploads/avatars/a.png''\<rparr>,
        \<lparr>ImageAsset.id = 5, url = ''/uploads/boards/m.png''\<rparr>,
        \<lparr>ImageAsset.id = 7, url = ''/uploads/items/t.png''\<rparr>,
        \<lparr>ImageAsset.id = 9, url = ''/uploads/items/c.png''\<rparr>],
     item_templates := [\<lparr>ItemTemplate.id = 1, name = ''Sword'', image_id = Some 7\<rparr>],
     game_items :=
       [\<lparr>GameItem.id = 3, jdr_id = 3, template_id = Some 1, custom_name = None,
          custom_image_id = None, quantity = 1\<rparr>,
        \<lparr>GameItem.id = 4, jdr_id = 3, template_id = Some 1, custom_name = Some ''Glamdring'',
          custom_image_id = Some 9, quantity = 1\<rparr>],
     characters := [\<lparr>Character.id = 2, jdr_id = 3, owner_id = 5, name = ''Gimli'',
                     avatar_image_id = Some 3, gold = Finite False 0 0\<rparr>],
     boards := [demo_board],
     board_elements := demo_elements\<rparr>"

section \<open>services/jdr_service.py: updating the board\<close>

text \<open>
  \<^verbatim>\<open>data.model_dump(exclude_unset=True)\<close> of a \<^verbatim>\<open>BoardUpdate\<close> or a
  \<^verbatim>\<open>BoardElementUpdate\<close>: a field is \<open>None\<close> when the request did not set it,
  \<open>Some None\<close> when it set it to \<^verbatim>\<open>null\<close>, \<open>Some (Some v)\<close> when it gave the value \<open>v\<close>.
\<close>

record BoardUpdate =
  name :: "string option option"
  background_image_id :: "int option option"
  dimensions :: "py_dict option option"

record BoardElementUpdate =
  image_id :: "int option option"
  content :: "py_dict option option"
  position :: "py_dict option option"
  is_visible :: "bool option option"
  visible_to :: "py_dict option option"

text \<open>\<^verbatim>\<open>d or {}\<close> for a stored dictionary.\<close>

definition or_empty :: "py_dict option \<Rightarrow> py_dict" where
  "or_empty d = (case d of None \<Rightarrow> [] | Some cur \<Rightarrow> cur)"

text \<open>
  \<^verbatim>\<open>{**(cur or {}), **update_data.pop(key)}\<close> when the key is in \<open>update_data\<close>: unpacking
  \<^verbatim>\<open>None\<close> raises \<^verbatim>\<open>TypeError\<close>. When the key is not there the stored value stays.
\<close>

definition merge_field :: "py_dict option \<Rightarrow> py_dict option option \<Rightarrow> error + py_dict option" where
  "merge_field cur field =
     (case field of
        None \<Rightarrow> Inr cur
      | Some None \<Rightarrow> Inl TypeError
      | Some (Some patch) \<Rightarrow> Inr (Some (dict_merge (or_empty cur) patch)))"

text \<open>
  \<^verbatim>\<open>if key in update_data and update_data[key]: _check_image_exists(...)\<close>: the id 0 is
  falsy and is not checked.
\<close>

definition check_patch_image :: "Database \<Rightarrow> int option option \<Rightarrow> error + unit" where
  "check_patch_image db field =
     (case field of
        Some (Some i) \<Rightarrow>
          if i \<noteq> 0 then map_sum (\<lambda>e. e) (\<lambda>a. ()) (check_image_exists db i) else Inr ()
      | _ \<Rightarrow> Inr ())"

text \<open>\<^verbatim>\<open>_get_board_with_images\<close> and \<^verbatim>\<open>_get_board_element_with_images\<close>.\<close>

definition get_board_with_images :: "Database \<Rightarrow> int \<Rightarrow> Board option" where
  "get_board_with_images db jid = find (\<lambda>b. Board.jdr_id b = jid) (boards db)"

definition get_board_element_with_images :: "Database \<Rightarrow> int \<Rightarrow> BoardElement option" where
  "get_board_element_with_images db element_id =
     find (\<lambda>e. BoardElement.id e = element_id) (board_elements db)"

text \<open>
  \<^verbatim>\<open>update_board\<close>. After the merge the remaining fields are set with \<^verbatim>\<open>setattr\<close>;
  \<^verbatim>\<open>name\<close> is NOT NULL, so a \<^verbatim>\<open>null\<close> name fails at \<^verbatim>\<open>commit\<close>.
\<close>

definition update_board ::
  "Database \<Rightarrow> User \<Rightarrow> int \<Rightarrow> BoardUpdate \<Rightarrow> datetime \<Rightarrow> error + (Database \<times> Board option)" where
  "update_board db u jid data now =
     (case check_is_mj db u jid of
        Inl e \<Rightarrow> Inl e
      | Inr jdr \<Rightarrow>
        case find (\<lambda>b. Board.jdr_id b = jid) (boards db) of
          None \<Rightarrow> Inl (HTTPException 404 ''Board not found'')
        | Some board \<Rightarrow>
          case check_patch_image db (BoardUpdate.background_image_id data) of
            Inl e \<Rightarrow> Inl e
          | Inr _ \<Rightarrow>
            case merge_field (Board.dimensions board) (BoardUpdate.dimensions data) of
              Inl e \<Rightarrow> Inl e
            | Inr dims \<Rightarrow>
                if BoardUpdate.name data = Some None then Inl IntegrityError
                else
                  let board' = board\<lparr>
                        Board.dimensions := dims,
                        Board.name := (case BoardUpdate.name data of
                                         Some (Some n) \<Rightarrow> n | _ \<Rightarrow> Board.name board),
                        Board.background_image_id :=
                          (case BoardUpdate.background_image_id data of
                             Some v \<Rightarrow> v | None \<Rightarrow> Board.background_image_id board),
                        Board.updated_at := now\<rparr>;
                      db' = db\<lparr>boards := update_row Board.id board' (boards db)\<rparr>
                  in Inr (db', get_board_with_images db' jid))"

text \<open>
  \<^verbatim>\<open>update_board_element\<close>. \<^verbatim>\<open>is_visible\<close> is NOT NULL; \<^verbatim>\<open>image_id\<close> is nullable and
  a \<^verbatim>\<open>null\<close> \<^verbatim>\<open>visible_to\<close> is stored as JSON null.
\<close>

definition update_board_element ::
  "Database \<Rightarrow> User \<Rightarrow> int \<Rightarrow> int \<Rightarrow> BoardElementUpdate \<Rightarrow> datetime
     \<Rightarrow> error + (Database \<times> BoardElement option)" where
  "update_board_element db u jid element_id data now =
     (case check_is_mj db u jid of
        Inl e \<Rightarrow> Inl e
      | Inr jdr \<Rightarrow>
        case find (\<lambda>b. Board.jdr_id b = jid) (boards db) of
          None \<Rightarrow> Inl (HTTPException 404 ''Board not found'')
        | Some board \<Rightarrow>
          case find (\<lambda>e. BoardElement.id e = element_id
                        \<and> BoardElement.board_id e = Board.id board) (board_elements db) of
            None \<Rightarrow> Inl (HTTPException 404 ''Board element not found'')
          | Some element \<Rightarrow>
            case check_patch_image db (BoardElementUpdate.image_id data) of
              Inl e \<Rightarrow> Inl e
            | Inr _ \<Rightarrow>
              case merge_field (BoardElement.position element)
                     (BoardElementUpdate.position data) of
                Inl e \<Rightarrow> Inl e
              | Inr pos \<Rightarrow>
                case merge_field (BoardElement.content element)
                       (BoardElementUpdate.content data) of
                  Inl e \<Rightarrow> Inl e
                | Inr cont \<Rightarrow>
                    if BoardElementUpdate.is_visible data = Some None then Inl IntegrityError
                    else
                      let element' = element\<lparr>
                            BoardElement.position := pos,
                            BoardElement.content := cont,
                            BoardElement.image_id :=
                              (case BoardElementUpdate.image_id data of
                                 Some v \<Rightarrow> v | None \<Rightarrow> BoardElement.image_id element),
                            BoardElement.is_visible :=
                              (case BoardElementUpdate.is_visible data of
                                 Some (Some v) \<Rightarrow> v | _ \<Rightarrow> BoardElement.is_visible element),
                            BoardElement.visible_to :=
                              (case BoardElementUpdate.visible_to data of
                                 Some v \<Rightarrow> v | None \<Rightarrow> BoardElement.visible_to element),
                            BoardElement.updated_at := now\<rparr>;
                          board' = board\<lparr>Board.updated_at := now\<rparr>;
                          db' = db\<lparr>board_elements :=
                                     update_row BoardElement.id element' (board_elements db),
                                   boards := update_row Board.id board' (boards db)\<rparr>
                      in Inr (db', get_board_element_with_images db'
                                     (BoardElement.id element')))"

text \<open>Requests for the examples: a patch of the board's dimensions, a patch of an element.\<close>

definition demo_board_patch :: "py_dict \<Rightarrow> BoardUpdate" where
  "demo_board_patch p = \<lparr>name = None, background_image_id = None, dimensions = Some (Some p)\<rparr>"

definition demo_element_patch :: "py_dict \<Rightarrow> py_dict \<Rightarrow> BoardElementUpdate" where
  "demo_element_patch pos cont = \<lparr>image_id = None, content = Some (Some cont),
     position = Some (Some pos), is_visible = None, visible_to = None\<rparr>"

section \<open>services/auth_service.py\<close>

text \<open>
  A \<^verbatim>\<open>datetime\<close> is a number of microseconds, and a call reads the clock once: \<open>now\<close> is
  \<^verbatim>\<open>datetime.utcnow()\<close>. The random token of \<^verbatim>\<open>create_random_refresh_token\<close> is the
  parameter \<open>new_refresh\<close>; the signed access token is made by the \<^verbatim>\<open>jose\<close> library and is
  left out of the results. \<^verbatim>\<open>verify_password\<close> (passlib) is the parameter \<open>verify\<close>.
  A string is a list of code points below 256.
\<close>

definition days :: "int \<Rightarrow> int" where
  "days n = n * 86400000000"

definition REFRESH_TOKEN_EXPIRE_DAYS :: int where
  "REFRESH_TOKEN_EXPIRE_DAYS = 7"

text \<open>
  \<^verbatim>\<open>str.lower\<close> and the white space of \<^verbatim>\<open>str.strip\<close> on the code points below 256
  (a \<open>char\<close> is one of them): the upper-case letters are A to Z and U+00C0 to U+00DE
  without the multiplication sign U+00D7, each 32 below its lower-case letter; the white
  space is U+0009 to U+000D, U+001C to U+0020, U+0085 and U+00A0.
\<close>

definition lower_char :: "char \<Rightarrow> char" where
  "lower_char c =
     (let n = (of_char c :: nat)
      in if (65 \<le> n \<and> n \<le> 90) \<or> (192 \<le> n \<and> n \<le> 222 \<and> n \<noteq> 215)
         then char_of (n + 32) else c)"

definition is_space :: "char \<Rightarrow> bool" where
  "is_space c =
     (let n = (of_char c :: nat)
      in (9 \<le> n \<and> n \<le> 13) \<or> (28 \<le> n \<and> n \<le> 32) \<or> n = 133 \<or> n = 160)"

text \<open>\<^verbatim>\<open>email.lower().strip()\<close>.\<close>

definition lower_strip :: "string \<Rightarrow> string" where
  "lower_strip s = rev (dropWhile is_space (rev (dropWhile is_space (map lower_char s))))"

text \<open>
  \<^verbatim>\<open>_cleanup_expired_tokens\<close>: a bulk DELETE of the user's tokens that are expired or were
  revoked more than seven days ago (a NULL \<^verbatim>\<open>revoked_at\<close> never matches), committed at once.
\<close>

definition cleanup_matches :: "int \<Rightarrow> datetime \<Rightarrow> RefreshToken \<Rightarrow> bool" where
  "cleanup_matches uid now r \<longleftrightarrow>
     RefreshToken.user_id r = uid
     \<and> (expires_at r < now \<or> (case revoked_at r of None \<Rightarrow> False | Some at \<Rightarrow> at < now - days 7))"

definition cleanup_expired_tokens :: "Database \<Rightarrow> int \<Rightarrow> datetime \<Rightarrow> Database" where
  "cleanup_expired_tokens db uid now =
     db\<lparr>refresh_tokens := filter (\<lambda>r. \<not> cleanup_matches uid now r) (refresh_tokens db)\<rparr>"

text \<open>
  The row of a new refresh token; \<open>db\<close> is the database at the time of the INSERT, which
  assigns the primary key.
\<close>

definition new_refresh_row :: "Database \<Rightarrow> string \<Rightarrow> int \<Rightarrow> datetime \<Rightarrow> RefreshToken" where
  "new_refresh_row db new_refresh uid now =
     \<lparr>RefreshToken.id = fresh_id (map RefreshToken.id (refresh_tokens db)),
      token = new_refresh,
      user_id = uid,
      expires_at = now + days REFRESH_TOKEN_EXPIRE_DAYS,
      revoked = False,
      created_at = now,
      revoked_at = None\<rparr>"

text \<open>
  \<^verbatim>\<open>register_user\<close>; \<open>hashed\<close> is what \<^verbatim>\<open>hash_password\<close> returns for the password.
\<close>

definition register_user :: "Database \<Rightarrow> string \<Rightarrow> string \<Rightarrow> string \<Rightarrow> error + (Database \<times> User)" where
  "register_user db mail password hashed =
     (let mail' = lower_strip mail
      in case find (\<lambda>u. email u = mail') (users db) of
           Some existing \<Rightarrow> Inl (HTTPException 400 ''Email already registered'')
         | None \<Rightarrow>
             if length password < 8
             then Inl (HTTPException 400 ''Password must be at least 8 characters long'')
             else let usr = \<lparr>User.id = fresh_id (map User.id (users db)), email = mail',
                               hashed_password = hashed, global_role = GlobalUserRole.user,
                               is_active = True\<rparr>
                  in Inr (db\<lparr>users := users db @ [usr]\<rparr>, usr))"

text \<open>
  \<^verbatim>\<open>authenticate_user\<close>. The cleanup is committed before the new token is stored, so the
  result carries the database also when the call fails.
\<close>

definition authenticate_user ::
  "(string \<Rightarrow> string \<Rightarrow> bool) \<Rightarrow> Database \<Rightarrow> string \<Rightarrow> string \<Rightarrow> datetime \<Rightarrow> string
     \<Rightarrow> Database \<times> (error + string)" where
  "authenticate_user verify db mail password now new_refresh =
     (case find (\<lambda>u. email u = lower_strip mail) (users db) of
        None \<Rightarrow> (db, Inl (HTTPException 401 ''Invalid credentials''))
      | Some usr \<Rightarrow>
          if \<not> User.is_active usr then (db, Inl (HTTPException 403 ''Account is disabled''))
          else if \<not> verify password (hashed_password usr)
          then (db, Inl (HTTPException 401 ''Invalid credentials''))
          else
            let db1 = cleanup_expired_tokens db (User.id usr) now;
                refresh_db = new_refresh_row db1 new_refresh (User.id usr) now
            in if new_refresh \<in> set (map token (refresh_tokens db1))
               then (db1, Inl IntegrityError)
               else (db1\<lparr>refresh_tokens := refresh_tokens db1 @ [refresh_db]\<rparr>,
                     Inr new_refresh))"

text \<open>
  \<^verbatim>\<open>renew_token\<close>. The session does not autoflush (\<^verbatim>\<open>config/database.py\<close>), so the bulk
  DELETE of the cleanup runs first and the \<^verbatim>\<open>commit\<close> inside it then writes the
  revocation (an UPDATE by primary key) and the new token (an INSERT, refused when the
  token is not unique); when the write fails nothing is committed.
\<close>

definition renew_token ::
  "Database \<Rightarrow> string \<Rightarrow> datetime \<Rightarrow> string \<Rightarrow> error + (Database \<times> string)" where
  "renew_token db refresh now new_refresh =
     (case find (\<lambda>r. token r = refresh \<and> revoked r = False) (refresh_tokens db) of
        None \<Rightarrow> Inl (HTTPException 401 ''Invalid refresh token'')
      | Some token_db \<Rightarrow>
          if expires_at token_db < now
          then Inl (HTTPException 401 ''Refresh token expired'')
          else case find (\<lambda>u. User.id u = RefreshToken.user_id token_db) (users db) of
            None \<Rightarrow> Inl AttributeError
          | Some usr \<Rightarrow>
              if \<not> User.is_active usr then Inl (HTTPException 403 ''Account is disabled'')
              else
                let token_db' = token_db\<lparr>revoked := True, revoked_at := Some now\<rparr>;
                    new_refresh_db =
                      new_refresh_row (cleanup_expired_tokens db (User.id usr) now)
                        new_refresh (User.id usr) now;
                    remaining = refresh_tokens (cleanup_expired_tokens db (User.id usr) now)
                in if RefreshToken.id token_db \<notin> set (map RefreshToken.id remaining)
                   then Inl StaleDataError
                   else if new_refresh \<in> set (map token remaining)
                   then Inl IntegrityError
                   else Inr (db\<lparr>refresh_tokens :=
                                 update_row RefreshToken.id token_db' remaining
                                   @ [new_refresh_db]\<rparr>,
                             new_refresh))"

definition revoke_token :: "Database \<Rightarrow> string \<Rightarrow> datetime \<Rightarrow> error + (Database \<times> bool)" where
  "revoke_token db refresh now =
     (case find (\<lambda>r. token r = refresh) (refresh_tokens db) of
        None \<Rightarrow> Inl (HTTPException 404 ''Refresh token not found'')
      | Some token_db \<Rightarrow>
          if revoked token_db then Inl (HTTPException 400 ''Token already revoked'')
          else Inr (db\<lparr>refresh_tokens :=
                        update_row RefreshToken.id
                          (token_db\<lparr>revoked := True, revoked_at := Some now\<rparr>)
                          (refresh_tokens db)\<rparr>,
                    True))"

text \<open>\<^verbatim>\<open>revoke_all_user_tokens\<close>; the result is the number of tokens revoked.\<close>

definition revoke_all_user_tokens ::
  "Database \<Rightarrow> string \<Rightarrow> datetime \<Rightarrow> error + (Database \<times> nat)" where
  "revoke_all_user_tokens db refresh now =
     (case find (\<lambda>r. token r = refresh) (refresh_tokens db) of
        None \<Rightarrow> Inl (HTTPException 404 ''Refresh token not found'')
      | Some token_db \<Rightarrow>
          if revoked token_db then Inl (HTTPException 400 ''Token already revoked'')
          else if expires_at token_db < now
          then Inl (HTTPException 401 ''Refresh token expired'')
          else
            let uid = RefreshToken.user_id token_db;
                tokens_to_revoke =
                  length (filter (\<lambda>r. RefreshToken.user_id r = uid \<and> revoked r = False)
                            (refresh_tokens db))
            in Inr (db\<lparr>refresh_tokens :=
                         map (\<lambda>r. if RefreshToken.user_id r = uid \<and> revoked r = False
                                  then r\<lparr>revoked := True, revoked_at := Some now\<rparr> else r)
                             (refresh_tokens db)\<rparr>,
                    tokens_to_revoke))"

definition promote_user :: "Database \<Rightarrow> int \<Rightarrow> GlobalUserRole \<Rightarrow> error + (Database \<times> User)" where
  "promote_user db uid new_role =
     (case find (\<lambda>u. User.id u = uid) (users db) of
        None \<Rightarrow> Inl (HTTPException 404 ''User not found'')
      | Some usr \<Rightarrow>
          let usr' = usr\<lparr>global_role := new_role\<rparr>
          in Inr (db\<lparr>users := update_row User.id usr' (users db)\<rparr>, usr'))"

text \<open>
  A request to the authentication service, with the clock reading and the random token
  of the call where it has one; \<open>issued\<close> is the refresh token the request would issue.
\<close>

datatype auth_op =
    Register string string string
  | Authenticate string string datetime string
  | Renew string datetime string
  | Revoke string datetime
  | RevokeAll string datetime
  | Promote int GlobalUserRole

fun issued :: "auth_op \<Rightarrow> string option" where
  "issued (Authenticate m p now n) = Some n"
| "issued (Renew r now n) = Some n"
| "issued _ = None"

fun apply_auth_op :: "(string \<Rightarrow> string \<Rightarrow> bool) \<Rightarrow> auth_op \<Rightarrow> Database \<Rightarrow> Database" where
  "apply_auth_op verify (Register m p h) db =
     (case register_user db m p h of Inl e \<Rightarrow> db | Inr (db', u) \<Rightarrow> db')"
| "apply_auth_op verify (Authenticate m p now n) db = fst (authenticate_user verify db m p now n)"
| "apply_auth_op verify (Renew r now n) db =
     (case renew_token db r now n of Inl e \<Rightarrow> db | Inr (db', t) \<Rightarrow> db')"
| "apply_auth_op verify (Revoke r now) db =
     (case revoke_token db r now of Inl e \<Rightarrow> db | Inr (db', b) \<Rightarrow> db')"
| "apply_auth_op verify (RevokeAll r now) db =
     (case revoke_all_user_tokens db r now of Inl e \<Rightarrow> db | Inr (db', n) \<Rightarrow> db')"
| "apply_auth_op verify (Promote i g) db =
     (case promote_user db i g of Inl e \<Rightarrow> db | Inr (db', u) \<Rightarrow> db')"

definition run_auth_ops :: "(string \<Rightarrow> string \<Rightarrow> bool) \<Rightarrow> Database \<Rightarrow> auth_op list \<Rightarrow> Database" where
  "run_auth_ops verify db ops = fold (apply_auth_op verify) ops db"

text \<open>The invariant of a spent token: no row with the token \<open>t\<close> is unrevoked.\<close>

definition spent :: "string \<Rightarrow> Database \<Rightarrow> bool" where
  "spent t db \<longleftrightarrow> (\<forall>r \<in> set (refresh_tokens db). token r = t \<longrightarrow> revoked r)"

text \<open>Users and tokens for the examples: user 1 is active and holds the token \<open>''tok-a''\<close>.\<close>

definition demo_token :: "int \<Rightarrow> string \<Rightarrow> int \<Rightarrow> datetime \<Rightarrow> RefreshToken" where
  "demo_token i t u exp = \<lparr>RefreshToken.id = i, token = t, user_id = u, expires_at = exp,
     revoked = False, created_at = 0, revoked_at = None\<rparr>"

definition demo_auth_db :: Database where
  "demo_auth_db = empty_db\<lparr>
     users := [demo_user 1, demo_user 2],
     refresh_tokens := [demo_token 1 ''tok-a'' 1 1000, demo_token 2 ''tok-b'' 2 1000]\<rparr>"

section \<open>services/jdr_service.py: a character's gold\<close>

text \<open>\<^verbatim>\<open>_get_character_with_images\<close> and \<^verbatim>\<open>update_character_gold\<close>.\<close>

definition get_character_with_images :: "Database \<Rightarrow> int \<Rightarrow> Character option" where
  "get_character_with_images db cid = find (\<lambda>c. Character.id c = cid) (characters db)"

definition update_character_gold ::
  "(nat \<Rightarrow> int \<Rightarrow> (nat \<times> int) option) \<Rightarrow> Database \<Rightarrow> User \<Rightarrow> int \<Rightarrow> int \<Rightarrow> pyfloat
     \<Rightarrow> error + (Database \<times> Character option)" where
  "update_character_gold fl db u jid cid amount =
     (case check_is_mj db u jid of
        Inl e \<Rightarrow> Inl e
      | Inr jdr \<Rightarrow>
        case find (\<lambda>c. Character.id c = cid \<and> Character.jdr_id c = jid) (characters db) of
          None \<Rightarrow> Inl (HTTPException 404 ''Character not found'')
        | Some ch \<Rightarrow>
            let ch' = ch\<lparr>gold := py_max (Finite False 0 0) (fadd fl (gold ch) amount)\<rparr>;
                db' = db\<lparr>characters := update_row Character.id ch' (characters db)\<rparr>
            in Inr (db', get_character_with_images db' (Character.id ch')))"

section \<open>Helper lemmas\<close>

lemma find_Some_mem: "find P xs = Some x \<Longrightarrow> P x \<and> x \<in> set xs"
  by (induction xs) (auto split: if_splits)

lemma fold_max_ge: "fold max ids (a::int) \<ge> a"
proof (induction ids arbitrary: a)
  case Nil
  then show ?case by simp
next
  case (Cons y ys)
  have "a \<le> max y a" by simp
  also have "max y a \<le> fold max ys (max y a)" by (rule Cons.IH)
  finally show ?case by simp
qed

lemma fold_max_mem: "x \<in> set ids \<Longrightarrow> x \<le> fold max ids (a::int)"
proof (induction ids arbitrary: a)
  case Nil
  then show ?case by simp
next
  case (Cons y ys)
  show ?case
  proof (cases "x = y")
    case True
    have "max y a \<le> fold max ys (max y a)" by (rule fold_max_ge)
    with True show ?thesis by simp
  next
    case False
    with Cons show ?thesis by simp
  qed
qed

lemma fresh_id_notin: "fresh_id ids \<notin> set ids"
proof
  assume "fresh_id ids \<in> set ids"
  then have "fresh_id ids \<le> fold max ids 0" by (rule fold_max_mem)
  then show False by (simp add: fresh_id_def)
qed

lemma map_pk_update_row: "pk row = pk old \<Longrightarrow> map pk (update_row pk row rows) = map pk rows"
  by (induction rows) (auto simp: update_row_def)

section \<open>The role hierarchy\<close>

lemma role_rank_eq: "role_rank r = rank_spec r"
  by (cases r) (simp_all add: role_rank_def dict_get_def role_hierarchy_def)

lemma rank_spec_inj: "rank_spec a = rank_spec b \<Longrightarrow> a = b"
  by (cases a; cases b) simp_all

lemma no_membership_no_role:
  "\<not> is_member_of db u org_id \<Longrightarrow> get_organization_role db u org_id = None"
  by (auto simp: is_member_of_def get_organization_role_def find_None_iff split: option.splits)

lemma demo_memberships:
  "organization_memberships demo_org_db =
     [demo_membership 1 1 owner, demo_membership 2 2 OrganizationRoleType.admin,
      demo_membership 3 3 member]"
  by (simp add: demo_org_db_def)

lemma demo_roles:
  "get_organization_role demo_org_db (demo_user 2) 1 = Some OrganizationRoleType.admin"
  "get_organization_role demo_org_db (demo_user 3) 1 = Some member"
  "get_organization_role demo_org_db (demo_user 1) 1 = Some owner"
  "get_organization_role demo_org_db (demo_user 4) 1 = None"
  by (simp_all add: get_organization_role_def User_organization_memberships_def demo_memberships
      demo_user_def demo_membership_def)

lemma demo_perm:
  "has_permission_in_org demo_org_db (demo_user 2) 1 OrganizationRoleType.admin"
  "\<not> has_permission_in_org demo_org_db (demo_user 2) 1 owner"
  "\<not> has_permission_in_org demo_org_db (demo_user 3) 1 OrganizationRoleType.admin"
  by (simp_all add: has_permission_in_org_def demo_roles has_at_least_def role_rank_def
       dict_get_def role_hierarchy_def)

lemma demo_target:
  "target_membership demo_org_db 1 1 = Some (demo_membership 1 1 owner)"
  "target_membership demo_org_db 1 3 = Some (demo_membership 3 3 member)"
  by (simp_all add: target_membership_def demo_memberships demo_membership_def)

text \<open>
  C6. The role check \<^verbatim>\<open>has_permission_in_org\<close> of a user whose active role in the
  organization is \<open>a\<close> holds for the minimum role \<open>b\<close> exactly when
  \<open>rank a \<ge> rank b\<close>, with guest=0, member=1, mj=2, admin=3, owner=4; the comparison is
  total, transitive and antisymmetric (the ranking is strict); a user with no active
  membership in the organization passes no minimum-role requirement.
\<close>

theorem has_permission_in_org_rank:
  "(get_organization_role db u org_id = Some a \<longrightarrow>
      has_permission_in_org db u org_id b = (rank_spec a \<ge> rank_spec b))
   \<and> has_at_least a b = (rank_spec a \<ge> rank_spec b)
   \<and> rank_spec guest = 0 \<and> rank_spec member = 1 \<and> rank_spec mj = 2
   \<and> rank_spec OrganizationRoleType.admin = 3 \<and> rank_spec owner = 4
   \<and> (has_at_least a b \<or> has_at_least b a)
   \<and> (has_at_least a b \<longrightarrow> has_at_least b c \<longrightarrow> has_at_least a c)
   \<and> (has_at_least a b \<longrightarrow> has_at_least b a \<longrightarrow> a = b)
   \<and> (\<not> is_member_of db' u' org_id' \<longrightarrow> \<not> has_permission_in_org db' u' org_id' b)"
  using rank_spec_inj [of a b] no_membership_no_role [of db' u' org_id']
  by (auto simp: has_permission_in_org_def has_at_least_def role_rank_eq)

theorem has_permission_in_org_rank_witness:
  "has_permission_in_org demo_org_db (demo_user 2) 1 mj
   \<and> \<not> has_permission_in_org demo_org_db (demo_user 2) 1 owner
   \<and> has_at_least owner OrganizationRoleType.admin
   \<and> has_at_least OrganizationRoleType.admin mj
   \<and> has_at_least owner mj
   \<and> \<not> is_member_of demo_org_db (demo_user 4) 1
   \<and> \<not> has_permission_in_org demo_org_db (demo_user 4) 1 guest"
proof -
  have nm: "\<not> is_member_of demo_org_db (demo_user 4) 1"
    by (simp add: is_member_of_def User_organization_memberships_def demo_memberships
        demo_user_def demo_membership_def)
  have r: "get_organization_role demo_org_db (demo_user 2) 1 = Some OrganizationRoleType.admin"
    by (rule demo_roles)
  show ?thesis
    using nm r
      has_permission_in_org_rank [of demo_org_db "demo_user 2" 1 OrganizationRoleType.admin mj
        mj demo_org_db "demo_user 4" 1]
      has_permission_in_org_rank [of demo_org_db "demo_user 2" 1 OrganizationRoleType.admin owner
        mj demo_org_db "demo_user 4" 1]
      has_permission_in_org_rank [of demo_org_db "demo_user 4" 1 owner OrganizationRoleType.admin
        mj demo_org_db "demo_user 4" 1]
      has_permission_in_org_rank [of demo_org_db "demo_user 4" 1 OrganizationRoleType.admin mj
        mj demo_org_db "demo_user 4" 1]
      has_permission_in_org_rank [of demo_org_db "demo_user 4" 1 owner guest
        mj demo_org_db "demo_user 4" 1]
    by simp
qed

section \<open>Changing a member's role\<close>

text \<open>
  C1. Evaluation of the code at the input where the claim fails: user 2 is an active
  admin of organization 1 and not an owner, user 3 is a member, and user 2 asks for the
  role owner for user 3. The definition that runs returns the membership with role owner
  and stores it; the first definition of the module, which the second one replaces,
  refuses with 403.
\<close>

theorem update_member_role_admin_promotes_to_owner:
  "has_permission_in_org demo_org_db (demo_user 2) 1 OrganizationRoleType.admin
   \<and> \<not> has_permission_in_org demo_org_db (demo_user 2) 1 owner
   \<and> target_membership demo_org_db 1 3 = Some (demo_membership 3 3 member)
   \<and> update_member_role demo_org_db (demo_user 2) 1 3 owner =
       Inr (demo_org_db\<lparr>organization_memberships :=
              [demo_membership 1 1 owner, demo_membership 2 2 OrganizationRoleType.admin,
               demo_membership 3 3 owner]\<rparr>, demo_membership 3 3 owner)
   \<and> update_member_role_first demo_org_db (demo_user 2) 1 3 owner =
       Inl (HTTPException 403 ''Only owners can promote to owner role'')"
  by (simp add: demo_perm demo_target demo_memberships update_member_role_def
       update_member_role_first_def update_row_def demo_membership_def Let_def)

lemma owner_inv_append:
  "owner_inv i db \<Longrightarrow>
   OrganizationMembership.id new =
     fresh_id (map OrganizationMembership.id (organization_memberships db)) \<Longrightarrow>
   organization_memberships db' = organization_memberships db @ [new] \<Longrightarrow> owner_inv i db'"
  using fresh_id_notin [of "map OrganizationMembership.id (organization_memberships db)"]
  by (auto simp: owner_inv_def)

lemma owner_inv_update:
  assumes "owner_inv i db" and "old \<in> set (organization_memberships db)"
    and "OrganizationMembership.id new = OrganizationMembership.id old"
    and "role old = owner \<longrightarrow> role new = owner"
    and "organization_memberships db' =
         update_row OrganizationMembership.id new (organization_memberships db)"
  shows "owner_inv i db'"
proof -
  have ids: "map OrganizationMembership.id (organization_memberships db')
        = map OrganizationMembership.id (organization_memberships db)"
    using assms(3,5) by (simp add: map_pk_update_row)
  have "OrganizationMembership.id ` set (organization_memberships db')
         = OrganizationMembership.id ` set (organization_memberships db)"
    using arg_cong [OF ids, of set] by simp
  moreover have "\<forall>m \<in> set (organization_memberships db').
                   OrganizationMembership.id m = i \<longrightarrow> role m = owner"
    using assms by (auto simp: owner_inv_def update_row_def)
  ultimately show ?thesis using assms(1) by (simp add: owner_inv_def)
qed

lemma owner_inv_step:
  assumes "owner_inv i db" and "run_org_op db op = Inr db'"
  shows "owner_inv i db'"
proof (cases op)
  case (CreateOrganization u n s d v j)
  with assms show ?thesis
    by (auto simp: create_organization_def Let_def split: option.splits
             intro!: owner_inv_append [OF assms(1)])
next
  case (JoinOrganization u g msg)
  with assms show ?thesis
    by (auto simp: join_organization_def Let_def split: option.splits if_splits
             intro!: owner_inv_append [OF assms(1)])
next
  case (UpdateMemberRole u g t r)
  with assms(2) obtain old where f: "target_membership db g t = Some old"
    and r: "role old \<noteq> owner"
    and d: "organization_memberships db' =
            update_row OrganizationMembership.id (old\<lparr>role := r\<rparr>) (organization_memberships db)"
    by (auto simp: update_member_role_def Let_def split: option.splits if_splits)
  from f have "old \<in> set (organization_memberships db)"
    by (auto simp: target_membership_def dest: find_Some_mem)
  then show ?thesis
    using r d by (intro owner_inv_update [OF assms(1), of old "old\<lparr>role := r\<rparr>"]) simp_all
next
  case (ApproveMembership u g k now)
  with assms(2) obtain old where
    f: "find (\<lambda>m. OrganizationMembership.id m = k
               \<and> OrganizationMembership.organization_id m = g
               \<and> OrganizationMembership.status m = MembershipStatus.pending)
             (organization_memberships db) = Some old"
    and d: "organization_memberships db' =
            update_row OrganizationMembership.id
              (old\<lparr>OrganizationMembership.status := MembershipStatus.active,
                    OrganizationMembership.approved_by_id := Some (User.id u),
                    OrganizationMembership.approved_at := Some now\<rparr>)
              (organization_memberships db)"
    by (auto simp: approve_membership_def Let_def split: option.splits if_splits)
  from f have "old \<in> set (organization_memberships db)"
    by (auto dest: find_Some_mem)
  then show ?thesis
    using d by (intro owner_inv_update [OF assms(1), of old]) simp_all
qed

lemma owner_inv_apply: "owner_inv i db \<Longrightarrow> owner_inv i (apply_org_op op db)"
  by (auto simp: apply_org_op_def split: sum.splits dest: owner_inv_step)

lemma owner_inv_run: "owner_inv i db \<Longrightarrow> owner_inv i (run_org_ops db ops)"
  unfolding run_org_ops_def by (induction ops arbitrary: db) (auto intro: owner_inv_apply)

lemma owner_inv_init:
  assumes "distinct (map OrganizationMembership.id (organization_memberships db))"
    and "m \<in> set (organization_memberships db)" and "role m = owner"
  shows "owner_inv (OrganizationMembership.id m) db"
  using assms by (auto simp: owner_inv_def distinct_map dest: inj_onD)

text \<open>
  C7, as the code has it. A call of \<^verbatim>\<open>update_member_role\<close> whose target membership has
  role owner fails with 400 ``Cannot change owner role'' when the requester has at least
  the role admin in the organization, and with 403 when the requester has not (the
  permission check comes first); either way nothing is written. And whatever sequence of
  requests to the functions that write the membership table is served
  (\<^verbatim>\<open>create_organization\<close>, \<^verbatim>\<open>join_organization\<close>, \<^verbatim>\<open>update_member_role\<close>,
  \<^verbatim>\<open>approve_membership\<close>), a membership with role owner is still there with role owner.
\<close>

theorem owner_role_immutable:
  assumes "target_membership db org_id t = Some m" and "role m = owner"
  shows "(has_permission_in_org db requester org_id OrganizationRoleType.admin \<longrightarrow>
            update_member_role db requester org_id t new_role =
              Inl (HTTPException 400 ''Cannot change owner role''))
       \<and> (\<not> has_permission_in_org db requester org_id OrganizationRoleType.admin \<longrightarrow>
            update_member_role db requester org_id t new_role =
              Inl (HTTPException 403 ''Insufficient permissions''))
       \<and> (distinct (map OrganizationMembership.id (organization_memberships db)) \<longrightarrow>
            OrganizationMembership.id m
              \<in> OrganizationMembership.id ` set (organization_memberships (run_org_ops db ops))
            \<and> (\<forall>m' \<in> set (organization_memberships (run_org_ops db ops)).
                  OrganizationMembership.id m' = OrganizationMembership.id m
                    \<longrightarrow> role m' = owner))"
proof -
  have mem: "m \<in> set (organization_memberships db)"
    using assms(1) by (auto simp: target_membership_def dest: find_Some_mem)
  have "owner_inv (OrganizationMembership.id m) (run_org_ops db ops)"
    if "distinct (map OrganizationMembership.id (organization_memberships db))"
    using that mem assms(2) by (intro owner_inv_run owner_inv_init)
  then show ?thesis
    using assms by (auto simp: update_member_role_def owner_inv_def)
qed

theorem owner_role_immutable_witness:
  "target_membership demo_org_db 1 1 = Some (demo_membership 1 1 owner)
   \<and> role (demo_membership 1 1 owner) = owner
   \<and> has_permission_in_org demo_org_db (demo_user 2) 1 OrganizationRoleType.admin
   \<and> update_member_role demo_org_db (demo_user 2) 1 1 member =
       Inl (HTTPException 400 ''Cannot change owner role'')
   \<and> \<not> has_permission_in_org demo_org_db (demo_user 3) 1 OrganizationRoleType.admin
   \<and> update_member_role demo_org_db (demo_user 3) 1 1 guest =
       Inl (HTTPException 403 ''Insufficient permissions'')
   \<and> distinct (map OrganizationMembership.id (organization_memberships demo_org_db))
   \<and> 1 \<in> OrganizationMembership.id ` set (organization_memberships
         (run_org_ops demo_org_db
            [UpdateMemberRole (demo_user 2) 1 1 member, JoinOrganization (demo_user 4) 1 None]))"
proof -
  have t: "target_membership demo_org_db 1 1 = Some (demo_membership 1 1 owner)"
    by (rule demo_target)
  have r: "role (demo_membership 1 1 owner) = owner"
    by (simp add: demo_membership_def)
  have d: "distinct (map OrganizationMembership.id (organization_memberships demo_org_db))"
    by (simp add: demo_memberships demo_membership_def)
  have i: "OrganizationMembership.id (demo_membership 1 1 owner) = 1"
    by (simp add: demo_membership_def)
  show ?thesis
    using t r d i demo_perm(1) demo_perm(3)
      owner_role_immutable [OF t r, of "demo_user 2" member
        "[UpdateMemberRole (demo_user 2) 1 1 member, JoinOrganization (demo_user 4) 1 None]"]
      owner_role_immutable [OF t r, of "demo_user 3" guest "[]"]
    by simp
qed

text \<open>
  C7 as stated fails: user 3, a plain member of organization 1, asks to change the role
  of the owner's membership; the call fails with 403, not with 400.
\<close>

theorem owner_role_change_by_member_counterexample:
  "target_membership demo_org_db 1 1 = Some (demo_membership 1 1 owner)
   \<and> role (demo_membership 1 1 owner) = owner
   \<and> update_member_role demo_org_db (demo_user 3) 1 1 member =
       Inl (HTTPException 403 ''Insufficient permissions'')
   \<and> update_member_role demo_org_db (demo_user 3) 1 1 member \<noteq>
       Inl (HTTPException 400 ''Cannot change owner role'')"
  by (simp add: demo_perm update_member_role_def demo_target demo_membership_def)

section \<open>Joining a session\<close>

lemma find_unique_pk:
  "distinct (map pk xs) \<Longrightarrow> x \<in> set xs \<Longrightarrow> find (\<lambda>y. pk y = pk x) xs = Some x"
  by (induction xs) (auto simp: rev_image_eqI)

lemma find_None_set: "find P xs = None \<longleftrightarrow> \<not> (\<exists>x \<in> set xs. P x)"
  by (auto simp: find_None_iff)

lemma find_Some_ex: "(\<exists>x. find P xs = Some x) \<longleftrightarrow> (\<exists>x \<in> set xs. P x)"
  using find_None_set [of P xs] by (cases "find P xs") auto

lemma join_jdr_chain:
  assumes "find (\<lambda>j. JDR.id j = jid) (jdrs db) = Some j"
  shows "join_jdr db u jid msg =
    (if JDR.status j \<noteq> JDRStatus.open \<and> JDR.status j \<noteq> in_progress
     then Inl (HTTPException 400 ''This JDR is not accepting new players'')
     else if \<not> (\<exists>m \<in> set (organization_memberships db).
                  OrganizationMembership.user_id m = User.id u
                  \<and> OrganizationMembership.organization_id m = JDR.organization_id j
                  \<and> OrganizationMembership.status m = MembershipStatus.active)
     then Inl (HTTPException 403 ''You must be a member of this organization'')
     else if (\<exists>m \<in> set (jdr_memberships db).
                  JDRMembership.user_id m = User.id u \<and> JDRMembership.jdr_id m = jid
                  \<and> (JDRMembership.status m = MembershipJDRStatus.active
                     \<or> JDRMembership.status m = MembershipJDRStatus.pending))
     then Inl (HTTPException 400 ''Already a member or pending approval'')
     else if int (length (filter (\<lambda>m. JDRMembership.jdr_id m = jid
                     \<and> JDRMembership.status m = MembershipJDRStatus.active) (jdr_memberships db)))
               \<ge> max_players j
     then Inl (HTTPException 400 ''JDR is full'')
     else Inr (db\<lparr>jdr_memberships := jdr_memberships db @
                  [\<lparr>JDRMembership.id = fresh_id (map JDRMembership.id (jdr_memberships db)),
                    jdr_id = jid, user_id = User.id u, status = MembershipJDRStatus.pending,
                    join_message = msg, approved_by_id = None, approved_at = None\<rparr>]\<rparr>,
               \<lparr>JDRMembership.id = fresh_id (map JDRMembership.id (jdr_memberships db)),
                    jdr_id = jid, user_id = User.id u, status = MembershipJDRStatus.pending,
                    join_message = msg, approved_by_id = None, approved_at = None\<rparr>))"
proof -
  let ?P = "\<lambda>m. OrganizationMembership.user_id m = User.id u
                  \<and> OrganizationMembership.organization_id m = JDR.organization_id j
                  \<and> OrganizationMembership.status m = MembershipStatus.active"
  let ?Q = "\<lambda>m. JDRMembership.user_id m = User.id u \<and> JDRMembership.jdr_id m = jid
                  \<and> JDRMembership.status m
                      \<in> set [MembershipJDRStatus.active, MembershipJDRStatus.pending]"
  have org: "check_org_membership db (User.id u) (JDR.organization_id j)
               = Inl (HTTPException 403 ''You must be a member of this organization'')"
    if "\<not> (\<exists>m \<in> set (organization_memberships db). ?P m)"
    using that find_None_set [of ?P "organization_memberships db"]
    by (simp add: check_org_membership_def)
  have org': "\<exists>m. check_org_membership db (User.id u) (JDR.organization_id j) = Inr m"
    if "\<exists>m \<in> set (organization_memberships db). ?P m"
    using that find_Some_ex [of ?P "organization_memberships db"]
    by (auto simp: check_org_membership_def)
  have ex: "(find ?Q (jdr_memberships db) = None) \<longleftrightarrow> \<not> (\<exists>m \<in> set (jdr_memberships db). ?Q m)"
    by (rule find_None_set)
  show ?thesis
  proof (cases "\<exists>m \<in> set (organization_memberships db). ?P m")
    case False
    then show ?thesis using assms org [OF False] by (simp add: join_jdr_def)
  next
    case True
    from org' [OF True] obtain m where m: "check_org_membership db (User.id u) (JDR.organization_id j) = Inr m" ..
    show ?thesis
    proof (cases "find ?Q (jdr_memberships db)")
      case None
      then show ?thesis using assms m True ex
        by (auto simp: join_jdr_def Let_def)
    next
      case (Some a)
      then show ?thesis using assms m True ex
        by (auto simp: join_jdr_def Let_def)
    qed
  qed
qed

text \<open>
  C8. \<^verbatim>\<open>join_jdr\<close> fails with 404 when no session has the id. For the session with
  that id it fails with 400 ``This JDR is not accepting new players'' unless the status
  is open or in_progress; else with 403 unless the requester holds an active membership
  of the session's organization; else with 400 ``Already a member or pending approval''
  when the requester already has an active or pending membership of the session; else
  with 400 ``JDR is full'' when the number of active memberships of the session is at
  least \<^verbatim>\<open>max_players\<close>; and otherwise it stores and returns one new membership with
  status pending.
\<close>

theorem join_jdr_outcomes:
  assumes "distinct (map JDR.id (jdrs db))"
  shows
   "(\<not> (\<exists>j \<in> set (jdrs db). JDR.id j = jid) \<longrightarrow>
       join_jdr db u jid msg = Inl (HTTPException 404 ''JDR not found''))
  \<and> (\<forall>j \<in> set (jdrs db). JDR.id j = jid \<longrightarrow>
       (let accepting = (JDR.status j = JDRStatus.open \<or> JDR.status j = in_progress);
            org_member = (\<exists>m \<in> set (organization_memberships db).
                  OrganizationMembership.user_id m = User.id u
                  \<and> OrganizationMembership.organization_id m = JDR.organization_id j
                  \<and> OrganizationMembership.status m = MembershipStatus.active);
            already = (\<exists>m \<in> set (jdr_memberships db).
                  JDRMembership.user_id m = User.id u \<and> JDRMembership.jdr_id m = jid
                  \<and> (JDRMembership.status m = MembershipJDRStatus.active
                     \<or> JDRMembership.status m = MembershipJDRStatus.pending));
            active_count = int (length (filter (\<lambda>m. JDRMembership.jdr_id m = jid
                     \<and> JDRMembership.status m = MembershipJDRStatus.active) (jdr_memberships db)));
            new = \<lparr>JDRMembership.id = fresh_id (map JDRMembership.id (jdr_memberships db)),
                    jdr_id = jid, user_id = User.id u, status = MembershipJDRStatus.pending,
                    join_message = msg, approved_by_id = None, approved_at = None\<rparr>
        in (\<not> accepting \<longrightarrow> join_jdr db u jid msg =
              Inl (HTTPException 400 ''This JDR is not accepting new players''))
         \<and> (accepting \<and> \<not> org_member \<longrightarrow> join_jdr db u jid msg =
              Inl (HTTPException 403 ''You must be a member of this organization''))
         \<and> (accepting \<and> org_member \<and> already \<longrightarrow> join_jdr db u jid msg =
              Inl (HTTPException 400 ''Already a member or pending approval''))
         \<and> (accepting \<and> org_member \<and> \<not> already \<and> active_count \<ge> max_players j \<longrightarrow>
              join_jdr db u jid msg = Inl (HTTPException 400 ''JDR is full''))
         \<and> (accepting \<and> org_member \<and> \<not> already \<and> active_count < max_players j \<longrightarrow>
              join_jdr db u jid msg =
                Inr (db\<lparr>jdr_memberships := jdr_memberships db @ [new]\<rparr>, new))))"
proof (intro conjI impI ballI)
  assume "\<not> (\<exists>j \<in> set (jdrs db). JDR.id j = jid)"
  then have "find (\<lambda>j. JDR.id j = jid) (jdrs db) = None"
    by (simp add: find_None_set)
  then show "join_jdr db u jid msg = Inl (HTTPException 404 ''JDR not found'')"
    by (simp add: join_jdr_def)
next
  fix j assume "j \<in> set (jdrs db)" and "JDR.id j = jid"
  then have "find (\<lambda>j. JDR.id j = jid) (jdrs db) = Some j"
    using find_unique_pk [OF assms, of j] by simp
  from join_jdr_chain [OF this, of u msg]
  show "let accepting = (JDR.status j = JDRStatus.open \<or> JDR.status j = in_progress);
            org_member = (\<exists>m \<in> set (organization_memberships db).
                  OrganizationMembership.user_id m = User.id u
                  \<and> OrganizationMembership.organization_id m = JDR.organization_id j
                  \<and> OrganizationMembership.status m = MembershipStatus.active);
            already = (\<exists>m \<in> set (jdr_memberships db).
                  JDRMembership.user_id m = User.id u \<and> JDRMembership.jdr_id m = jid
                  \<and> (JDRMembership.status m = MembershipJDRStatus.active
                     \<or> JDRMembership.status m = MembershipJDRStatus.pending));
            active_count = int (length (filter (\<lambda>m. JDRMembership.jdr_id m = jid
                     \<and> JDRMembership.status m = MembershipJDRStatus.active) (jdr_memberships db)));
            new = \<lparr>JDRMembership.id = fresh_id (map JDRMembership.id (jdr_memberships db)),
                    jdr_id = jid, user_id = User.id u, status = MembershipJDRStatus.pending,
                    join_message = msg, approved_by_id = None, approved_at = None\<rparr>
        in (\<not> accepting \<longrightarrow> join_jdr db u jid msg =
              Inl (HTTPException 400 ''This JDR is not accepting new players''))
         \<and> (accepting \<and> \<not> org_member \<longrightarrow> join_jdr db u jid msg =
              Inl (HTTPException 403 ''You must be a member of this organization''))
         \<and> (accepting \<and> org_member \<and> already \<longrightarrow> join_jdr db u jid msg =
              Inl (HTTPException 400 ''Already a member or pending approval''))
         \<and> (accepting \<and> org_member \<and> \<not> already \<and> active_count \<ge> max_players j \<longrightarrow>
              join_jdr db u jid msg = Inl (HTTPException 400 ''JDR is full''))
         \<and> (accepting \<and> org_member \<and> \<not> already \<and> active_count < max_players j \<longrightarrow>
              join_jdr db u jid msg =
                Inr (db\<lparr>jdr_memberships := jdr_memberships db @ [new]\<rparr>, new))"
    unfolding Let_def by auto
qed

lemma demo_jdr_tables:
  "jdrs demo_jdr_db = [demo_jdr 1 JDRStatus.open 1, demo_jdr 2 draft 4, demo_jdr 3 JDRStatus.open 5]"
  "jdr_memberships demo_jdr_db =
       [demo_jdr_membership 1 1 2 MembershipJDRStatus.active,
        demo_jdr_membership 2 3 2 MembershipJDRStatus.pending]"
  "organization_memberships demo_jdr_db =
     [demo_membership 1 1 owner, demo_membership 2 2 OrganizationRoleType.admin,
      demo_membership 3 3 member]"
  by (simp_all add: demo_jdr_db_def demo_org_db_def)

theorem join_jdr_outcomes_witness:
  "distinct (map JDR.id (jdrs demo_jdr_db))
   \<and> join_jdr demo_jdr_db (demo_user 3) 99 None = Inl (HTTPException 404 ''JDR not found'')
   \<and> join_jdr demo_jdr_db (demo_user 3) 2 None =
       Inl (HTTPException 400 ''This JDR is not accepting new players'')
   \<and> join_jdr demo_jdr_db (demo_user 4) 1 None =
       Inl (HTTPException 403 ''You must be a member of this organization'')
   \<and> join_jdr demo_jdr_db (demo_user 2) 3 None =
       Inl (HTTPException 400 ''Already a member or pending approval'')
   \<and> join_jdr demo_jdr_db (demo_user 3) 1 None = Inl (HTTPException 400 ''JDR is full'')
   \<and> join_jdr demo_jdr_db (demo_user 3) 3 (Some ''hello'') =
       Inr (demo_jdr_db\<lparr>jdr_memberships := jdr_memberships demo_jdr_db @
              [(demo_jdr_membership 3 3 3 MembershipJDRStatus.pending)
                 \<lparr>join_message := Some ''hello''\<rparr>]\<rparr>,
            (demo_jdr_membership 3 3 3 MembershipJDRStatus.pending)
                 \<lparr>join_message := Some ''hello''\<rparr>)"
proof -
  have d: "distinct (map JDR.id (jdrs demo_jdr_db))"
    by (simp add: demo_jdr_tables demo_jdr_def)
  note s = demo_jdr_tables demo_jdr_def demo_jdr_membership_def demo_membership_def
    demo_user_def fresh_id_def Let_def
  have "join_jdr demo_jdr_db (demo_user 3) 99 None = Inl (HTTPException 404 ''JDR not found'')"
    using join_jdr_outcomes [OF d, of 99 "demo_user 3" None] by (simp add: s)
  moreover have "join_jdr demo_jdr_db (demo_user 3) 2 None =
       Inl (HTTPException 400 ''This JDR is not accepting new players'')"
    using join_jdr_outcomes [OF d, of 2 "demo_user 3" None] by (simp add: s)
  moreover have "join_jdr demo_jdr_db (demo_user 4) 1 None =
       Inl (HTTPException 403 ''You must be a member of this organization'')"
    using join_jdr_outcomes [OF d, of 1 "demo_user 4" None] by (simp add: s)
  moreover have "join_jdr demo_jdr_db (demo_user 2) 3 None =
       Inl (HTTPException 400 ''Already a member or pending approval'')"
    using join_jdr_outcomes [OF d, of 3 "demo_user 2" None] by (simp add: s)
  moreover have "join_jdr demo_jdr_db (demo_user 3) 1 None = Inl (HTTPException 400 ''JDR is full'')"
    using join_jdr_outcomes [OF d, of 1 "demo_user 3" None] by (simp add: s)
  moreover have "join_jdr demo_jdr_db (demo_user 3) 3 (Some ''hello'') =
       Inr (demo_jdr_db\<lparr>jdr_memberships := jdr_memberships demo_jdr_db @
              [(demo_jdr_membership 3 3 3 MembershipJDRStatus.pending)
                 \<lparr>join_message := Some ''hello''\<rparr>]\<rparr>,
            (demo_jdr_membership 3 3 3 MembershipJDRStatus.pending)
                 \<lparr>join_message := Some ''hello''\<rparr>)"
    using join_jdr_outcomes [OF d, of 3 "demo_user 3" "Some ''hello''"] by (simp add: s)
  ultimately show ?thesis using d by simp
qed

section \<open>Giving an item\<close>

lemma update_row_distinct:
  assumes "distinct (map pk xs)" and "x \<in> set xs" and "pk x' = pk x"
  shows "update_row pk x' xs = map (\<lambda>r. if r = x then x' else r) xs"
proof -
  have "pk r = pk x \<longleftrightarrow> r = x" if "r \<in> set xs" for r
    using assms(1,2) that by (auto simp: distinct_map dest: inj_onD)
  then show ?thesis
    using assms(3) by (simp add: update_row_def)
qed

lemma find_update_row:
  "\<exists>x \<in> set xs. pk x = pk x' \<Longrightarrow> find (\<lambda>r. pk r = pk x') (update_row pk x' xs) = Some x'"
  by (induction xs) (auto simp: update_row_def)

lemma find_append_fresh:
  "\<forall>x \<in> set xs. \<not> P x \<Longrightarrow> P y \<Longrightarrow> find P (xs @ [y]) = Some y"
  by (induction xs) auto

text \<open>
  C9. When the requester is the MJ of the session and the character and the game item
  belong to it: if the inventory already has a row for the (character, game item) pair
  (the row the query returns) with quantity \<open>q\<close>, and \<open>q + n\<close> fits the \<^verbatim>\<open>Integer\<close>
  column, \<^verbatim>\<open>give_item_to_character\<close> sets the quantity of that row to \<open>q + n\<close>, changes
  no other row and adds none, and returns the row; if the inventory has no row for the
  pair and \<open>n\<close> fits the column, it appends exactly one new row with quantity \<open>n\<close> and
  returns it. When the quantity to store does not fit the column, the write fails at
  \<^verbatim>\<open>commit\<close> and the call returns no database.
\<close>

theorem give_item_to_character_stacks:
  assumes "check_is_mj db u jid = Inr j"
    and "\<exists>c \<in> set (characters db).
           Character.id c = GiveItemRequest.character_id data \<and> Character.jdr_id c = jid"
    and "\<exists>g \<in> set (game_items db).
           GameItem.id g = GiveItemRequest.game_item_id data \<and> GameItem.jdr_id g = jid"
    and "distinct (map CharacterInventory.id (character_inventory db))"
  shows
    "(\<forall>row. find (\<lambda>r. CharacterInventory.character_id r = GiveItemRequest.character_id data
                     \<and> CharacterInventory.game_item_id r = GiveItemRequest.game_item_id data)
                (character_inventory db) = Some row \<longrightarrow>
        (let row' = row\<lparr>CharacterInventory.quantity :=
                          CharacterInventory.quantity row + GiveItemRequest.quantity data,
                        CharacterInventory.mj_notes :=
                          (if GiveItemRequest.mj_notes data \<noteq> None
                              \<and> GiveItemRequest.mj_notes data \<noteq> Some []
                           then GiveItemRequest.mj_notes data
                           else CharacterInventory.mj_notes row)\<rparr>
         in give_item_to_character w db u jid data =
              (if fits_integer w
                    (CharacterInventory.quantity row + GiveItemRequest.quantity data)
               then Inr (db\<lparr>character_inventory :=
                             map (\<lambda>r. if r = row then row' else r) (character_inventory db)\<rparr>,
                         Some row')
               else Inl DataError)))
   \<and> (\<not> (\<exists>r \<in> set (character_inventory db).
            CharacterInventory.character_id r = GiveItemRequest.character_id data
            \<and> CharacterInventory.game_item_id r = GiveItemRequest.game_item_id data) \<longrightarrow>
        (let new = \<lparr>CharacterInventory.id =
                       fresh_id (map CharacterInventory.id (character_inventory db)),
                     character_id = GiveItemRequest.character_id data,
                     game_item_id = GiveItemRequest.game_item_id data,
                     quantity = GiveItemRequest.quantity data,
                     is_equipped = False, equipment_slot = None,
                     mj_notes = GiveItemRequest.mj_notes data\<rparr>
         in give_item_to_character w db u jid data =
              (if fits_integer w (GiveItemRequest.quantity data)
               then Inr (db\<lparr>character_inventory := character_inventory db @ [new]\<rparr>,
                         Some new)
               else Inl DataError)))"
proof -
  let ?C = "\<lambda>c. Character.id c = GiveItemRequest.character_id data \<and> Character.jdr_id c = jid"
  let ?G = "\<lambda>g. GameItem.id g = GiveItemRequest.game_item_id data \<and> GameItem.jdr_id g = jid"
  let ?P = "\<lambda>r. CharacterInventory.character_id r = GiveItemRequest.character_id data
                     \<and> CharacterInventory.game_item_id r = GiveItemRequest.game_item_id data"
  let ?inv = "character_inventory db"
  obtain c where c: "find ?C (characters db) = Some c"
    using assms(2) find_Some_ex [of ?C "characters db"] by auto
  obtain g where g: "find ?G (game_items db) = Some g"
    using assms(3) find_Some_ex [of ?G "game_items db"] by auto
  have stack: "give_item_to_character w db u jid data =
      (if fits_integer w (CharacterInventory.quantity row + GiveItemRequest.quantity data)
       then Inr (db\<lparr>character_inventory := map (\<lambda>r. if r = row then row' else r) ?inv\<rparr>,
                 Some row')
       else Inl DataError)"
    if f: "find ?P ?inv = Some row"
      and r: "row' = row\<lparr>CharacterInventory.quantity :=
                          CharacterInventory.quantity row + GiveItemRequest.quantity data,
                        CharacterInventory.mj_notes :=
                          (if GiveItemRequest.mj_notes data \<noteq> None
                              \<and> GiveItemRequest.mj_notes data \<noteq> Some []
                           then GiveItemRequest.mj_notes data
                           else CharacterInventory.mj_notes row)\<rparr>"
    for row row'
  proof -
    have mem: "row \<in> set ?inv" using f by (auto dest: find_Some_mem)
    have pk: "CharacterInventory.id row' = CharacterInventory.id row" using r by simp
    have u: "update_row CharacterInventory.id row' ?inv = map (\<lambda>r. if r = row then row' else r) ?inv"
      by (rule update_row_distinct [OF assms(4) mem pk])
    have q: "find (\<lambda>r. CharacterInventory.id r = CharacterInventory.id row')
               (update_row CharacterInventory.id row' ?inv) = Some row'"
      using mem pk by (intro find_update_row) auto
    show ?thesis
    proof (cases "GiveItemRequest.mj_notes data \<noteq> None \<and> GiveItemRequest.mj_notes data \<noteq> Some []")
      case True
      with r have r': "row' = row\<lparr>CharacterInventory.quantity :=
                          CharacterInventory.quantity row + GiveItemRequest.quantity data,
                        CharacterInventory.mj_notes := GiveItemRequest.mj_notes data\<rparr>"
        by simp
      show ?thesis
        using True q u unfolding r'
        by (simp add: give_item_to_character_def assms(1) c g f Let_def
              get_inventory_with_images_def)
    next
      case False
      with r have r': "row' = row\<lparr>CharacterInventory.quantity :=
                          CharacterInventory.quantity row + GiveItemRequest.quantity data\<rparr>"
        by auto
      show ?thesis
        using False q u unfolding r'
        by (auto simp: give_item_to_character_def assms(1) c g f Let_def
              get_inventory_with_images_def)
    qed
  qed
  have fresh: "give_item_to_character w db u jid data =
      (if fits_integer w (GiveItemRequest.quantity data)
       then Inr (db\<lparr>character_inventory := ?inv @ [new]\<rparr>, Some new)
       else Inl DataError)"
    if n: "\<not> (\<exists>r \<in> set ?inv. ?P r)"
      and r: "new = \<lparr>CharacterInventory.id = fresh_id (map CharacterInventory.id ?inv),
                     character_id = GiveItemRequest.character_id data,
                     game_item_id = GiveItemRequest.game_item_id data,
                     quantity = GiveItemRequest.quantity data,
                     is_equipped = False, equipment_slot = None,
                     mj_notes = GiveItemRequest.mj_notes data\<rparr>"
    for new
  proof -
    have f: "find ?P ?inv = None" using n by (simp add: find_None_set)
    have "\<forall>x \<in> set ?inv. CharacterInventory.id x \<noteq> CharacterInventory.id new"
      using fresh_id_notin [of "map CharacterInventory.id ?inv"] r by (auto simp: image_iff)
    then have q: "find (\<lambda>r. CharacterInventory.id r = CharacterInventory.id new) (?inv @ [new])
                = Some new"
      by (intro find_append_fresh) auto
    show ?thesis
      using q r
      by (simp add: give_item_to_character_def assms(1) c g f Let_def
            get_inventory_with_images_def)
  qed
  show ?thesis
    unfolding Let_def using stack fresh by blast
qed

lemma demo_game_tables:
  "jdrs demo_game_db = [demo_jdr 1 JDRStatus.open 1, demo_jdr 2 draft 4, demo_jdr 3 JDRStatus.open 5]"
  "characters demo_game_db = [\<lparr>Character.id = 1, jdr_id = 1, owner_id = 2, name = ''Thorin'',
                     avatar_image_id = None, gold = Finite False 50 0\<rparr>]"
  "game_items demo_game_db =
       [\<lparr>GameItem.id = 1, jdr_id = 1, template_id = None, custom_name = Some ''Potion'',
          custom_image_id = None, quantity = 1\<rparr>,
        \<lparr>GameItem.id = 2, jdr_id = 1, template_id = None, custom_name = Some ''Sword'',
          custom_image_id = None, quantity = 1\<rparr>]"
  "character_inventory demo_game_db = [demo_inventory_row 1 1 3]"
  by (simp_all add: demo_game_db_def demo_jdr_db_def)

theorem give_item_to_character_stacks_witness:
  "check_is_mj demo_game_db (demo_user 1) 1 = Inr (demo_jdr 1 JDRStatus.open 1)
   \<and> distinct (map CharacterInventory.id (character_inventory demo_game_db))
   \<and> give_item_to_character 32 demo_game_db (demo_user 1) 1
        \<lparr>game_item_id = 1, character_id = 1, quantity = 2, mj_notes = None\<rparr> =
       Inr (demo_game_db\<lparr>character_inventory := [demo_inventory_row 1 1 5]\<rparr>,
            Some (demo_inventory_row 1 1 5))
   \<and> give_item_to_character 32 demo_game_db (demo_user 1) 1
        \<lparr>game_item_id = 2, character_id = 1, quantity = 4, mj_notes = None\<rparr> =
       Inr (demo_game_db\<lparr>character_inventory :=
              [demo_inventory_row 1 1 3, demo_inventory_row 2 2 4]\<rparr>,
            Some (demo_inventory_row 2 2 4))
   \<and> give_item_to_character 32 demo_game_db (demo_user 1) 1
        \<lparr>game_item_id = 1, character_id = 1, quantity = 2147483644, mj_notes = None\<rparr> =
       Inr (demo_game_db\<lparr>character_inventory := [demo_inventory_row 1 1 2147483647]\<rparr>,
            Some (demo_inventory_row 1 1 2147483647))
   \<and> give_item_to_character 32 demo_game_db (demo_user 1) 1
        \<lparr>game_item_id = 1, character_id = 1, quantity = 2147483645, mj_notes = None\<rparr> =
       Inl DataError
   \<and> give_item_to_character 32 demo_game_db (demo_user 1) 1
        \<lparr>game_item_id = 2, character_id = 1, quantity = 2147483648, mj_notes = None\<rparr> =
       Inl DataError"
proof -
  have m: "check_is_mj demo_game_db (demo_user 1) 1 = Inr (demo_jdr 1 JDRStatus.open 1)"
    by (simp add: check_is_mj_def demo_game_tables demo_jdr_def demo_user_def)
  have d: "distinct (map CharacterInventory.id (character_inventory demo_game_db))"
    by (simp add: demo_game_tables)
  have c: "\<exists>c \<in> set (characters demo_game_db). Character.id c = 1 \<and> Character.jdr_id c = 1"
    by (simp add: demo_game_tables)
  have g1: "\<exists>g \<in> set (game_items demo_game_db). GameItem.id g = 1 \<and> GameItem.jdr_id g = 1"
    by (simp add: demo_game_tables)
  have g2: "\<exists>g \<in> set (game_items demo_game_db). GameItem.id g = 2 \<and> GameItem.jdr_id g = 1"
    by (simp add: demo_game_tables)
  have a: "give_item_to_character 32 demo_game_db (demo_user 1) 1
        \<lparr>game_item_id = 1, character_id = 1, quantity = 2, mj_notes = None\<rparr> =
       Inr (demo_game_db\<lparr>character_inventory := [demo_inventory_row 1 1 5]\<rparr>,
            Some (demo_inventory_row 1 1 5))"
    using give_item_to_character_stacks [OF m, of
        "\<lparr>game_item_id = 1, character_id = 1, quantity = 2, mj_notes = None\<rparr>" 32] c g1 d
    by (simp add: demo_game_tables demo_inventory_row_def Let_def fits_integer_def)
  have b: "give_item_to_character 32 demo_game_db (demo_user 1) 1
        \<lparr>game_item_id = 2, character_id = 1, quantity = 4, mj_notes = None\<rparr> =
       Inr (demo_game_db\<lparr>character_inventory :=
              [demo_inventory_row 1 1 3, demo_inventory_row 2 2 4]\<rparr>,
            Some (demo_inventory_row 2 2 4))"
    using give_item_to_character_stacks [OF m, of
        "\<lparr>game_item_id = 2, character_id = 1, quantity = 4, mj_notes = None\<rparr>" 32] c g2 d
    by (simp add: demo_game_tables demo_inventory_row_def Let_def fresh_id_def
          fits_integer_def)
  have a': "give_item_to_character 32 demo_game_db (demo_user 1) 1
        \<lparr>game_item_id = 1, character_id = 1, quantity = 2147483644, mj_notes = None\<rparr> =
       Inr (demo_game_db\<lparr>character_inventory := [demo_inventory_row 1 1 2147483647]\<rparr>,
            Some (demo_inventory_row 1 1 2147483647))"
    using give_item_to_character_stacks [OF m, of
        "\<lparr>game_item_id = 1, character_id = 1, quantity = 2147483644, mj_notes = None\<rparr>" 32]
      c g1 d
    by (simp add: demo_game_tables demo_inventory_row_def Let_def fits_integer_def)
  have e: "give_item_to_character 32 demo_game_db (demo_user 1) 1
        \<lparr>game_item_id = 1, character_id = 1, quantity = 2147483645, mj_notes = None\<rparr> =
       Inl DataError"
    using give_item_to_character_stacks [OF m, of
        "\<lparr>game_item_id = 1, character_id = 1, quantity = 2147483645, mj_notes = None\<rparr>" 32]
      c g1 d
    by (simp add: demo_game_tables demo_inventory_row_def Let_def fits_integer_def)
  have f: "give_item_to_character 32 demo_game_db (demo_user 1) 1
        \<lparr>game_item_id = 2, character_id = 1, quantity = 2147483648, mj_notes = None\<rparr> =
       Inl DataError"
    using give_item_to_character_stacks [OF m, of
        "\<lparr>game_item_id = 2, character_id = 1, quantity = 2147483648, mj_notes = None\<rparr>" 32]
      c g2 d
    by (simp add: demo_game_tables demo_inventory_row_def Let_def fits_integer_def)
  show ?thesis using m d a b a' e f by simp
qed

section \<open>Computed image URLs\<close>

lemma first_present_Cons:
  "first_present (x # xs) = (case x of Some a \<Rightarrow> Some a | None \<Rightarrow> first_present xs)"
  by (cases x) simp_all

lemma image_by_id_mem: "image_by_id db fk = Some a \<Longrightarrow> a \<in> set (image_assets db)"
  by (auto simp: image_by_id_def split: option.splits dest: find_Some_mem)

lemma GameItem_image_url_spec:
  "GameItem_image_url db g = map_option url (item_image_spec db g)"
  by (simp add: GameItem_image_url_def item_image_spec_def first_present_Cons
      split: option.splits Option.bind_splits)

lemma item_image_spec_mem: "item_image_spec db g = Some a \<Longrightarrow> a \<in> set (image_assets db)"
  by (auto simp: item_image_spec_def GameItem_custom_image_def ItemTemplate_image_def
      first_present_Cons split: option.splits Option.bind_splits dest: image_by_id_mem)

text \<open>
  C4. When no stored image has an empty URL (the image service writes
  \<^verbatim>\<open>/uploads/...\<close>), the computed URL of a board element is the URL of the first image
  present among: the element's own image, the avatar of its linked character, the
  resolved image of its linked game item; and none when there is none. The resolved image
  of a game item is its custom image if present, else the image of its template if
  present, else none, and \<^verbatim>\<open>GameItem.image_url\<close> is its URL.
\<close>

theorem image_url_priority:
  assumes "\<forall>a \<in> set (image_assets db). url a \<noteq> []"
  shows "BoardElement_image_url db el = map_option url (element_image_spec db el)
       \<and> GameItem_image_url db g = map_option url (item_image_spec db g)
       \<and> element_image_spec db el =
           (case BoardElement_image db el of
              Some img \<Rightarrow> Some img
            | None \<Rightarrow>
               (case Option.bind (BoardElement_character db el) (Character_avatar_image db) of
                  Some avatar \<Rightarrow> Some avatar
                | None \<Rightarrow> Option.bind (BoardElement_game_item db el) (item_image_spec db)))
       \<and> item_image_spec db g =
           (case GameItem_custom_image db g of
              Some custom \<Rightarrow> Some custom
            | None \<Rightarrow> Option.bind (GameItem_template db g) (ItemTemplate_image db))"
proof -
  have ne: "url a \<noteq> []" if "item_image_spec db x = Some a" for x a
    using assms item_image_spec_mem [OF that] by simp
  have "BoardElement_image_url db el = map_option url (element_image_spec db el)"
    using ne
    by (auto simp: BoardElement_image_url_def element_image_spec_def GameItem_image_url_spec Let_def
        first_present_Cons split: option.splits Option.bind_splits)
  moreover have "element_image_spec db el =
           (case BoardElement_image db el of
              Some img \<Rightarrow> Some img
            | None \<Rightarrow>
               (case Option.bind (BoardElement_character db el) (Character_avatar_image db) of
                  Some avatar \<Rightarrow> Some avatar
                | None \<Rightarrow> Option.bind (BoardElement_game_item db el) (item_image_spec db)))"
    by (simp add: element_image_spec_def first_present_Cons split: option.splits)
  moreover have "item_image_spec db g =
           (case GameItem_custom_image db g of
              Some custom \<Rightarrow> Some custom
            | None \<Rightarrow> Option.bind (GameItem_template db g) (ItemTemplate_image db))"
    by (simp add: item_image_spec_def first_present_Cons split: option.splits)
  ultimately show ?thesis by (simp add: GameItem_image_url_spec)
qed

lemma demo_board_tables:
  "jdrs demo_board_db = [demo_jdr 1 JDRStatus.open 1, demo_jdr 2 draft 4, demo_jdr 3 JDRStatus.open 5]"
  "jdr_memberships demo_board_db =
       [demo_jdr_membership 1 1 2 MembershipJDRStatus.active,
        demo_jdr_membership 2 3 2 MembershipJDRStatus.pending,
        demo_jdr_membership 3 3 5 MembershipJDRStatus.active,
        demo_jdr_membership 4 3 6 MembershipJDRStatus.active]"
  "image_assets demo_board_db =
       [\<lparr>ImageAsset.id = 3, url = ''/uploads/avatars/a.png''\<rparr>,
        \<lparr>ImageAsset.id = 5, url = ''/uploads/boards/m.png''\<rparr>,
        \<lparr>ImageAsset.id = 7, url = ''/uploads/items/t.png''\<rparr>,
        \<lparr>ImageAsset.id = 9, url = ''/uploads/items/c.png''\<rparr>]"
  "item_templates demo_board_db = [\<lparr>ItemTemplate.id = 1, name = ''Sword'', image_id = Some 7\<rparr>]"
  "game_items demo_board_db =
       [\<lparr>GameItem.id = 3, jdr_id = 3, template_id = Some 1, custom_name = None,
          custom_image_id = None, quantity = 1\<rparr>,
        \<lparr>GameItem.id = 4, jdr_id = 3, template_id = Some 1, custom_name = Some ''Glamdring'',
          custom_image_id = Some 9, quantity = 1\<rparr>]"
  "characters demo_board_db = [\<lparr>Character.id = 2, jdr_id = 3, owner_id = 5, name = ''Gimli'',
                     avatar_image_id = Some 3, gold = Finite False 0 0\<rparr>]"
  "boards demo_board_db = [demo_board]"
  "board_elements demo_board_db = demo_elements"
  by (simp_all add: demo_board_db_def demo_jdr_db_def)

lemma demo_spec_images:
  "item_image_spec demo_board_db \<lparr>GameItem.id = 3, jdr_id = 3, template_id = Some 1, custom_name = None,
          custom_image_id = None, quantity = 1\<rparr> = Some \<lparr>ImageAsset.id = 7, url = ''/uploads/items/t.png''\<rparr>"
  "item_image_spec demo_board_db \<lparr>GameItem.id = 4, jdr_id = 3, template_id = Some 1, custom_name = Some ''Glamdring'',
          custom_image_id = Some 9, quantity = 1\<rparr> = Some \<lparr>ImageAsset.id = 9, url = ''/uploads/items/c.png''\<rparr>"
  by (simp_all add: item_image_spec_def GameItem_custom_image_def GameItem_template_def
      ItemTemplate_image_def image_by_id_def demo_board_tables)

lemma demo_element_images:
  "element_image_spec demo_board_db demo_el1 = Some \<lparr>ImageAsset.id = 5, url = ''/uploads/boards/m.png''\<rparr>"
  "element_image_spec demo_board_db demo_el2 = Some \<lparr>ImageAsset.id = 3, url = ''/uploads/avatars/a.png''\<rparr>"
  "element_image_spec demo_board_db demo_el4 = Some \<lparr>ImageAsset.id = 7, url = ''/uploads/items/t.png''\<rparr>"
  "element_image_spec demo_board_db demo_el5 = None"
  "element_image_spec demo_board_db demo_el6 = Some \<lparr>ImageAsset.id = 9, url = ''/uploads/items/c.png''\<rparr>"
  by (simp_all add: element_image_spec_def BoardElement_image_def BoardElement_character_def
      BoardElement_game_item_def Character_avatar_image_def image_by_id_def demo_board_tables
      demo_el1_def demo_el2_def demo_el3_def demo_el4_def demo_el5_def demo_el6_def
      demo_element_def demo_spec_images)

theorem image_url_priority_witness:
  "[] \<notin> set (map url (image_assets demo_board_db))
   \<and> BoardElement_image_url demo_board_db demo_el1 = Some ''/uploads/boards/m.png''
   \<and> BoardElement_image_url demo_board_db demo_el2 = Some ''/uploads/avatars/a.png''
   \<and> BoardElement_image_url demo_board_db demo_el4 = Some ''/uploads/items/t.png''
   \<and> BoardElement_image_url demo_board_db demo_el5 = None
   \<and> BoardElement_image_url demo_board_db demo_el6 = Some ''/uploads/items/c.png''"
proof -
  have ne: "\<forall>a \<in> set (image_assets demo_board_db). url a \<noteq> []"
    by (simp add: demo_board_tables)
  have ne': "[] \<notin> set (map url (image_assets demo_board_db))"
    by (simp add: demo_board_tables)
  show ?thesis
    using ne'
      image_url_priority [OF ne, of demo_el1]
      image_url_priority [OF ne, of demo_el2]
      image_url_priority [OF ne, of demo_el4]
      image_url_priority [OF ne, of demo_el5]
      image_url_priority [OF ne, of demo_el6]
    by (simp add: demo_element_images)
qed

section \<open>Reading the board\<close>

lemma visible_elements_filter:
  "(\<forall>el \<in> set els. BoardElement.is_visible el \<longrightarrow> \<not> isl (is_visible_to_user db el uid)) \<Longrightarrow>
   visible_elements db uid els =
     Inr (filter (\<lambda>el. BoardElement.is_visible el \<and> is_visible_to_user db el uid = Inr True) els)"
proof (induction els)
  case Nil
  then show ?case by simp
next
  case (Cons el els)
  then have ih: "visible_elements db uid els =
     Inr (filter (\<lambda>el. BoardElement.is_visible el \<and> is_visible_to_user db el uid = Inr True) els)"
    by simp
  show ?case
  proof (cases "BoardElement.is_visible el")
    case False
    then show ?thesis using ih by simp
  next
    case True
    with Cons.prems obtain keep where k: "is_visible_to_user db el uid = Inr keep"
      by (cases "is_visible_to_user db el uid") auto
    show ?thesis using True k ih by simp
  qed
qed

lemma BoardElement_character_id:
  "BoardElement_character db el = Some ch \<Longrightarrow>
     BoardElement.character_id el = Some (Character.id ch) \<and> ch \<in> set (characters db)"
  by (auto simp: BoardElement_character_def split: option.splits dest: find_Some_mem)

text \<open>
  C2. For a session and its board: \<^verbatim>\<open>get_board\<close> returns to the MJ every element of
  the board, whatever \<^verbatim>\<open>is_visible\<close> and \<^verbatim>\<open>visible_to\<close> say. To another user who is an
  active player of the session it returns exactly the elements with \<^verbatim>\<open>is_visible\<close> true
  that \<^verbatim>\<open>_is_visible_to_user\<close> admits (provided no descriptor of a visible element makes
  the test raise). The test admits everyone for an absent or empty descriptor and for
  \<open>{all: true}\<close>; for \<open>{player_ids: [...]}\<close> it admits exactly the listed user ids; for
  \<open>{character_ids: ...}\<close> it admits the user exactly when the element has a linked
  character owned by the user, and nobody when the link is missing (character ids are
  never 0).
\<close>

theorem get_board_visibility:
  assumes "find (\<lambda>j. JDR.id j = jid) (jdrs db) = Some j"
    and "find (\<lambda>b. Board.jdr_id b = jid) (boards db) = Some b"
  shows
   "(mj_id j = Some (User.id u) \<longrightarrow> get_board db u jid = Inr (b, Board_elements db b))
  \<and> (mj_id j \<noteq> Some (User.id u)
       \<and> (\<exists>m \<in> set (jdr_memberships db). JDRMembership.user_id m = User.id u
              \<and> JDRMembership.jdr_id m = jid
              \<and> JDRMembership.status m = MembershipJDRStatus.active)
       \<and> (\<forall>el \<in> set (Board_elements db b).
              BoardElement.is_visible el \<longrightarrow> \<not> isl (is_visible_to_user db el (User.id u))) \<longrightarrow>
       get_board db u jid =
         Inr (b, filter (\<lambda>el. BoardElement.is_visible el \<and> is_visible_to_user db el (User.id u) = Inr True)
                   (Board_elements db b)))
  \<and> (BoardElement.visible_to el = None \<or> BoardElement.visible_to el = Some [] \<or> BoardElement.visible_to el = Some [(''all'', JBool True)]
        \<longrightarrow> is_visible_to_user db el uid = Inr True)
  \<and> (BoardElement.visible_to el = Some [(''player_ids'', JList (map JInt ids))]
        \<longrightarrow> is_visible_to_user db el uid = Inr (uid \<in> set ids))
  \<and> (BoardElement.visible_to el = Some [(''character_ids'', cids)]
       \<and> (\<forall>c \<in> set (characters db). Character.id c \<noteq> 0)
        \<longrightarrow> is_visible_to_user db el uid =
             Inr (\<exists>ch. BoardElement_character db el = Some ch \<and> owner_id ch = uid))"
proof (intro conjI impI)
  assume "mj_id j = Some (User.id u)"
  then show "get_board db u jid = Inr (b, Board_elements db b)"
    using assms by (simp add: get_board_def)
next
  assume a: "mj_id j \<noteq> Some (User.id u)
       \<and> (\<exists>m \<in> set (jdr_memberships db). JDRMembership.user_id m = User.id u
              \<and> JDRMembership.jdr_id m = jid
              \<and> JDRMembership.status m = MembershipJDRStatus.active)
       \<and> (\<forall>el \<in> set (Board_elements db b).
              BoardElement.is_visible el \<longrightarrow> \<not> isl (is_visible_to_user db el (User.id u)))"
  then obtain m where "check_is_player db (User.id u) jid = Inr m"
    using find_Some_ex [of "\<lambda>m. JDRMembership.user_id m = User.id u
              \<and> JDRMembership.jdr_id m = jid
              \<and> JDRMembership.status m = MembershipJDRStatus.active" "jdr_memberships db"]
    by (auto simp: check_is_player_def)
  then show "get_board db u jid =
         Inr (b, filter (\<lambda>el. BoardElement.is_visible el \<and> is_visible_to_user db el (User.id u) = Inr True)
                   (Board_elements db b))"
    using assms a visible_elements_filter [of "Board_elements db b" db "User.id u"]
    by (simp add: get_board_def)
next
  assume "BoardElement.visible_to el = None \<or> BoardElement.visible_to el = Some [] \<or> BoardElement.visible_to el = Some [(''all'', JBool True)]"
  then show "is_visible_to_user db el uid = Inr True"
    by (auto simp: is_visible_to_user_def dict_get_def)
next
  assume "BoardElement.visible_to el = Some [(''player_ids'', JList (map JInt ids))]"
  then show "is_visible_to_user db el uid = Inr (uid \<in> set ids)"
    by (auto simp: is_visible_to_user_def dict_get_def)
next
  assume a: "BoardElement.visible_to el = Some [(''character_ids'', cids)]
       \<and> (\<forall>c \<in> set (characters db). Character.id c \<noteq> 0)"
  show "is_visible_to_user db el uid =
             Inr (\<exists>ch. BoardElement_character db el = Some ch \<and> owner_id ch = uid)"
  proof (cases "BoardElement_character db el")
    case None
    then show ?thesis using a by (simp add: is_visible_to_user_def dict_get_def dict_contains_def)
  next
    case (Some ch)
    with a BoardElement_character_id [OF Some] have "BoardElement.character_id el \<noteq> Some 0"
      by auto
    then show ?thesis using a Some
      by (simp add: is_visible_to_user_def dict_get_def dict_contains_def)
  qed
qed

lemma demo_board_elements: "Board_elements demo_board_db demo_board = demo_elements"
  by (simp add: Board_elements_def demo_board_tables demo_elements_def demo_board_def
      demo_el1_def demo_el2_def demo_el3_def demo_el4_def demo_el5_def demo_el6_def
      demo_element_def)

lemma demo_visible_5:
  "is_visible_to_user demo_board_db demo_el1 5 = Inr True"
  "is_visible_to_user demo_board_db demo_el3 5 = Inr True"
  "is_visible_to_user demo_board_db demo_el4 5 = Inr True"
  "is_visible_to_user demo_board_db demo_el5 5 = Inr True"
  "is_visible_to_user demo_board_db demo_el6 5 = Inr False"
  by (simp_all add: is_visible_to_user_def dict_get_def dict_contains_def
      BoardElement_character_def demo_board_tables
      demo_el1_def demo_el3_def demo_el4_def demo_el5_def demo_el6_def demo_element_def)

lemma demo_visible_6:
  "is_visible_to_user demo_board_db demo_el1 6 = Inr False"
  "is_visible_to_user demo_board_db demo_el3 6 = Inr False"
  "is_visible_to_user demo_board_db demo_el4 6 = Inr True"
  "is_visible_to_user demo_board_db demo_el5 6 = Inr True"
  "is_visible_to_user demo_board_db demo_el6 6 = Inr False"
  by (simp_all add: is_visible_to_user_def dict_get_def dict_contains_def
      BoardElement_character_def demo_board_tables
      demo_el1_def demo_el3_def demo_el4_def demo_el5_def demo_el6_def demo_element_def)

lemma demo_is_visible:
  "BoardElement.is_visible demo_el1" "\<not> BoardElement.is_visible demo_el2" "BoardElement.is_visible demo_el3" "BoardElement.is_visible demo_el4"
  "BoardElement.is_visible demo_el5" "BoardElement.is_visible demo_el6"
  by (simp_all add: demo_el1_def demo_el2_def demo_el3_def demo_el4_def demo_el5_def demo_el6_def
      demo_element_def)

theorem get_board_visibility_witness:
  "find (\<lambda>j. JDR.id j = 3) (jdrs demo_board_db) = Some (demo_jdr 3 JDRStatus.open 5)
   \<and> find (\<lambda>b. Board.jdr_id b = 3) (boards demo_board_db) = Some demo_board
   \<and> get_board demo_board_db (demo_user 1) 3 = Inr (demo_board, demo_elements)
   \<and> get_board demo_board_db (demo_user 5) 3 =
        Inr (demo_board, [demo_el1, demo_el3, demo_el4, demo_el5])
   \<and> get_board demo_board_db (demo_user 6) 3 = Inr (demo_board, [demo_el4, demo_el5])
   \<and> is_visible_to_user demo_board_db demo_el1 5 = Inr True
   \<and> is_visible_to_user demo_board_db demo_el1 6 = Inr False
   \<and> is_visible_to_user demo_board_db demo_el3 5 = Inr True
   \<and> is_visible_to_user demo_board_db demo_el3 6 = Inr False
   \<and> is_visible_to_user demo_board_db demo_el6 5 = Inr False"
proof -
  have j: "find (\<lambda>j. JDR.id j = 3) (jdrs demo_board_db) = Some (demo_jdr 3 JDRStatus.open 5)"
    by (simp add: demo_board_tables demo_jdr_def)
  have b: "find (\<lambda>b. Board.jdr_id b = 3) (boards demo_board_db) = Some demo_board"
    by (simp add: demo_board_tables demo_board_def)
  note th = get_board_visibility [OF j b]
  have mj: "get_board demo_board_db (demo_user 1) 3 = Inr (demo_board, demo_elements)"
    using th [of "demo_user 1" demo_el1 5 "[5]" "JList [JInt 2]"]
    by (simp add: demo_jdr_def demo_user_def demo_board_elements)
  have p5: "get_board demo_board_db (demo_user 5) 3 =
        Inr (demo_board, [demo_el1, demo_el3, demo_el4, demo_el5])"
    using th [of "demo_user 5" demo_el1 5 "[5]" "JList [JInt 2]"]
    by (simp add: demo_jdr_def demo_user_def demo_board_elements demo_board_tables
        demo_jdr_membership_def demo_elements_def demo_visible_5 demo_is_visible)
  have p6: "get_board demo_board_db (demo_user 6) 3 = Inr (demo_board, [demo_el4, demo_el5])"
    using th [of "demo_user 6" demo_el1 6 "[5]" "JList [JInt 2]"]
    by (simp add: demo_jdr_def demo_user_def demo_board_elements demo_board_tables
        demo_jdr_membership_def demo_elements_def demo_visible_6 demo_is_visible)
  have v15: "is_visible_to_user demo_board_db demo_el1 5 = Inr True"
    using th [of "demo_user 5" demo_el1 5 "[5]" "JList [JInt 2]"]
    by (simp add: demo_el1_def demo_element_def)
  have v16: "is_visible_to_user demo_board_db demo_el1 6 = Inr False"
    using th [of "demo_user 6" demo_el1 6 "[5]" "JList [JInt 2]"]
    by (simp add: demo_el1_def demo_element_def)
  have v35: "is_visible_to_user demo_board_db demo_el3 5 = Inr True"
    using th [of "demo_user 5" demo_el3 5 "[5]" "JList [JInt 2]"]
    by (simp add: demo_el3_def demo_element_def demo_board_tables BoardElement_character_def)
  have v36: "is_visible_to_user demo_board_db demo_el3 6 = Inr False"
    using th [of "demo_user 6" demo_el3 6 "[5]" "JList [JInt 2]"]
    by (simp add: demo_el3_def demo_element_def demo_board_tables BoardElement_character_def)
  have v65: "is_visible_to_user demo_board_db demo_el6 5 = Inr False"
    using th [of "demo_user 5" demo_el6 5 "[5]" "JList [JInt 2]"]
    by (simp add: demo_el6_def demo_element_def demo_board_tables BoardElement_character_def)
  show ?thesis using j b mj p5 p6 v15 v16 v35 v36 v65 by simp
qed

section \<open>Partial updates of the board\<close>

lemma dict_get_merge:
  "is_dict patch \<Longrightarrow>
   dict_get (dict_merge cur patch) k =
     (case dict_get patch k of Some v \<Rightarrow> Some v | None \<Rightarrow> dict_get cur k)"
proof (induction patch arbitrary: cur)
  case Nil
  then show ?case by (simp add: dict_get_def dict_merge_def)
next
  case (Cons kv ps)
  obtain a b where kv: "kv = (a, b)" by (cases kv)
  from Cons.prems kv have d: "is_dict ps" and n: "a \<notin> fst ` set ps"
    by (simp_all add: is_dict_def)
  have m: "dict_merge cur (kv # ps) = dict_merge (AList.update a b cur) ps"
    by (simp add: dict_merge_def kv)
  have na: "map_of ps a = None"
    using n by (simp add: map_of_eq_None_iff)
  show ?case
    unfolding m Cons.IH [OF d]
    using na by (simp add: dict_get_def kv update_conv' split: option.splits)
qed

lemma find_update_row_same:
  "find Q xs = Some x \<Longrightarrow> pk x' = pk x \<Longrightarrow> Q x' \<Longrightarrow>
   find Q (update_row pk x' xs) = Some x'"
  by (induction xs) (auto simp: update_row_def split: if_splits)

lemma merge_field_patch:
  "merge_field cur (Some (Some p)) = Inr v \<Longrightarrow> or_empty v = dict_merge (or_empty cur) p"
  by (auto simp: merge_field_def or_empty_def)

lemma check_is_mj_jdrs: "jdrs db' = jdrs db \<Longrightarrow> check_is_mj db' u jid = check_is_mj db u jid"
  by (simp add: check_is_mj_def)

lemma check_patch_image_assets:
  "image_assets db' = image_assets db \<Longrightarrow> check_patch_image db' f = check_patch_image db f"
  by (simp add: check_patch_image_def check_image_exists_def split: option.splits)

lemma merge_field_ok: "f \<noteq> Some None \<Longrightarrow> \<exists>v. merge_field cur f = Inr v"
  by (auto simp: merge_field_def split: option.splits)

lemma update_board_ok:
  assumes "check_is_mj db u jid = Inr j"
    and "find (\<lambda>b. Board.jdr_id b = jid) (boards db) = Some b"
    and "check_patch_image db (BoardUpdate.background_image_id data) = Inr ()"
    and "BoardUpdate.dimensions data = Some (Some p)"
    and "BoardUpdate.name data \<noteq> Some None"
  obtains b' where
      "update_board db u jid data now =
         Inr (db\<lparr>boards := update_row Board.id b' (boards db)\<rparr>, Some b')"
    and "find (\<lambda>b. Board.jdr_id b = jid) (update_row Board.id b' (boards db)) = Some b'"
    and "or_empty (Board.dimensions b') = dict_merge (or_empty (Board.dimensions b)) p"
proof -
  define b' where "b' = b\<lparr>
       Board.dimensions := Some (dict_merge (or_empty (Board.dimensions b)) p),
       Board.name := (case BoardUpdate.name data of Some (Some n) \<Rightarrow> n | _ \<Rightarrow> Board.name b),
       Board.background_image_id :=
         (case BoardUpdate.background_image_id data of
            Some v \<Rightarrow> v | None \<Rightarrow> Board.background_image_id b),
       Board.updated_at := now\<rparr>"
  have q: "Board.jdr_id b = jid"
    using find_Some_mem [OF assms(2)] by simp
  have f: "find (\<lambda>b. Board.jdr_id b = jid) (update_row Board.id b' (boards db)) = Some b'"
    using assms(2) q by (intro find_update_row_same [of _ _ b]) (simp_all add: b'_def)
  have g: "get_board_with_images (db\<lparr>boards := update_row Board.id b' (boards db)\<rparr>) jid
             = Some b'"
    using f by (simp add: get_board_with_images_def)
  have "update_board db u jid data now =
         Inr (db\<lparr>boards := update_row Board.id b' (boards db)\<rparr>,
              get_board_with_images (db\<lparr>boards := update_row Board.id b' (boards db)\<rparr>) jid)"
    using assms(5)
    by (simp add: update_board_def assms(1-4) merge_field_def Let_def b'_def)
  then have r: "update_board db u jid data now =
         Inr (db\<lparr>boards := update_row Board.id b' (boards db)\<rparr>, Some b')"
    by (simp only: g)
  have m: "or_empty (Board.dimensions b') = dict_merge (or_empty (Board.dimensions b)) p"
    by (simp add: b'_def or_empty_def)
  show thesis
    by (rule that [OF r f m])
qed

lemma update_board_element_ok:
  assumes "check_is_mj db u jid = Inr j"
    and "find (\<lambda>b. Board.jdr_id b = jid) (boards db) = Some b"
    and "find (\<lambda>e. BoardElement.id e = eid \<and> BoardElement.board_id e = Board.id b)
           (board_elements db) = Some el"
    and "check_patch_image db (BoardElementUpdate.image_id data) = Inr ()"
    and "merge_field (BoardElement.position el) (BoardElementUpdate.position data) = Inr pos"
    and "merge_field (BoardElement.content el) (BoardElementUpdate.content data) = Inr cont"
    and "BoardElementUpdate.is_visible data \<noteq> Some None"
  obtains el' where
      "update_board_element db u jid eid data now =
         Inr (db\<lparr>board_elements := update_row BoardElement.id el' (board_elements db),
                 boards := update_row Board.id (b\<lparr>Board.updated_at := now\<rparr>) (boards db)\<rparr>,
              Some el')"
    and "find (\<lambda>e. BoardElement.id e = eid \<and> BoardElement.board_id e = Board.id b)
           (update_row BoardElement.id el' (board_elements db)) = Some el'"
    and "find (\<lambda>b. Board.jdr_id b = jid)
           (update_row Board.id (b\<lparr>Board.updated_at := now\<rparr>) (boards db))
         = Some (b\<lparr>Board.updated_at := now\<rparr>)"
    and "BoardElement.position el' = pos"
    and "BoardElement.content el' = cont"
proof -
  define el' where "el' = el\<lparr>
       BoardElement.position := pos,
       BoardElement.content := cont,
       BoardElement.image_id :=
         (case BoardElementUpdate.image_id data of
            Some v \<Rightarrow> v | None \<Rightarrow> BoardElement.image_id el),
       BoardElement.is_visible :=
         (case BoardElementUpdate.is_visible data of
            Some (Some v) \<Rightarrow> v | _ \<Rightarrow> BoardElement.is_visible el),
       BoardElement.visible_to :=
         (case BoardElementUpdate.visible_to data of
            Some v \<Rightarrow> v | None \<Rightarrow> BoardElement.visible_to el),
       BoardElement.updated_at := now\<rparr>"
  have q: "Board.jdr_id b = jid"
    using find_Some_mem [OF assms(2)] by simp
  have ee: "BoardElement.id el = eid" "BoardElement.board_id el = Board.id b"
    and em: "el \<in> set (board_elements db)"
    using find_Some_mem [OF assms(3)] by auto
  have f1: "find (\<lambda>b. Board.jdr_id b = jid)
              (update_row Board.id (b\<lparr>Board.updated_at := now\<rparr>) (boards db))
            = Some (b\<lparr>Board.updated_at := now\<rparr>)"
    using assms(2) q by (intro find_update_row_same [of _ _ b]) simp_all
  have f2: "find (\<lambda>e. BoardElement.id e = eid \<and> BoardElement.board_id e = Board.id b)
              (update_row BoardElement.id el' (board_elements db)) = Some el'"
    using assms(3) ee by (intro find_update_row_same [of _ _ el]) (simp_all add: el'_def)
  have f3: "find (\<lambda>r. BoardElement.id r = BoardElement.id el')
              (update_row BoardElement.id el' (board_elements db)) = Some el'"
    using em by (intro find_update_row) (auto simp: el'_def)
  let ?db' = "db\<lparr>board_elements := update_row BoardElement.id el' (board_elements db),
                 boards := update_row Board.id (b\<lparr>Board.updated_at := now\<rparr>) (boards db)\<rparr>"
  have g: "get_board_element_with_images ?db' (BoardElement.id el') = Some el'"
    using f3 by (simp add: get_board_element_with_images_def)
  have "update_board_element db u jid eid data now =
         Inr (?db', get_board_element_with_images ?db' (BoardElement.id el'))"
    using assms(7)
    by (simp add: update_board_element_def assms(1-6) Let_def el'_def)
  then have r: "update_board_element db u jid eid data now =
         Inr (db\<lparr>board_elements := update_row BoardElement.id el' (board_elements db),
                 boards := update_row Board.id (b\<lparr>Board.updated_at := now\<rparr>) (boards db)\<rparr>,
              Some el')"
    by (simp only: g)
  show thesis
    by (rule that [OF r f2 f1]) (simp_all add: el'_def)
qed

lemma update_board_twice:
  assumes "check_is_mj db u jid = Inr j"
    and "find (\<lambda>b. Board.jdr_id b = jid) (boards db) = Some b"
    and "BoardUpdate.dimensions d1 = Some (Some p1)"
    and "BoardUpdate.dimensions d2 = Some (Some p2)"
    and "BoardUpdate.name d1 \<noteq> Some None"
    and "BoardUpdate.name d2 \<noteq> Some None"
    and "check_patch_image db (BoardUpdate.background_image_id d1) = Inr ()"
    and "check_patch_image db (BoardUpdate.background_image_id d2) = Inr ()"
  shows "\<exists>db1 db2 b1 b2.
            update_board db u jid d1 t1 = Inr (db1, Some b1)
          \<and> update_board db1 u jid d2 t2 = Inr (db2, Some b2)
          \<and> get_board_with_images db1 jid = Some b1
          \<and> get_board_with_images db2 jid = Some b2
          \<and> or_empty (Board.dimensions b1) = dict_merge (or_empty (Board.dimensions b)) p1
          \<and> or_empty (Board.dimensions b2) = dict_merge (or_empty (Board.dimensions b1)) p2"
proof (rule update_board_ok [OF assms(1,2,7,3,5), of t1])
  fix b1
  let ?db1 = "db\<lparr>boards := update_row Board.id b1 (boards db)\<rparr>"
  assume r1: "update_board db u jid d1 t1 = Inr (?db1, Some b1)"
    and f1: "find (\<lambda>b. Board.jdr_id b = jid) (update_row Board.id b1 (boards db)) = Some b1"
    and m1: "or_empty (Board.dimensions b1) = dict_merge (or_empty (Board.dimensions b)) p1"
  have j1: "check_is_mj ?db1 u jid = Inr j"
    by (rule trans [OF check_is_mj_jdrs assms(1)]) simp
  have g1: "find (\<lambda>b. Board.jdr_id b = jid) (boards ?db1) = Some b1"
    using f1 by simp
  have i1: "check_patch_image ?db1 (BoardUpdate.background_image_id d2) = Inr ()"
    by (rule trans [OF check_patch_image_assets assms(8)]) simp
  show ?thesis
  proof (rule update_board_ok [OF j1 g1 i1 assms(4,6), of t2])
    fix b2
    let ?db2 = "?db1\<lparr>boards := update_row Board.id b2 (boards ?db1)\<rparr>"
    assume r2: "update_board ?db1 u jid d2 t2 = Inr (?db2, Some b2)"
      and f2: "find (\<lambda>b. Board.jdr_id b = jid) (update_row Board.id b2 (boards ?db1)) = Some b2"
      and m2: "or_empty (Board.dimensions b2) = dict_merge (or_empty (Board.dimensions b1)) p2"
    have s1: "get_board_with_images ?db1 jid = Some b1"
      using f1 by (simp add: get_board_with_images_def)
    have s2: "get_board_with_images ?db2 jid = Some b2"
      using f2 by (simp add: get_board_with_images_def)
    show ?thesis
      by (intro exI [of _ ?db1] exI [of _ ?db2] exI [of _ b1] exI [of _ b2] conjI)
         (rule r1 r2 s1 s2 m1 m2)+
  qed
qed

lemma update_board_element_twice:
  assumes "check_is_mj db u jid = Inr j"
    and "find (\<lambda>b. Board.jdr_id b = jid) (boards db) = Some b"
    and "find (\<lambda>e. BoardElement.id e = eid \<and> BoardElement.board_id e = Board.id b)
           (board_elements db) = Some el"
    and "BoardElementUpdate.position e1 \<noteq> Some None"
    and "BoardElementUpdate.position e2 \<noteq> Some None"
    and "BoardElementUpdate.content e1 \<noteq> Some None"
    and "BoardElementUpdate.content e2 \<noteq> Some None"
    and "BoardElementUpdate.is_visible e1 \<noteq> Some None"
    and "BoardElementUpdate.is_visible e2 \<noteq> Some None"
    and "check_patch_image db (BoardElementUpdate.image_id e1) = Inr ()"
    and "check_patch_image db (BoardElementUpdate.image_id e2) = Inr ()"
  shows "\<exists>db1 db2 el1 el2.
            update_board_element db u jid eid e1 t1 = Inr (db1, Some el1)
          \<and> update_board_element db1 u jid eid e2 t2 = Inr (db2, Some el2)
          \<and> find (\<lambda>e. BoardElement.id e = eid \<and> BoardElement.board_id e = Board.id b)
               (board_elements db1) = Some el1
          \<and> find (\<lambda>e. BoardElement.id e = eid \<and> BoardElement.board_id e = Board.id b)
               (board_elements db2) = Some el2
          \<and> merge_field (BoardElement.position el) (BoardElementUpdate.position e1)
               = Inr (BoardElement.position el1)
          \<and> merge_field (BoardElement.position el1) (BoardElementUpdate.position e2)
               = Inr (BoardElement.position el2)
          \<and> merge_field (BoardElement.content el) (BoardElementUpdate.content e1)
               = Inr (BoardElement.content el1)
          \<and> merge_field (BoardElement.content el1) (BoardElementUpdate.content e2)
               = Inr (BoardElement.content el2)"
proof -
  obtain pos1 cont1 where
    p1: "merge_field (BoardElement.position el) (BoardElementUpdate.position e1) = Inr pos1"
    and c1: "merge_field (BoardElement.content el) (BoardElementUpdate.content e1) = Inr cont1"
    using merge_field_ok [OF assms(4)] merge_field_ok [OF assms(6)] by blast
  show ?thesis
  proof (rule update_board_element_ok [OF assms(1,2,3,10) p1 c1 assms(8), of t1])
    fix el1
    let ?b1 = "b\<lparr>Board.updated_at := t1\<rparr>"
    let ?db1 = "db\<lparr>board_elements := update_row BoardElement.id el1 (board_elements db),
                    boards := update_row Board.id ?b1 (boards db)\<rparr>"
    assume r1: "update_board_element db u jid eid e1 t1 = Inr (?db1, Some el1)"
      and f1: "find (\<lambda>e. BoardElement.id e = eid \<and> BoardElement.board_id e = Board.id b)
                 (update_row BoardElement.id el1 (board_elements db)) = Some el1"
      and g1: "find (\<lambda>b. Board.jdr_id b = jid) (update_row Board.id ?b1 (boards db)) = Some ?b1"
      and q1: "BoardElement.position el1 = pos1"
      and k1: "BoardElement.content el1 = cont1"
    have j1: "check_is_mj ?db1 u jid = Inr j"
      by (rule trans [OF check_is_mj_jdrs assms(1)]) simp
    have g1': "find (\<lambda>b. Board.jdr_id b = jid) (boards ?db1) = Some ?b1"
      using g1 by simp
    have f1': "find (\<lambda>e. BoardElement.id e = eid \<and> BoardElement.board_id e = Board.id ?b1)
                 (board_elements ?db1) = Some el1"
      using f1 by simp
    have i1: "check_patch_image ?db1 (BoardElementUpdate.image_id e2) = Inr ()"
      by (rule trans [OF check_patch_image_assets assms(11)]) simp
    obtain pos2 cont2 where
      p2: "merge_field (BoardElement.position el1) (BoardElementUpdate.position e2) = Inr pos2"
      and c2: "merge_field (BoardElement.content el1) (BoardElementUpdate.content e2) = Inr cont2"
      using merge_field_ok [OF assms(5)] merge_field_ok [OF assms(7)] by blast
    show ?thesis
    proof (rule update_board_element_ok [OF j1 g1' f1' i1 p2 c2 assms(9), of t2])
      fix el2
      let ?db2 = "?db1\<lparr>board_elements := update_row BoardElement.id el2 (board_elements ?db1),
                       boards := update_row Board.id (?b1\<lparr>Board.updated_at := t2\<rparr>)
                                   (boards ?db1)\<rparr>"
      assume r2: "update_board_element ?db1 u jid eid e2 t2 = Inr (?db2, Some el2)"
        and f2: "find (\<lambda>e. BoardElement.id e = eid \<and> BoardElement.board_id e = Board.id ?b1)
                   (update_row BoardElement.id el2 (board_elements ?db1)) = Some el2"
        and q2: "BoardElement.position el2 = pos2"
        and k2: "BoardElement.content el2 = cont2"
      have s1: "find (\<lambda>e. BoardElement.id e = eid \<and> BoardElement.board_id e = Board.id b)
                  (board_elements ?db1) = Some el1"
        using f1 by simp
      have s2: "find (\<lambda>e. BoardElement.id e = eid \<and> BoardElement.board_id e = Board.id b)
                  (board_elements ?db2) = Some el2"
        using f2 by simp
      have m1: "merge_field (BoardElement.position el) (BoardElementUpdate.position e1)
                  = Inr (BoardElement.position el1)"
        using p1 q1 by simp
      have m2: "merge_field (BoardElement.position el1) (BoardElementUpdate.position e2)
                  = Inr (BoardElement.position el2)"
        using p2 q2 by simp
      have m3: "merge_field (BoardElement.content el) (BoardElementUpdate.content e1)
                  = Inr (BoardElement.content el1)"
        using c1 k1 by simp
      have m4: "merge_field (BoardElement.content el1) (BoardElementUpdate.content e2)
                  = Inr (BoardElement.content el2)"
        using c2 k2 by simp
      show ?thesis
        by (intro exI [of _ ?db1] exI [of _ ?db2] exI [of _ el1] exI [of _ el2] conjI)
           (rule r1 r2 s1 s2 m1 m2 m3 m4)+
    qed
  qed
qed

text \<open>
  C5. Two successive partial updates by the MJ of a session that has a board. When both
  requests carry a \<^verbatim>\<open>dimensions\<close> patch (the dictionaries \<open>p1\<close>, then \<open>p2\<close>), no
  \<^verbatim>\<open>null\<close> name and no unknown background image, both calls of \<^verbatim>\<open>update_board\<close>
  succeed, each returns the board it stored, and the dimensions map every key of the
  patch to the patch's value and every other key to what it was before: after both
  updates a key has the value of \<open>p2\<close>, else that of \<open>p1\<close>, else the one it had at the
  start. The same holds for the \<^verbatim>\<open>position\<close> and for the \<^verbatim>\<open>content\<close> of an element of
  the board under two calls of \<^verbatim>\<open>update_board_element\<close> (whose requests carry no
  \<^verbatim>\<open>null\<close> for the other merged field or for \<^verbatim>\<open>is_visible\<close>, and no unknown image).
\<close>

theorem partial_updates_merge:
  assumes "check_is_mj db u jid = Inr j"
    and "find (\<lambda>b. Board.jdr_id b = jid) (boards db) = Some b"
    and "is_dict p1" and "is_dict p2"
  shows
   "(BoardUpdate.dimensions d1 = Some (Some p1) \<and> BoardUpdate.dimensions d2 = Some (Some p2)
      \<and> BoardUpdate.name d1 \<noteq> Some None \<and> BoardUpdate.name d2 \<noteq> Some None
      \<and> check_patch_image db (BoardUpdate.background_image_id d1) = Inr ()
      \<and> check_patch_image db (BoardUpdate.background_image_id d2) = Inr () \<longrightarrow>
       (\<exists>db1 db2 b1 b2.
            update_board db u jid d1 t1 = Inr (db1, Some b1)
          \<and> update_board db1 u jid d2 t2 = Inr (db2, Some b2)
          \<and> get_board_with_images db1 jid = Some b1
          \<and> get_board_with_images db2 jid = Some b2
          \<and> (\<forall>k. dict_get (or_empty (Board.dimensions b1)) k =
                 (case dict_get p1 k of Some v \<Rightarrow> Some v
                  | None \<Rightarrow> dict_get (or_empty (Board.dimensions b)) k))
          \<and> (\<forall>k. dict_get (or_empty (Board.dimensions b2)) k =
                 (case dict_get p2 k of Some v \<Rightarrow> Some v
                  | None \<Rightarrow> (case dict_get p1 k of Some v \<Rightarrow> Some v
                     | None \<Rightarrow> dict_get (or_empty (Board.dimensions b)) k)))))
  \<and> (find (\<lambda>e. BoardElement.id e = eid \<and> BoardElement.board_id e = Board.id b)
        (board_elements db) = Some el
      \<and> BoardElementUpdate.position e1 = Some (Some p1)
      \<and> BoardElementUpdate.position e2 = Some (Some p2)
      \<and> BoardElementUpdate.content e1 \<noteq> Some None
      \<and> BoardElementUpdate.content e2 \<noteq> Some None
      \<and> BoardElementUpdate.is_visible e1 \<noteq> Some None
      \<and> BoardElementUpdate.is_visible e2 \<noteq> Some None
      \<and> check_patch_image db (BoardElementUpdate.image_id e1) = Inr ()
      \<and> check_patch_image db (BoardElementUpdate.image_id e2) = Inr () \<longrightarrow>
       (\<exists>db1 db2 el1 el2.
            update_board_element db u jid eid e1 t1 = Inr (db1, Some el1)
          \<and> update_board_element db1 u jid eid e2 t2 = Inr (db2, Some el2)
          \<and> find (\<lambda>e. BoardElement.id e = eid \<and> BoardElement.board_id e = Board.id b)
               (board_elements db1) = Some el1
          \<and> find (\<lambda>e. BoardElement.id e = eid \<and> BoardElement.board_id e = Board.id b)
               (board_elements db2) = Some el2
          \<and> (\<forall>k. dict_get (or_empty (BoardElement.position el1)) k =
                 (case dict_get p1 k of Some v \<Rightarrow> Some v
                  | None \<Rightarrow> dict_get (or_empty (BoardElement.position el)) k))
          \<and> (\<forall>k. dict_get (or_empty (BoardElement.position el2)) k =
                 (case dict_get p2 k of Some v \<Rightarrow> Some v
                  | None \<Rightarrow> (case dict_get p1 k of Some v \<Rightarrow> Some v
                     | None \<Rightarrow> dict_get (or_empty (BoardElement.position el)) k)))))
  \<and> (find (\<lambda>e. BoardElement.id e = eid \<and> BoardElement.board_id e = Board.id b)
        (board_elements db) = Some el
      \<and> BoardElementUpdate.content e1 = Some (Some p1)
      \<and> BoardElementUpdate.content e2 = Some (Some p2)
      \<and> BoardElementUpdate.position e1 \<noteq> Some None
      \<and> BoardElementUpdate.position e2 \<noteq> Some None
      \<and> BoardElementUpdate.is_visible e1 \<noteq> Some None
      \<and> BoardElementUpdate.is_visible e2 \<noteq> Some None
      \<and> check_patch_image db (BoardElementUpdate.image_id e1) = Inr ()
      \<and> check_patch_image db (BoardElementUpdate.image_id e2) = Inr () \<longrightarrow>
       (\<exists>db1 db2 el1 el2.
            update_board_element db u jid eid e1 t1 = Inr (db1, Some el1)
          \<and> update_board_element db1 u jid eid e2 t2 = Inr (db2, Some el2)
          \<and> find (\<lambda>e. BoardElement.id e = eid \<and> BoardElement.board_id e = Board.id b)
               (board_elements db1) = Some el1
          \<and> find (\<lambda>e. BoardElement.id e = eid \<and> BoardElement.board_id e = Board.id b)
               (board_elements db2) = Some el2
          \<and> (\<forall>k. dict_get (or_empty (BoardElement.content el1)) k =
                 (case dict_get p1 k of Some v \<Rightarrow> Some v
                  | None \<Rightarrow> dict_get (or_empty (BoardElement.content el)) k))
          \<and> (\<forall>k. dict_get (or_empty (BoardElement.content el2)) k =
                 (case dict_get p2 k of Some v \<Rightarrow> Some v
                  | None \<Rightarrow> (case dict_get p1 k of Some v \<Rightarrow> Some v
                     | None \<Rightarrow> dict_get (or_empty (BoardElement.content el)) k)))))"
proof (intro conjI impI)
  assume a: "BoardUpdate.dimensions d1 = Some (Some p1) \<and> BoardUpdate.dimensions d2 = Some (Some p2)
      \<and> BoardUpdate.name d1 \<noteq> Some None \<and> BoardUpdate.name d2 \<noteq> Some None
      \<and> check_patch_image db (BoardUpdate.background_image_id d1) = Inr ()
      \<and> check_patch_image db (BoardUpdate.background_image_id d2) = Inr ()"
  have "\<exists>db1 db2 b1 b2.
            update_board db u jid d1 t1 = Inr (db1, Some b1)
          \<and> update_board db1 u jid d2 t2 = Inr (db2, Some b2)
          \<and> get_board_with_images db1 jid = Some b1
          \<and> get_board_with_images db2 jid = Some b2
          \<and> or_empty (Board.dimensions b1) = dict_merge (or_empty (Board.dimensions b)) p1
          \<and> or_empty (Board.dimensions b2) = dict_merge (or_empty (Board.dimensions b1)) p2"
    using a by (intro update_board_twice [OF assms(1,2)]) simp_all
  then obtain db1 db2 b1 b2 where s:
    "update_board db u jid d1 t1 = Inr (db1, Some b1)"
    "update_board db1 u jid d2 t2 = Inr (db2, Some b2)"
    "get_board_with_images db1 jid = Some b1"
    "get_board_with_images db2 jid = Some b2"
    "or_empty (Board.dimensions b1) = dict_merge (or_empty (Board.dimensions b)) p1"
    "or_empty (Board.dimensions b2) = dict_merge (or_empty (Board.dimensions b1)) p2"
    by blast
  have l1: "\<forall>k. dict_get (or_empty (Board.dimensions b1)) k =
                 (case dict_get p1 k of Some v \<Rightarrow> Some v
                  | None \<Rightarrow> dict_get (or_empty (Board.dimensions b)) k)"
    by (simp add: s(5) dict_get_merge [OF assms(3)])
  have l2: "\<forall>k. dict_get (or_empty (Board.dimensions b2)) k =
                 (case dict_get p2 k of Some v \<Rightarrow> Some v
                  | None \<Rightarrow> (case dict_get p1 k of Some v \<Rightarrow> Some v
                     | None \<Rightarrow> dict_get (or_empty (Board.dimensions b)) k))"
    by (simp add: s(5,6) dict_get_merge [OF assms(3)] dict_get_merge [OF assms(4)]
          cong: option.case_cong)
  show "\<exists>db1 db2 b1 b2.
            update_board db u jid d1 t1 = Inr (db1, Some b1)
          \<and> update_board db1 u jid d2 t2 = Inr (db2, Some b2)
          \<and> get_board_with_images db1 jid = Some b1
          \<and> get_board_with_images db2 jid = Some b2
          \<and> (\<forall>k. dict_get (or_empty (Board.dimensions b1)) k =
                 (case dict_get p1 k of Some v \<Rightarrow> Some v
                  | None \<Rightarrow> dict_get (or_empty (Board.dimensions b)) k))
          \<and> (\<forall>k. dict_get (or_empty (Board.dimensions b2)) k =
                 (case dict_get p2 k of Some v \<Rightarrow> Some v
                  | None \<Rightarrow> (case dict_get p1 k of Some v \<Rightarrow> Some v
                     | None \<Rightarrow> dict_get (or_empty (Board.dimensions b)) k)))"
    by (intro exI [of _ db1] exI [of _ db2] exI [of _ b1] exI [of _ b2] conjI)
       (rule s(1-4) l1 l2)+
next
  assume a: "find (\<lambda>e. BoardElement.id e = eid \<and> BoardElement.board_id e = Board.id b)
        (board_elements db) = Some el
      \<and> BoardElementUpdate.position e1 = Some (Some p1)
      \<and> BoardElementUpdate.position e2 = Some (Some p2)
      \<and> BoardElementUpdate.content e1 \<noteq> Some None
      \<and> BoardElementUpdate.content e2 \<noteq> Some None
      \<and> BoardElementUpdate.is_visible e1 \<noteq> Some None
      \<and> BoardElementUpdate.is_visible e2 \<noteq> Some None
      \<and> check_patch_image db (BoardElementUpdate.image_id e1) = Inr ()
      \<and> check_patch_image db (BoardElementUpdate.image_id e2) = Inr ()"
  have "\<exists>db1 db2 el1 el2.
            update_board_element db u jid eid e1 t1 = Inr (db1, Some el1)
          \<and> update_board_element db1 u jid eid e2 t2 = Inr (db2, Some el2)
          \<and> find (\<lambda>e. BoardElement.id e = eid \<and> BoardElement.board_id e = Board.id b)
               (board_elements db1) = Some el1
          \<and> find (\<lambda>e. BoardElement.id e = eid \<and> BoardElement.board_id e = Board.id b)
               (board_elements db2) = Some el2
          \<and> merge_field (BoardElement.position el) (BoardElementUpdate.position e1)
               = Inr (BoardElement.position el1)
          \<and> merge_field (BoardElement.position el1) (BoardElementUpdate.position e2)
               = Inr (BoardElement.position el2)
          \<and> merge_field (BoardElement.content el) (BoardElementUpdate.content e1)
               = Inr (BoardElement.content el1)
          \<and> merge_field (BoardElement.content el1) (BoardElementUpdate.content e2)
               = Inr (BoardElement.content el2)"
    using a by (intro update_board_element_twice [OF assms(1,2)]) simp_all
  then obtain db1 db2 el1 el2 where s:
    "update_board_element db u jid eid e1 t1 = Inr (db1, Some el1)"
    "update_board_element db1 u jid eid e2 t2 = Inr (db2, Some el2)"
    "find (\<lambda>e. BoardElement.id e = eid \<and> BoardElement.board_id e = Board.id b)
               (board_elements db1) = Some el1"
    "find (\<lambda>e. BoardElement.id e = eid \<and> BoardElement.board_id e = Board.id b)
               (board_elements db2) = Some el2"
    "merge_field (BoardElement.position el) (BoardElementUpdate.position e1)
               = Inr (BoardElement.position el1)"
    "merge_field (BoardElement.position el1) (BoardElementUpdate.position e2)
               = Inr (BoardElement.position el2)"
    by blast
  have m1: "or_empty (BoardElement.position el1) = dict_merge (or_empty (BoardElement.position el)) p1"
    using s(5) a by (intro merge_field_patch) simp
  have m2: "or_empty (BoardElement.position el2) = dict_merge (or_empty (BoardElement.position el1)) p2"
    using s(6) a by (intro merge_field_patch) simp
  have l1: "\<forall>k. dict_get (or_empty (BoardElement.position el1)) k =
                 (case dict_get p1 k of Some v \<Rightarrow> Some v
                  | None \<Rightarrow> dict_get (or_empty (BoardElement.position el)) k)"
    by (simp add: m1 dict_get_merge [OF assms(3)])
  have l2: "\<forall>k. dict_get (or_empty (BoardElement.position el2)) k =
                 (case dict_get p2 k of Some v \<Rightarrow> Some v
                  | None \<Rightarrow> (case dict_get p1 k of Some v \<Rightarrow> Some v
                     | None \<Rightarrow> dict_get (or_empty (BoardElement.position el)) k))"
    by (simp add: m1 m2 dict_get_merge [OF assms(3)] dict_get_merge [OF assms(4)]
          cong: option.case_cong)
  show "\<exists>db1 db2 el1 el2.
            update_board_element db u jid eid e1 t1 = Inr (db1, Some el1)
          \<and> update_board_element db1 u jid eid e2 t2 = Inr (db2, Some el2)
          \<and> find (\<lambda>e. BoardElement.id e = eid \<and> BoardElement.board_id e = Board.id b)
               (board_elements db1) = Some el1
          \<and> find (\<lambda>e. BoardElement.id e = eid \<and> BoardElement.board_id e = Board.id b)
               (board_elements db2) = Some el2
          \<and> (\<forall>k. dict_get (or_empty (BoardElement.position el1)) k =
                 (case dict_get p1 k of Some v \<Rightarrow> Some v
                  | None \<Rightarrow> dict_get (or_empty (BoardElement.position el)) k))
          \<and> (\<forall>k. dict_get (or_empty (BoardElement.position el2)) k =
                 (case dict_get p2 k of Some v \<Rightarrow> Some v
                  | None \<Rightarrow> (case dict_get p1 k of Some v \<Rightarrow> Some v
                     | None \<Rightarrow> dict_get (or_empty (BoardElement.position el)) k)))"
    by (intro exI [of _ db1] exI [of _ db2] exI [of _ el1] exI [of _ el2] conjI)
       (rule s(1-4) l1 l2)+
next
  assume a: "find (\<lambda>e. BoardElement.id e = eid \<and> BoardElement.board_id e = Board.id b)
        (board_elements db) = Some el
      \<and> BoardElementUpdate.content e1 = Some (Some p1)
      \<and> BoardElementUpdate.content e2 = Some (Some p2)
      \<and> BoardElementUpdate.position e1 \<noteq> Some None
      \<and> BoardElementUpdate.position e2 \<noteq> Some None
      \<and> BoardElementUpdate.is_visible e1 \<noteq> Some None
      \<and> BoardElementUpdate.is_visible e2 \<noteq> Some None
      \<and> check_patch_image db (BoardElementUpdate.image_id e1) = Inr ()
      \<and> check_patch_image db (BoardElementUpdate.image_id e2) = Inr ()"
  have "\<exists>db1 db2 el1 el2.
            update_board_element db u jid eid e1 t1 = Inr (db1, Some el1)
          \<and> update_board_element db1 u jid eid e2 t2 = Inr (db2, Some el2)
          \<and> find (\<lambda>e. BoardElement.id e = eid \<and> BoardElement.board_id e = Board.id b)
               (board_elements db1) = Some el1
          \<and> find (\<lambda>e. BoardElement.id e = eid \<and> BoardElement.board_id e = Board.id b)
               (board_elements db2) = Some el2
          \<and> merge_field (BoardElement.position el) (BoardElementUpdate.position e1)
               = Inr (BoardElement.position el1)
          \<and> merge_field (BoardElement.position el1) (BoardElementUpdate.position e2)
               = Inr (BoardElement.position el2)
          \<and> merge_field (BoardElement.content el) (BoardElementUpdate.content e1)
               = Inr (BoardElement.content el1)
          \<and> merge_field (BoardElement.content el1) (BoardElementUpdate.content e2)
               = Inr (BoardElement.content el2)"
    using a by (intro update_board_element_twice [OF assms(1,2)]) simp_all
  then obtain db1 db2 el1 el2 where s:
    "update_board_element db u jid eid e1 t1 = Inr (db1, Some el1)"
    "update_board_element db1 u jid eid e2 t2 = Inr (db2, Some el2)"
    "find (\<lambda>e. BoardElement.id e = eid \<and> BoardElement.board_id e = Board.id b)
               (board_elements db1) = Some el1"
    "find (\<lambda>e. BoardElement.id e = eid \<and> BoardElement.board_id e = Board.id b)
               (board_elements db2) = Some el2"
    "merge_field (BoardElement.content el) (BoardElementUpdate.content e1)
               = Inr (BoardElement.content el1)"
    "merge_field (BoardElement.content el1) (BoardElementUpdate.content e2)
               = Inr (BoardElement.content el2)"
    by blast
  have m1: "or_empty (BoardElement.content el1) = dict_merge (or_empty (BoardElement.content el)) p1"
    using s(5) a by (intro merge_field_patch) simp
  have m2: "or_empty (BoardElement.content el2) = dict_merge (or_empty (BoardElement.content el1)) p2"
    using s(6) a by (intro merge_field_patch) simp
  have l1: "\<forall>k. dict_get (or_empty (BoardElement.content el1)) k =
                 (case dict_get p1 k of Some v \<Rightarrow> Some v
                  | None \<Rightarrow> dict_get (or_empty (BoardElement.content el)) k)"
    by (simp add: m1 dict_get_merge [OF assms(3)])
  have l2: "\<forall>k. dict_get (or_empty (BoardElement.content el2)) k =
                 (case dict_get p2 k of Some v \<Rightarrow> Some v
                  | None \<Rightarrow> (case dict_get p1 k of Some v \<Rightarrow> Some v
                     | None \<Rightarrow> dict_get (or_empty (BoardElement.content el)) k))"
    by (simp add: m1 m2 dict_get_merge [OF assms(3)] dict_get_merge [OF assms(4)]
          cong: option.case_cong)
  show "\<exists>db1 db2 el1 el2.
            update_board_element db u jid eid e1 t1 = Inr (db1, Some el1)
          \<and> update_board_element db1 u jid eid e2 t2 = Inr (db2, Some el2)
          \<and> find (\<lambda>e. BoardElement.id e = eid \<and> BoardElement.board_id e = Board.id b)
               (board_elements db1) = Some el1
          \<and> find (\<lambda>e. BoardElement.id e = eid \<and> BoardElement.board_id e = Board.id b)
               (board_elements db2) = Some el2
          \<and> (\<forall>k. dict_get (or_empty (BoardElement.content el1)) k =
                 (case dict_get p1 k of Some v \<Rightarrow> Some v
                  | None \<Rightarrow> dict_get (or_empty (BoardElement.content el)) k))
          \<and> (\<forall>k. dict_get (or_empty (BoardElement.content el2)) k =
                 (case dict_get p2 k of Some v \<Rightarrow> Some v
                  | None \<Rightarrow> (case dict_get p1 k of Some v \<Rightarrow> Some v
                     | None \<Rightarrow> dict_get (or_empty (BoardElement.content el)) k)))"
    by (intro exI [of _ db1] exI [of _ db2] exI [of _ el1] exI [of _ el2] conjI)
       (rule s(1-4) l1 l2)+
qed

lemma demo_check_is_mj:
  "check_is_mj (demo_board_db\<lparr>boards := bs\<rparr>) (demo_user 1) 3 = Inr (demo_jdr 3 JDRStatus.open 5)"
  "check_is_mj (demo_board_db\<lparr>board_elements := es, boards := bs\<rparr>) (demo_user 1) 3
     = Inr (demo_jdr 3 JDRStatus.open 5)"
  "check_is_mj demo_board_db (demo_user 1) 3 = Inr (demo_jdr 3 JDRStatus.open 5)"
  by (simp_all add: check_is_mj_def demo_board_tables demo_jdr_def demo_user_def)

lemma demo_update_board_1:
  "update_board demo_board_db (demo_user 1) 3 (demo_board_patch [(''a'', JInt 1)]) 100
   = Inr (demo_board_db\<lparr>boards :=
            [demo_board\<lparr>Board.dimensions :=
               Some [(''width'', JInt 1920), (''height'', JInt 1080), (''grid_size'', JInt 50),
                     (''a'', JInt 1)],
               Board.updated_at := 100\<rparr>]\<rparr>,
          Some (demo_board\<lparr>Board.dimensions :=
               Some [(''width'', JInt 1920), (''height'', JInt 1080), (''grid_size'', JInt 50),
                     (''a'', JInt 1)],
               Board.updated_at := 100\<rparr>))"
  by (simp add: update_board_def demo_check_is_mj demo_board_tables check_patch_image_def
      merge_field_def or_empty_def dict_merge_def update_row_def get_board_with_images_def
      demo_board_def demo_board_patch_def Let_def)

lemma demo_update_board_2:
  "update_board (demo_board_db\<lparr>boards :=
            [demo_board\<lparr>Board.dimensions :=
               Some [(''width'', JInt 1920), (''height'', JInt 1080), (''grid_size'', JInt 50),
                     (''a'', JInt 1)],
               Board.updated_at := 100\<rparr>]\<rparr>) (demo_user 1) 3
     (demo_board_patch [(''b'', JInt 2)]) 200
   = Inr (demo_board_db\<lparr>boards :=
            [demo_board\<lparr>Board.dimensions :=
               Some [(''width'', JInt 1920), (''height'', JInt 1080), (''grid_size'', JInt 50),
                     (''a'', JInt 1), (''b'', JInt 2)],
               Board.updated_at := 200\<rparr>]\<rparr>,
          Some (demo_board\<lparr>Board.dimensions :=
               Some [(''width'', JInt 1920), (''height'', JInt 1080), (''grid_size'', JInt 50),
                     (''a'', JInt 1), (''b'', JInt 2)],
               Board.updated_at := 200\<rparr>))"
  by (simp add: update_board_def demo_check_is_mj check_patch_image_def
      merge_field_def or_empty_def dict_merge_def update_row_def get_board_with_images_def
      demo_board_def demo_board_patch_def Let_def)

lemma demo_update_element_1:
  "update_board_element demo_board_db (demo_user 1) 3 4
     (demo_element_patch [(''x'', JInt 10)] [(''name'', JStr ''Dragon'')]) 100
   = Inr (demo_board_db\<lparr>
            board_elements := [demo_el1, demo_el2, demo_el3,
              demo_el4\<lparr>BoardElement.position := Some [(''x'', JInt 10), (''y'', JInt 0)],
                       BoardElement.content := Some [(''name'', JStr ''Dragon'')],
                       BoardElement.updated_at := 100\<rparr>,
              demo_el5, demo_el6],
            boards := [demo_board\<lparr>Board.updated_at := 100\<rparr>]\<rparr>,
          Some (demo_el4\<lparr>BoardElement.position := Some [(''x'', JInt 10), (''y'', JInt 0)],
                       BoardElement.content := Some [(''name'', JStr ''Dragon'')],
                       BoardElement.updated_at := 100\<rparr>))"
  by (simp add: update_board_element_def demo_check_is_mj demo_board_tables check_patch_image_def
      merge_field_def or_empty_def dict_merge_def update_row_def
      get_board_element_with_images_def demo_board_def demo_element_patch_def Let_def
      demo_elements_def demo_el1_def demo_el2_def demo_el3_def demo_el4_def demo_el5_def
      demo_el6_def demo_element_def)

lemma demo_update_element_2:
  "update_board_element (demo_board_db\<lparr>
            board_elements := [demo_el1, demo_el2, demo_el3,
              demo_el4\<lparr>BoardElement.position := Some [(''x'', JInt 10), (''y'', JInt 0)],
                       BoardElement.content := Some [(''name'', JStr ''Dragon'')],
                       BoardElement.updated_at := 100\<rparr>,
              demo_el5, demo_el6],
            boards := [demo_board\<lparr>Board.updated_at := 100\<rparr>]\<rparr>) (demo_user 1) 3 4
     (demo_element_patch [(''rotation'', JInt 90)] [(''hp'', JInt 500)]) 200
   = Inr (demo_board_db\<lparr>
            board_elements := [demo_el1, demo_el2, demo_el3,
              demo_el4\<lparr>BoardElement.position :=
                         Some [(''x'', JInt 10), (''y'', JInt 0), (''rotation'', JInt 90)],
                       BoardElement.content :=
                         Some [(''name'', JStr ''Dragon''), (''hp'', JInt 500)],
                       BoardElement.updated_at := 200\<rparr>,
              demo_el5, demo_el6],
            boards := [demo_board\<lparr>Board.updated_at := 200\<rparr>]\<rparr>,
          Some (demo_el4\<lparr>BoardElement.position :=
                         Some [(''x'', JInt 10), (''y'', JInt 0), (''rotation'', JInt 90)],
                       BoardElement.content :=
                         Some [(''name'', JStr ''Dragon''), (''hp'', JInt 500)],
                       BoardElement.updated_at := 200\<rparr>))"
  by (simp add: update_board_element_def demo_check_is_mj check_patch_image_def
      merge_field_def or_empty_def dict_merge_def update_row_def
      get_board_element_with_images_def demo_board_def demo_element_patch_def Let_def
      demo_el1_def demo_el2_def demo_el3_def demo_el4_def demo_el5_def
      demo_el6_def demo_element_def)

theorem partial_updates_merge_witness:
  "update_board demo_board_db (demo_user 1) 3 (demo_board_patch [(''a'', JInt 1)]) 100
     = Inr (demo_board_db\<lparr>boards := [demo_board\<lparr>Board.dimensions :=
               Some [(''width'', JInt 1920), (''height'', JInt 1080), (''grid_size'', JInt 50),
                     (''a'', JInt 1)],
               Board.updated_at := 100\<rparr>]\<rparr>,
            Some (demo_board\<lparr>Board.dimensions :=
               Some [(''width'', JInt 1920), (''height'', JInt 1080), (''grid_size'', JInt 50),
                     (''a'', JInt 1)],
               Board.updated_at := 100\<rparr>))
   \<and> update_board (demo_board_db\<lparr>boards := [demo_board\<lparr>Board.dimensions :=
               Some [(''width'', JInt 1920), (''height'', JInt 1080), (''grid_size'', JInt 50),
                     (''a'', JInt 1)],
               Board.updated_at := 100\<rparr>]\<rparr>) (demo_user 1) 3
         (demo_board_patch [(''b'', JInt 2)]) 200
     = Inr (demo_board_db\<lparr>boards := [demo_board\<lparr>Board.dimensions :=
               Some [(''width'', JInt 1920), (''height'', JInt 1080), (''grid_size'', JInt 50),
                     (''a'', JInt 1), (''b'', JInt 2)],
               Board.updated_at := 200\<rparr>]\<rparr>,
            Some (demo_board\<lparr>Board.dimensions :=
               Some [(''width'', JInt 1920), (''height'', JInt 1080), (''grid_size'', JInt 50),
                     (''a'', JInt 1), (''b'', JInt 2)],
               Board.updated_at := 200\<rparr>))
   \<and> map (dict_get (or_empty (Board.dimensions
         (demo_board\<lparr>Board.dimensions :=
               Some [(''width'', JInt 1920), (''height'', JInt 1080), (''grid_size'', JInt 50),
                     (''a'', JInt 1), (''b'', JInt 2)],
               Board.updated_at := 200\<rparr>)))) [''a'', ''b'', ''width'', ''depth'']
       = [Some (JInt 1), Some (JInt 2), Some (JInt 1920), None]
   \<and> update_board_element demo_board_db (demo_user 1) 3 4
         (demo_element_patch [(''x'', JInt 10)] [(''name'', JStr ''Dragon'')]) 100
     = Inr (demo_board_db\<lparr>
            board_elements := [demo_el1, demo_el2, demo_el3,
              demo_el4\<lparr>BoardElement.position := Some [(''x'', JInt 10), (''y'', JInt 0)],
                       BoardElement.content := Some [(''name'', JStr ''Dragon'')],
                       BoardElement.updated_at := 100\<rparr>,
              demo_el5, demo_el6],
            boards := [demo_board\<lparr>Board.updated_at := 100\<rparr>]\<rparr>,
            Some (demo_el4\<lparr>BoardElement.position := Some [(''x'', JInt 10), (''y'', JInt 0)],
                       BoardElement.content := Some [(''name'', JStr ''Dragon'')],
                       BoardElement.updated_at := 100\<rparr>))
   \<and> update_board_element (demo_board_db\<lparr>
            board_elements := [demo_el1, demo_el2, demo_el3,
              demo_el4\<lparr>BoardElement.position := Some [(''x'', JInt 10), (''y'', JInt 0)],
                       BoardElement.content := Some [(''name'', JStr ''Dragon'')],
                       BoardElement.updated_at := 100\<rparr>,
              demo_el5, demo_el6],
            boards := [demo_board\<lparr>Board.updated_at := 100\<rparr>]\<rparr>) (demo_user 1) 3 4
         (demo_element_patch [(''rotation'', JInt 90)] [(''hp'', JInt 500)]) 200
     = Inr (demo_board_db\<lparr>
            board_elements := [demo_el1, demo_el2, demo_el3,
              demo_el4\<lparr>BoardElement.position :=
                         Some [(''x'', JInt 10), (''y'', JInt 0), (''rotation'', JInt 90)],
                       BoardElement.content :=
                         Some [(''name'', JStr ''Dragon''), (''hp'', JInt 500)],
                       BoardElement.updated_at := 200\<rparr>,
              demo_el5, demo_el6],
            boards := [demo_board\<lparr>Board.updated_at := 200\<rparr>]\<rparr>,
            Some (demo_el4\<lparr>BoardElement.position :=
                         Some [(''x'', JInt 10), (''y'', JInt 0), (''rotation'', JInt 90)],
                       BoardElement.content :=
                         Some [(''name'', JStr ''Dragon''), (''hp'', JInt 500)],
                       BoardElement.updated_at := 200\<rparr>))
   \<and> map (dict_get (or_empty (BoardElement.position
         (demo_el4\<lparr>BoardElement.position :=
                         Some [(''x'', JInt 10), (''y'', JInt 0), (''rotation'', JInt 90)],
                       BoardElement.content :=
                         Some [(''name'', JStr ''Dragon''), (''hp'', JInt 500)],
                       BoardElement.updated_at := 200\<rparr>)))) [''x'', ''y'', ''rotation'']
       = [Some (JInt 10), Some (JInt 0), Some (JInt 90)]
   \<and> map (dict_get (or_empty (BoardElement.content
         (demo_el4\<lparr>BoardElement.position :=
                         Some [(''x'', JInt 10), (''y'', JInt 0), (''rotation'', JInt 90)],
                       BoardElement.content :=
                         Some [(''name'', JStr ''Dragon''), (''hp'', JInt 500)],
                       BoardElement.updated_at := 200\<rparr>)))) [''name'', ''hp'']
       = [Some (JStr ''Dragon''), Some (JInt 500)]"
proof -
  let ?b1 = "demo_board\<lparr>Board.dimensions :=
               Some [(''width'', JInt 1920), (''height'', JInt 1080), (''grid_size'', JInt 50),
                     (''a'', JInt 1)],
               Board.updated_at := 100\<rparr>"
  let ?b2 = "demo_board\<lparr>Board.dimensions :=
               Some [(''width'', JInt 1920), (''height'', JInt 1080), (''grid_size'', JInt 50),
                     (''a'', JInt 1), (''b'', JInt 2)],
               Board.updated_at := 200\<rparr>"
  let ?db1 = "demo_board_db\<lparr>boards := [?b1]\<rparr>"
  let ?db2 = "demo_board_db\<lparr>boards := [?b2]\<rparr>"
  let ?e1 = "demo_el4\<lparr>BoardElement.position := Some [(''x'', JInt 10), (''y'', JInt 0)],
                       BoardElement.content := Some [(''name'', JStr ''Dragon'')],
                       BoardElement.updated_at := 100\<rparr>"
  let ?e2 = "demo_el4\<lparr>BoardElement.position :=
                         Some [(''x'', JInt 10), (''y'', JInt 0), (''rotation'', JInt 90)],
                       BoardElement.content :=
                         Some [(''name'', JStr ''Dragon''), (''hp'', JInt 500)],
                       BoardElement.updated_at := 200\<rparr>"
  let ?dc1 = "demo_board_db\<lparr>
            board_elements := [demo_el1, demo_el2, demo_el3, ?e1, demo_el5, demo_el6],
            boards := [demo_board\<lparr>Board.updated_at := 100\<rparr>]\<rparr>"
  let ?dc2 = "demo_board_db\<lparr>
            board_elements := [demo_el1, demo_el2, demo_el3, ?e2, demo_el5, demo_el6],
            boards := [demo_board\<lparr>Board.updated_at := 200\<rparr>]\<rparr>"
  have d: "is_dict [(''a'', JInt 1)]" "is_dict [(''b'', JInt 2)]"
    "is_dict [(''x'', JInt 10)]" "is_dict [(''rotation'', JInt 90)]"
    "is_dict [(''name'', JStr ''Dragon'')]" "is_dict [(''hp'', JInt 500)]"
    by (simp_all add: is_dict_def)
  have m: "check_is_mj demo_board_db (demo_user 1) 3 = Inr (demo_jdr 3 JDRStatus.open 5)"
    by (rule demo_check_is_mj(3))
  have g: "find (\<lambda>b. Board.jdr_id b = 3) (boards demo_board_db) = Some demo_board"
    by (simp add: demo_board_tables demo_board_def)
  have f: "find (\<lambda>e. BoardElement.id e = 4 \<and> BoardElement.board_id e = Board.id demo_board)
             (board_elements demo_board_db) = Some demo_el4"
    by (simp add: demo_board_tables demo_board_def demo_elements_def demo_el1_def demo_el2_def
          demo_el3_def demo_el4_def demo_element_def)
  have p: "BoardUpdate.dimensions (demo_board_patch q) = Some (Some q)"
    "BoardUpdate.name (demo_board_patch q) \<noteq> Some None"
    "check_patch_image demo_board_db (BoardUpdate.background_image_id (demo_board_patch q))
       = Inr ()"
    "BoardElementUpdate.position (demo_element_patch q q') = Some (Some q)"
    "BoardElementUpdate.content (demo_element_patch q q') = Some (Some q')"
    "BoardElementUpdate.is_visible (demo_element_patch q q') \<noteq> Some None"
    "check_patch_image demo_board_db (BoardElementUpdate.image_id (demo_element_patch q q'))
       = Inr ()" for q q'
    by (simp_all add: demo_board_patch_def demo_element_patch_def check_patch_image_def)
  have o: "or_empty (Board.dimensions demo_board) =
              [(''width'', JInt 1920), (''height'', JInt 1080), (''grid_size'', JInt 50)]"
    "or_empty (BoardElement.position demo_el4) = [(''x'', JInt 0), (''y'', JInt 0)]"
    "or_empty (BoardElement.content demo_el4) = []"
    by (simp_all add: or_empty_def demo_board_def demo_el4_def demo_element_def)
  note u1 = demo_update_board_1
  note u2 = demo_update_board_2
  note v1 = demo_update_element_1
  note v2 = demo_update_element_2
  have "\<exists>db1 db2 b1 b2.
            update_board demo_board_db (demo_user 1) 3 (demo_board_patch [(''a'', JInt 1)]) 100
              = Inr (db1, Some b1)
          \<and> update_board db1 (demo_user 1) 3 (demo_board_patch [(''b'', JInt 2)]) 200
              = Inr (db2, Some b2)
          \<and> get_board_with_images db1 3 = Some b1
          \<and> get_board_with_images db2 3 = Some b2
          \<and> (\<forall>k. dict_get (or_empty (Board.dimensions b1)) k =
                 (case dict_get [(''a'', JInt 1)] k of Some v \<Rightarrow> Some v
                  | None \<Rightarrow> dict_get (or_empty (Board.dimensions demo_board)) k))
          \<and> (\<forall>k. dict_get (or_empty (Board.dimensions b2)) k =
                 (case dict_get [(''b'', JInt 2)] k of Some v \<Rightarrow> Some v
                  | None \<Rightarrow> (case dict_get [(''a'', JInt 1)] k of Some v \<Rightarrow> Some v
                     | None \<Rightarrow> dict_get (or_empty (Board.dimensions demo_board)) k)))"
    by (rule partial_updates_merge [OF m g d(1) d(2), THEN conjunct1, rule_format])
       (simp add: p)
  then obtain db1 db2 b1 b2 where a:
    "update_board demo_board_db (demo_user 1) 3 (demo_board_patch [(''a'', JInt 1)]) 100
       = Inr (db1, Some b1)"
    "update_board db1 (demo_user 1) 3 (demo_board_patch [(''b'', JInt 2)]) 200 = Inr (db2, Some b2)"
    "\<forall>k. dict_get (or_empty (Board.dimensions b2)) k =
                 (case dict_get [(''b'', JInt 2)] k of Some v \<Rightarrow> Some v
                  | None \<Rightarrow> (case dict_get [(''a'', JInt 1)] k of Some v \<Rightarrow> Some v
                     | None \<Rightarrow> dict_get (or_empty (Board.dimensions demo_board)) k))"
    by blast
  have a1: "db1 = ?db1"
    using trans [OF a(1) [symmetric] u1] by (simp only: sum.inject prod.inject)
  have a2: "b2 = ?b2"
    using trans [OF a(2) [symmetric, unfolded a1] u2]
    by (simp only: sum.inject prod.inject option.inject)
  have A: "map (dict_get (or_empty (Board.dimensions ?b2))) [''a'', ''b'', ''width'', ''depth'']
       = [Some (JInt 1), Some (JInt 2), Some (JInt 1920), None]"
    unfolding list.map a(3) [unfolded a2, rule_format] by (simp add: o dict_get_def)
  have "\<exists>db1 db2 el1 el2.
            update_board_element demo_board_db (demo_user 1) 3 4 (demo_element_patch [(''x'', JInt 10)] [(''name'', JStr ''Dragon'')]) 100
              = Inr (db1, Some el1)
          \<and> update_board_element db1 (demo_user 1) 3 4 (demo_element_patch [(''rotation'', JInt 90)] [(''hp'', JInt 500)]) 200
              = Inr (db2, Some el2)
          \<and> find (\<lambda>e. BoardElement.id e = 4 \<and> BoardElement.board_id e = Board.id demo_board)
               (board_elements db1) = Some el1
          \<and> find (\<lambda>e. BoardElement.id e = 4 \<and> BoardElement.board_id e = Board.id demo_board)
               (board_elements db2) = Some el2
          \<and> (\<forall>k. dict_get (or_empty (BoardElement.position el1)) k =
                 (case dict_get [(''x'', JInt 10)] k of Some v \<Rightarrow> Some v
                  | None \<Rightarrow> dict_get (or_empty (BoardElement.position demo_el4)) k))
          \<and> (\<forall>k. dict_get (or_empty (BoardElement.position el2)) k =
                 (case dict_get [(''rotation'', JInt 90)] k of Some v \<Rightarrow> Some v
                  | None \<Rightarrow> (case dict_get [(''x'', JInt 10)] k of Some v \<Rightarrow> Some v
                     | None \<Rightarrow> dict_get (or_empty (BoardElement.position demo_el4)) k)))"
    by (rule partial_updates_merge [OF m g d(3) d(4), THEN conjunct2, THEN conjunct1,
          rule_format])
       (simp add: p f)
  then obtain dc1 dc2 el1 el2 where b:
    "update_board_element demo_board_db (demo_user 1) 3 4 (demo_element_patch [(''x'', JInt 10)] [(''name'', JStr ''Dragon'')]) 100
       = Inr (dc1, Some el1)"
    "update_board_element dc1 (demo_user 1) 3 4 (demo_element_patch [(''rotation'', JInt 90)] [(''hp'', JInt 500)]) 200
       = Inr (dc2, Some el2)"
    "\<forall>k. dict_get (or_empty (BoardElement.position el2)) k =
                 (case dict_get [(''rotation'', JInt 90)] k of Some v \<Rightarrow> Some v
                  | None \<Rightarrow> (case dict_get [(''x'', JInt 10)] k of Some v \<Rightarrow> Some v
                     | None \<Rightarrow> dict_get (or_empty (BoardElement.position demo_el4)) k))"
    by blast
  have b1: "dc1 = ?dc1"
    using trans [OF b(1) [symmetric] v1] by (simp only: sum.inject prod.inject)
  have b2: "el2 = ?e2"
    using trans [OF b(2) [symmetric, unfolded b1] v2]
    by (simp only: sum.inject prod.inject option.inject)
  have B: "map (dict_get (or_empty (BoardElement.position ?e2))) [''x'', ''y'', ''rotation'']
       = [Some (JInt 10), Some (JInt 0), Some (JInt 90)]"
    unfolding list.map b(3) [unfolded b2, rule_format] by (simp add: o dict_get_def)
  have "\<exists>db1 db2 el1 el2.
            update_board_element demo_board_db (demo_user 1) 3 4 (demo_element_patch [(''x'', JInt 10)] [(''name'', JStr ''Dragon'')]) 100
              = Inr (db1, Some el1)
          \<and> update_board_element db1 (demo_user 1) 3 4 (demo_element_patch [(''rotation'', JInt 90)] [(''hp'', JInt 500)]) 200
              = Inr (db2, Some el2)
          \<and> find (\<lambda>e. BoardElement.id e = 4 \<and> BoardElement.board_id e = Board.id demo_board)
               (board_elements db1) = Some el1
          \<and> find (\<lambda>e. BoardElement.id e = 4 \<and> BoardElement.board_id e = Board.id demo_board)
               (board_elements db2) = Some el2
          \<and> (\<forall>k. dict_get (or_empty (BoardElement.content el1)) k =
                 (case dict_get [(''name'', JStr ''Dragon'')] k of Some v \<Rightarrow> Some v
                  | None \<Rightarrow> dict_get (or_empty (BoardElement.content demo_el4)) k))
          \<and> (\<forall>k. dict_get (or_empty (BoardElement.content el2)) k =
                 (case dict_get [(''hp'', JInt 500)] k of Some v \<Rightarrow> Some v
                  | None \<Rightarrow> (case dict_get [(''name'', JStr ''Dragon'')] k of Some v \<Rightarrow> Some v
                     | None \<Rightarrow> dict_get (or_empty (BoardElement.content demo_el4)) k)))"
    by (rule partial_updates_merge [OF m g d(5) d(6), THEN conjunct2, THEN conjunct2,
          rule_format])
       (simp add: p f)
  then obtain dk1 dk2 ek1 ek2 where c:
    "update_board_element demo_board_db (demo_user 1) 3 4 (demo_element_patch [(''x'', JInt 10)] [(''name'', JStr ''Dragon'')]) 100
       = Inr (dk1, Some ek1)"
    "update_board_element dk1 (demo_user 1) 3 4 (demo_element_patch [(''rotation'', JInt 90)] [(''hp'', JInt 500)]) 200
       = Inr (dk2, Some ek2)"
    "\<forall>k. dict_get (or_empty (BoardElement.content ek2)) k =
                 (case dict_get [(''hp'', JInt 500)] k of Some v \<Rightarrow> Some v
                  | None \<Rightarrow> (case dict_get [(''name'', JStr ''Dragon'')] k of Some v \<Rightarrow> Some v
                     | None \<Rightarrow> dict_get (or_empty (BoardElement.content demo_el4)) k))"
    by blast
  have c1: "dk1 = ?dc1"
    using trans [OF c(1) [symmetric] v1] by (simp only: sum.inject prod.inject)
  have c2: "ek2 = ?e2"
    using trans [OF c(2) [symmetric, unfolded c1] v2]
    by (simp only: sum.inject prod.inject option.inject)
  have C: "map (dict_get (or_empty (BoardElement.content ?e2))) [''name'', ''hp'']
       = [Some (JStr ''Dragon''), Some (JInt 500)]"
    unfolding list.map c(3) [unfolded c2, rule_format] by (simp add: o dict_get_def)
  show ?thesis
    by (intro conjI) (rule u1 u2 A v1 v2 B C)+
qed

section \<open>Refresh token rotation\<close>

lemma spent_subset:
  "spent t db \<Longrightarrow> set (refresh_tokens db') \<subseteq> set (refresh_tokens db) \<Longrightarrow> spent t db'"
  by (auto simp: spent_def)

lemma spent_cleanup: "spent t db \<Longrightarrow> spent t (cleanup_expired_tokens db uid now)"
  by (auto simp: spent_def cleanup_expired_tokens_def)

lemma spent_append:
  "spent t db \<Longrightarrow> token new \<noteq> t \<Longrightarrow>
   refresh_tokens db' = refresh_tokens db @ [new] \<Longrightarrow> spent t db'"
  by (auto simp: spent_def)

lemma spent_update_row:
  "spent t db \<Longrightarrow> revoked new \<Longrightarrow>
   refresh_tokens db' = update_row RefreshToken.id new (refresh_tokens db) \<Longrightarrow> spent t db'"
  by (auto simp: spent_def update_row_def)

lemma renew_token_success:
  assumes "renew_token db r now n = Inr (db', x)"
  obtains token_db usr where
      "find (\<lambda>ra. token ra = r \<and> revoked ra = False) (refresh_tokens db) = Some token_db"
    and "\<not> expires_at token_db < now"
    and "find (\<lambda>u. User.id u = RefreshToken.user_id token_db) (users db) = Some usr"
    and "User.is_active usr"
    and "RefreshToken.id token_db
             \<in> set (map RefreshToken.id
                      (refresh_tokens (cleanup_expired_tokens db (User.id usr) now)))"
    and "n \<notin> set (map token (refresh_tokens (cleanup_expired_tokens db (User.id usr) now)))"
    and "refresh_tokens db' =
              update_row RefreshToken.id (token_db\<lparr>revoked := True, revoked_at := Some now\<rparr>)
                (refresh_tokens (cleanup_expired_tokens db (User.id usr) now))
              @ [new_refresh_row (cleanup_expired_tokens db (User.id usr) now) n (User.id usr) now]"
    and "users db' = users db"
    and "x = n"
proof -
  from assms obtain token_db where
    f: "find (\<lambda>ra. token ra = r \<and> revoked ra = False) (refresh_tokens db) = Some token_db"
    by (cases "find (\<lambda>ra. token ra = r \<and> revoked ra = False) (refresh_tokens db)")
       (simp_all add: renew_token_def)
  from assms f have e: "\<not> expires_at token_db < now"
    by (cases "expires_at token_db < now") (simp_all add: renew_token_def)
  from assms f e obtain usr where
    u: "find (\<lambda>u. User.id u = RefreshToken.user_id token_db) (users db) = Some usr"
    by (cases "find (\<lambda>u. User.id u = RefreshToken.user_id token_db) (users db)")
       (simp_all add: renew_token_def)
  from assms f e u have a: "User.is_active usr"
    by (cases "User.is_active usr") (simp_all add: renew_token_def)
  let ?rem = "refresh_tokens (cleanup_expired_tokens db (User.id usr) now)"
  from assms f e u a have s: "RefreshToken.id token_db \<in> set (map RefreshToken.id ?rem)"
    by (cases "RefreshToken.id token_db \<in> set (map RefreshToken.id ?rem)")
       (simp_all add: renew_token_def Let_def)
  from assms f e u a s have i: "n \<notin> set (map token ?rem)"
    by (cases "n \<in> set (map token ?rem)") (simp_all add: renew_token_def Let_def)
  let ?new = "db\<lparr>refresh_tokens :=
              update_row RefreshToken.id (token_db\<lparr>revoked := True, revoked_at := Some now\<rparr>) ?rem
              @ [new_refresh_row (cleanup_expired_tokens db (User.id usr) now) n (User.id usr) now]\<rparr>"
  have v: "renew_token db r now n = Inr (?new, n)"
    using f e u a s i by (simp add: renew_token_def Let_def)
  note eq = trans [OF assms [symmetric] v]
  have d1: "db' = ?new"
    using eq by (simp only: sum.inject prod.inject)
  have d2: "x = n"
    using eq by (simp only: sum.inject prod.inject)
  show thesis
    by (rule that [OF f e u a s i _ _ d2]) (simp_all add: d1)
qed

lemma spent_renew:
  assumes "spent t db" and "n \<noteq> t"
  shows "spent t (apply_auth_op verify (Renew r now n) db)"
proof (cases "renew_token db r now n")
  case (Inl e)
  then show ?thesis using assms by simp
next
  case (Inr p)
  then obtain db' x where p: "renew_token db r now n = Inr (db', x)" by (cases p) auto
  have "spent t db'"
  proof (rule renew_token_success [OF p])
    fix token_db usr
    assume d: "refresh_tokens db' =
          update_row RefreshToken.id (token_db\<lparr>revoked := True, revoked_at := Some now\<rparr>)
            (refresh_tokens (cleanup_expired_tokens db (User.id usr) now))
          @ [new_refresh_row (cleanup_expired_tokens db (User.id usr) now) n (User.id usr) now]"
    let ?mid = "db\<lparr>refresh_tokens := update_row RefreshToken.id
                 (token_db\<lparr>revoked := True, revoked_at := Some now\<rparr>)
                 (refresh_tokens (cleanup_expired_tokens db (User.id usr) now))\<rparr>"
    have m: "spent t ?mid"
      by (rule spent_update_row [OF spent_cleanup [OF assms(1), of "User.id usr" now]]) simp_all
    have k: "token (new_refresh_row (cleanup_expired_tokens db (User.id usr) now) n (User.id usr) now) \<noteq> t"
      using assms(2) by (simp add: new_refresh_row_def)
    show "spent t db'"
      by (rule spent_append [OF m k]) (simp add: d)
  qed
  then show ?thesis using p by simp
qed

lemma spent_authenticate:
  assumes "spent t db" and "n \<noteq> t"
  shows "spent t (apply_auth_op verify (Authenticate m p now n) db)"
proof (cases "find (\<lambda>u. email u = lower_strip m) (users db)")
  case None
  then show ?thesis using assms(1) by (simp add: authenticate_user_def)
next
  case (Some usr)
  let ?db1 = "cleanup_expired_tokens db (User.id usr) now"
  let ?db2 = "?db1\<lparr>refresh_tokens :=
                 refresh_tokens ?db1 @ [new_refresh_row ?db1 n (User.id usr) now]\<rparr>"
  have c: "spent t ?db1"
    by (rule spent_cleanup [OF assms(1)])
  have k: "token (new_refresh_row ?db1 n (User.id usr) now) \<noteq> t"
    using assms(2) by (simp add: new_refresh_row_def)
  have a: "spent t ?db2"
    by (rule spent_append [OF c k]) simp
  have "fst (authenticate_user verify db m p now n) = db
      \<or> fst (authenticate_user verify db m p now n) = ?db1
      \<or> fst (authenticate_user verify db m p now n) = ?db2"
    using Some by (simp add: authenticate_user_def Let_def)
  then show ?thesis
    using assms(1) c a by (elim disjE) simp_all
qed

lemma spent_revoke:
  assumes "spent t db"
  shows "spent t (apply_auth_op verify (Revoke r now) db)"
proof (cases "revoke_token db r now")
  case (Inl e)
  then show ?thesis using assms by simp
next
  case (Inr p)
  then obtain db' x where p: "revoke_token db r now = Inr (db', x)" by (cases p) auto
  then obtain token_db where
    "refresh_tokens db' = update_row RefreshToken.id
        (token_db\<lparr>revoked := True, revoked_at := Some now\<rparr>) (refresh_tokens db)"
    by (auto simp: revoke_token_def split: option.splits if_splits)
  then have "spent t db'"
    by (intro spent_update_row [OF assms]) simp_all
  then show ?thesis using p by simp
qed

lemma spent_revoke_all:
  assumes "spent t db"
  shows "spent t (apply_auth_op verify (RevokeAll r now) db)"
  using assms
  by (auto simp: revoke_all_user_tokens_def Let_def spent_def split: option.splits sum.splits)

lemma spent_other:
  assumes "spent t db"
  shows "spent t (apply_auth_op verify (Register m p h) db)"
    and "spent t (apply_auth_op verify (Promote i g) db)"
  using assms
  by (auto simp: register_user_def promote_user_def Let_def spent_def
      split: option.splits sum.splits)

lemma spent_apply:
  assumes "spent t db" and "issued op \<noteq> Some t"
  shows "spent t (apply_auth_op verify op db)"
proof (cases op)
  case (Register m p h)
  then show ?thesis using spent_other(1) [OF assms(1)] by simp
next
  case (Authenticate m p now n)
  then show ?thesis using spent_authenticate [OF assms(1), of n] assms(2) by simp
next
  case (Renew r now n)
  then show ?thesis using spent_renew [OF assms(1), of n] assms(2) by simp
next
  case (Revoke r now)
  then show ?thesis using spent_revoke [OF assms(1)] by simp
next
  case (RevokeAll r now)
  then show ?thesis using spent_revoke_all [OF assms(1)] by simp
next
  case (Promote i g)
  then show ?thesis using spent_other(2) [OF assms(1)] by simp
qed

lemma spent_run:
  "spent t db \<Longrightarrow> \<forall>op \<in> set ops. issued op \<noteq> Some t \<Longrightarrow> spent t (run_auth_ops verify db ops)"
  unfolding run_auth_ops_def
  by (induction ops arbitrary: db) (auto intro: spent_apply)

lemma spent_renew_fails:
  "spent t db \<Longrightarrow> renew_token db t now n = Inl (HTTPException 401 ''Invalid refresh token'')"
  using find_None_set [of "\<lambda>r. token r = t \<and> revoked r = False" "refresh_tokens db"]
  by (auto simp: renew_token_def spent_def)

lemma update_row_mem:
  "x \<in> set xs \<Longrightarrow> pk x' = pk x \<Longrightarrow> x' \<in> set (update_row pk x' xs)"
  by (auto simp: update_row_def)

lemma distinct_pk_eq:
  "distinct (map pk xs) \<Longrightarrow> x \<in> set xs \<Longrightarrow> y \<in> set xs \<Longrightarrow> pk x = pk y \<Longrightarrow> x = y"
  by (auto simp: distinct_map dest: inj_onD)

text \<open>
  C3. When \<^verbatim>\<open>renew_token\<close> succeeds on a token \<open>t\<close> (in a table whose ids and tokens are
  unique, as the primary key and the UNIQUE constraint require): the call returns the new
  token, which differs from \<open>t\<close>; in the database it leaves, the row of \<open>t\<close> is revoked
  with the timestamp of the call and the row of the new token is there, unrevoked; no
  unrevoked row holds \<open>t\<close>; and after any sequence of requests to the authentication
  service that issue other tokens than \<open>t\<close>, at any time, \<^verbatim>\<open>renew_token\<close> on \<open>t\<close> fails
  with 401 ``Invalid refresh token''. With the empty sequence this is the immediate
  replay.
\<close>

theorem renew_token_single_use:
  assumes "renew_token db t now n = Inr (db', x)"
    and "distinct (map RefreshToken.id (refresh_tokens db))"
    and "distinct (map token (refresh_tokens db))"
  shows "x = n \<and> n \<noteq> t
    \<and> (\<exists>r \<in> set (refresh_tokens db'). token r = t \<and> revoked r \<and> revoked_at r = Some now)
    \<and> (\<exists>r \<in> set (refresh_tokens db'). token r = n \<and> \<not> revoked r)
    \<and> (\<forall>r \<in> set (refresh_tokens db'). token r = t \<longrightarrow> revoked r)
    \<and> (\<forall>ops now' n'. (\<forall>op \<in> set ops. issued op \<noteq> Some t) \<longrightarrow>
           renew_token (run_auth_ops verify db' ops) t now' n' =
             Inl (HTTPException 401 ''Invalid refresh token''))"
proof (rule renew_token_success [OF assms(1)])
  fix token_db :: RefreshToken and usr :: User
  let ?rem = "refresh_tokens (cleanup_expired_tokens db (User.id usr) now)"
  let ?tok' = "token_db\<lparr>revoked := True, revoked_at := Some now\<rparr>"
  let ?new = "new_refresh_row (cleanup_expired_tokens db (User.id usr) now) n (User.id usr) now"
  assume f: "find (\<lambda>ra. token ra = t \<and> revoked ra = False) (refresh_tokens db) = Some token_db"
    and s: "RefreshToken.id token_db \<in> set (map RefreshToken.id ?rem)"
    and i: "n \<notin> set (map token ?rem)"
    and d: "refresh_tokens db' = update_row RefreshToken.id ?tok' ?rem @ [?new]"
    and x: "x = n"
  have sub: "set ?rem \<subseteq> set (refresh_tokens db)"
    by (auto simp: cleanup_expired_tokens_def)
  have tm: "token_db \<in> set (refresh_tokens db)" and tt: "token token_db = t"
    using find_Some_mem [OF f] by auto
  from s obtain y where y: "y \<in> set ?rem" "RefreshToken.id y = RefreshToken.id token_db"
    by auto
  have "y = token_db"
    using distinct_pk_eq [OF assms(2), of y token_db] y sub tm by auto
  with y have tr: "token_db \<in> set ?rem" by simp
  have nt: "n \<noteq> t"
    using i tr tt by auto
  have a: "?tok' \<in> set (refresh_tokens db')"
    using update_row_mem [OF tr, of RefreshToken.id ?tok'] by (simp add: d)
  have b: "?new \<in> set (refresh_tokens db')"
    by (simp add: d)
  have sp: "\<forall>r \<in> set (refresh_tokens db'). token r = t \<longrightarrow> revoked r"
  proof (intro ballI impI)
    fix r assume r: "r \<in> set (refresh_tokens db')" and rt: "token r = t"
    from r d consider "r = ?new" | "r \<in> set (update_row RefreshToken.id ?tok' ?rem)"
      by auto
    then show "revoked r"
    proof cases
      case 1
      with rt nt show ?thesis by (simp add: new_refresh_row_def)
    next
      case 2
      then consider "r = ?tok'" | "r \<in> set ?rem" "RefreshToken.id r \<noteq> RefreshToken.id token_db"
        by (auto simp: update_row_def split: if_splits)
      then show ?thesis
      proof cases
        case 1
        then show ?thesis by simp
      next
        case 2
        have "r = token_db"
          using distinct_pk_eq [OF assms(3), of r token_db] 2(1) sub tm rt tt by auto
        with 2(2) show ?thesis by simp
      qed
    qed
  qed
  then have spent: "spent t db'"
    by (simp add: spent_def)
  have c3: "\<exists>r \<in> set (refresh_tokens db'). token r = t \<and> revoked r \<and> revoked_at r = Some now"
    using a tt by (intro bexI [of _ ?tok']) simp_all
  have c4: "\<exists>r \<in> set (refresh_tokens db'). token r = n \<and> \<not> revoked r"
    using b by (intro bexI [of _ ?new]) (simp_all add: new_refresh_row_def)
  have c6: "\<forall>ops now' n'. (\<forall>op \<in> set ops. issued op \<noteq> Some t) \<longrightarrow>
           renew_token (run_auth_ops verify db' ops) t now' n' =
             Inl (HTTPException 401 ''Invalid refresh token'')"
  proof (intro allI impI)
    fix ops now' n'
    assume "\<forall>op \<in> set ops. issued op \<noteq> Some t"
    then show "renew_token (run_auth_ops verify db' ops) t now' n' =
             Inl (HTTPException 401 ''Invalid refresh token'')"
      by (intro spent_renew_fails spent_run [OF spent])
  qed
  show ?thesis
    by (intro conjI) (rule x nt c3 c4 sp c6)+
qed

lemma demo_auth_tables:
  "users demo_auth_db = [demo_user 1, demo_user 2]"
  "refresh_tokens demo_auth_db = [demo_token 1 ''tok-a'' 1 1000, demo_token 2 ''tok-b'' 2 1000]"
  by (simp_all add: demo_auth_db_def)

lemma demo_renew:
  "renew_token demo_auth_db ''tok-a'' 500 ''tok-c'' =
     Inr (demo_auth_db\<lparr>refresh_tokens :=
            [(demo_token 1 ''tok-a'' 1 1000)\<lparr>revoked := True, revoked_at := Some 500\<rparr>,
             demo_token 2 ''tok-b'' 2 1000,
             (demo_token 3 ''tok-c'' 1 (500 + days 7))\<lparr>created_at := 500\<rparr>]\<rparr>,
          ''tok-c'')"
  by (simp add: renew_token_def demo_auth_tables demo_token_def demo_user_def Let_def
      cleanup_expired_tokens_def cleanup_matches_def new_refresh_row_def update_row_def
      fresh_id_def REFRESH_TOKEN_EXPIRE_DAYS_def)

theorem renew_token_single_use_witness:
  "renew_token demo_auth_db ''tok-a'' 500 ''tok-c'' =
     Inr (demo_auth_db\<lparr>refresh_tokens :=
            [(demo_token 1 ''tok-a'' 1 1000)\<lparr>revoked := True, revoked_at := Some 500\<rparr>,
             demo_token 2 ''tok-b'' 2 1000,
             (demo_token 3 ''tok-c'' 1 (500 + days 7))\<lparr>created_at := 500\<rparr>]\<rparr>,
          ''tok-c'')
   \<and> distinct (map RefreshToken.id (refresh_tokens demo_auth_db))
   \<and> distinct (map token (refresh_tokens demo_auth_db))
   \<and> renew_token (demo_auth_db\<lparr>refresh_tokens :=
            [(demo_token 1 ''tok-a'' 1 1000)\<lparr>revoked := True, revoked_at := Some 500\<rparr>,
             demo_token 2 ''tok-b'' 2 1000,
             (demo_token 3 ''tok-c'' 1 (500 + days 7))\<lparr>created_at := 500\<rparr>]\<rparr>)
         ''tok-a'' 600 ''tok-d'' = Inl (HTTPException 401 ''Invalid refresh token'')
   \<and> renew_token
         (run_auth_ops (\<lambda>p h. True)
            (demo_auth_db\<lparr>refresh_tokens :=
              [(demo_token 1 ''tok-a'' 1 1000)\<lparr>revoked := True, revoked_at := Some 500\<rparr>,
               demo_token 2 ''tok-b'' 2 1000,
               (demo_token 3 ''tok-c'' 1 (500 + days 7))\<lparr>created_at := 500\<rparr>]\<rparr>)
            [Renew ''tok-c'' 700 ''tok-e'', Revoke ''tok-b'' 800,
             Authenticate ''u@x.com'' ''password123'' 900 ''tok-f''])
         ''tok-a'' 1000 ''tok-g'' = Inl (HTTPException 401 ''Invalid refresh token'')"
proof -
  have d1: "distinct (map RefreshToken.id (refresh_tokens demo_auth_db))"
    by (simp add: demo_auth_tables demo_token_def)
  have d2: "distinct (map token (refresh_tokens demo_auth_db))"
    by (simp add: demo_auth_tables demo_token_def)
  note th = renew_token_single_use [OF demo_renew d1 d2, of "\<lambda>p h. True",
      THEN conjunct2, THEN conjunct2, THEN conjunct2, THEN conjunct2, THEN conjunct2, rule_format]
  have a: "renew_token (demo_auth_db\<lparr>refresh_tokens :=
            [(demo_token 1 ''tok-a'' 1 1000)\<lparr>revoked := True, revoked_at := Some 500\<rparr>,
             demo_token 2 ''tok-b'' 2 1000,
             (demo_token 3 ''tok-c'' 1 (500 + days 7))\<lparr>created_at := 500\<rparr>]\<rparr>)
         ''tok-a'' 600 ''tok-d'' = Inl (HTTPException 401 ''Invalid refresh token'')"
    using th [of "[]" 600 "''tok-d''"] by (simp add: run_auth_ops_def)
  have b: "renew_token
         (run_auth_ops (\<lambda>p h. True)
            (demo_auth_db\<lparr>refresh_tokens :=
              [(demo_token 1 ''tok-a'' 1 1000)\<lparr>revoked := True, revoked_at := Some 500\<rparr>,
               demo_token 2 ''tok-b'' 2 1000,
               (demo_token 3 ''tok-c'' 1 (500 + days 7))\<lparr>created_at := 500\<rparr>]\<rparr>)
            [Renew ''tok-c'' 700 ''tok-e'', Revoke ''tok-b'' 800,
             Authenticate ''u@x.com'' ''password123'' 900 ''tok-f''])
         ''tok-a'' 1000 ''tok-g'' = Inl (HTTPException 401 ''Invalid refresh token'')"
    by (rule th) auto
  show ?thesis using demo_renew d1 d2 a b by simp
qed

section \<open>A character's gold\<close>

lemma fgt_asym: "fgt x y \<Longrightarrow> \<not> fgt y x"
  by (cases x; cases y) (auto simp: min.commute)

lemma fgt_zero_zero: "\<not> fgt (Finite False 0 0) (Finite False 0 0)"
  by (simp add: scaled_def)

lemma py_max_zero:
  "py_max (Finite False 0 0) x = Finite False 0 0 \<or> fgt (py_max (Finite False 0 0) x) (Finite False 0 0)"
  by (simp add: py_max_def)

lemma py_max_zero_not_negative:
  "\<not> fgt (Finite False 0 0) (py_max (Finite False 0 0) x) \<and> py_max (Finite False 0 0) x \<noteq> NaN"
proof (cases "fgt x (Finite False 0 0)")
  case True
  then have "x \<noteq> NaN" by (cases x) auto
  with True fgt_asym [OF True] show ?thesis by (simp add: py_max_def)
next
  case False
  then show ?thesis using fgt_zero_zero by (simp add: py_max_def)
qed

lemma scaled_pos: "0 < scaled e s m e' \<longleftrightarrow> \<not> s \<and> 0 < m"
  by (auto simp: scaled_def zero_less_mult_iff)

lemma scaled_zero: "scaled e s 0 e' = 0"
  by (simp add: scaled_def)

lemma finite_not_gt_zero: "fgt (Finite True m e) (Finite False 0 0) = False"
  by (simp add: scaled_pos scaled_zero)

lemma fadd_overdraw:
  assumes "fgt (fneg amount) g"
  shows "\<not> fgt (fadd fl g amount) (Finite False 0 0)"
proof (cases g)
  case NaN
  with assms show ?thesis by (cases amount) auto
next
  case (Infinity s)
  with assms show ?thesis by (cases amount) auto
next
  case g: (Finite s m e)
  show ?thesis
  proof (cases amount)
    case NaN
    with assms show ?thesis by simp
  next
    case (Infinity s')
    with assms g show ?thesis by auto
  next
    case a: (Finite s' m' e')
    let ?k = "scaled (min e e') s m e + scaled (min e e') s' m' e'"
    have neg: "scaled d (\<not> s') m' e' = - scaled d s' m' e'" for d
      by (simp add: scaled_def)
    from assms g a have "?k < 0"
      by (simp add: neg min.commute)
    then show ?thesis
      unfolding g a
      by (auto simp: Let_def scaled_pos scaled_zero split: option.splits)
  qed
qed

text \<open>
  C10. When the requester is the MJ of the session and the character belongs to it,
  \<^verbatim>\<open>update_character_gold\<close> succeeds and stores (and returns) the character with gold
  \<^verbatim>\<open>max(0.0, gold + amount)\<close>, for every amount and every rounding of the sum. That value
  is \<open>+0.0\<close> or greater than zero: never below zero and never NaN. When the amount
  deducts more than the balance (\<^verbatim>\<open>-amount > gold\<close>) it is exactly \<open>+0.0\<close>.
\<close>

theorem update_character_gold_clamped:
  assumes "check_is_mj db u jid = Inr j"
    and "find (\<lambda>c. Character.id c = cid \<and> Character.jdr_id c = jid) (characters db) = Some ch"
  shows "(let g = py_max (Finite False 0 0) (fadd fl (gold ch) amount)
          in update_character_gold fl db u jid cid amount =
               Inr (db\<lparr>characters := update_row Character.id (ch\<lparr>gold := g\<rparr>) (characters db)\<rparr>,
                    Some (ch\<lparr>gold := g\<rparr>))
           \<and> (g = Finite False 0 0 \<or> fgt g (Finite False 0 0))
           \<and> \<not> fgt (Finite False 0 0) g
           \<and> g \<noteq> NaN
           \<and> (fgt (fneg amount) (gold ch) \<longrightarrow> g = Finite False 0 0))"
proof -
  let ?g = "py_max (Finite False 0 0) (fadd fl (gold ch) amount)"
  let ?ch = "ch\<lparr>gold := ?g\<rparr>"
  have mem: "ch \<in> set (characters db)"
    using find_Some_mem [OF assms(2)] by simp
  have q: "find (\<lambda>c. Character.id c = Character.id ?ch)
             (update_row Character.id ?ch (characters db)) = Some ?ch"
    using mem by (intro find_update_row) auto
  have r: "update_character_gold fl db u jid cid amount =
               Inr (db\<lparr>characters := update_row Character.id ?ch (characters db)\<rparr>, Some ?ch)"
    using q by (simp add: update_character_gold_def assms Let_def get_character_with_images_def)
  have c: "fgt (fneg amount) (gold ch) \<longrightarrow> ?g = Finite False 0 0"
    using fadd_overdraw [of amount "gold ch" fl] by (simp add: py_max_def)
  show ?thesis
    unfolding Let_def
    using r c py_max_zero [of "fadd fl (gold ch) amount"]
      py_max_zero_not_negative [of "fadd fl (gold ch) amount"]
    by (intro conjI) simp_all
qed

theorem update_character_gold_clamped_witness:
  "check_is_mj demo_game_db (demo_user 1) 1 = Inr (demo_jdr 1 JDRStatus.open 1)
   \<and> fgt (fneg (Finite True 9999 0)) (Finite False 50 0)
   \<and> update_character_gold (\<lambda>m e. Some (m, e)) demo_game_db (demo_user 1) 1 1
        (Finite True 9999 0) =
       Inr (demo_game_db\<lparr>characters :=
              [\<lparr>Character.id = 1, jdr_id = 1, owner_id = 2, name = ''Thorin'',
                avatar_image_id = None, gold = Finite False 0 0\<rparr>]\<rparr>,
            Some \<lparr>Character.id = 1, jdr_id = 1, owner_id = 2, name = ''Thorin'',
                avatar_image_id = None, gold = Finite False 0 0\<rparr>)
   \<and> update_character_gold (\<lambda>m e. Some (m, e)) demo_game_db (demo_user 1) 1 1
        (Finite True 30 0) =
       Inr (demo_game_db\<lparr>characters :=
              [\<lparr>Character.id = 1, jdr_id = 1, owner_id = 2, name = ''Thorin'',
                avatar_image_id = None, gold = Finite False 20 0\<rparr>]\<rparr>,
            Some \<lparr>Character.id = 1, jdr_id = 1, owner_id = 2, name = ''Thorin'',
                avatar_image_id = None, gold = Finite False 20 0\<rparr>)"
proof -
  let ?thorin = "\<lparr>Character.id = 1, jdr_id = 1, owner_id = 2, name = ''Thorin'',
                     avatar_image_id = None, gold = Finite False 50 0\<rparr>"
  have m: "check_is_mj demo_game_db (demo_user 1) 1 = Inr (demo_jdr 1 JDRStatus.open 1)"
    by (simp add: check_is_mj_def demo_game_tables demo_jdr_def demo_user_def)
  have f: "find (\<lambda>c. Character.id c = 1 \<and> Character.jdr_id c = 1) (characters demo_game_db)
             = Some ?thorin"
    by (simp add: demo_game_tables)
  have o: "fgt (fneg (Finite True 9999 0)) (Finite False 50 0)"
    by (simp add: scaled_def)
  have g1: "py_max (Finite False 0 0)
              (fadd (\<lambda>m e. Some (m, e)) (gold ?thorin) (Finite True 30 0)) = Finite False 20 0"
    by (simp add: py_max_def scaled_def)
  have a: "update_character_gold (\<lambda>m e. Some (m, e)) demo_game_db (demo_user 1) 1 1
        (Finite True 9999 0) =
       Inr (demo_game_db\<lparr>characters := [?thorin\<lparr>gold := Finite False 0 0\<rparr>]\<rparr>,
            Some (?thorin\<lparr>gold := Finite False 0 0\<rparr>))"
    using update_character_gold_clamped [OF m f, of "\<lambda>m e. Some (m, e)" "Finite True 9999 0"] o
    by (simp add: Let_def demo_game_tables update_row_def)
  have b: "update_character_gold (\<lambda>m e. Some (m, e)) demo_game_db (demo_user 1) 1 1
        (Finite True 30 0) =
       Inr (demo_game_db\<lparr>characters := [?thorin\<lparr>gold := Finite False 20 0\<rparr>]\<rparr>,
            Some (?thorin\<lparr>gold := Finite False 20 0\<rparr>))"
    using update_character_gold_clamped [OF m f, of "\<lambda>m e. Some (m, e)" "Finite True 30 0",
        unfolded Let_def g1, THEN conjunct1]
    by (simp add: demo_game_tables update_row_def)
  show ?thesis using m o a b by simp
qed

end
